(* ===== verification/Prelude.thy ===== *)
theory Prelude
  imports Complex_Main "HOL-Library.Word" "HOL-Library.Sublist"
begin

text \<open>
  Shared vocabulary of the development. Python values that the two scripts
  exchange are modelled here once:
  \<^item> Python \<open>str\<close> values are UTF-8 byte strings (\<open>string\<close>, one \<open>char\<close> per byte);
    the scripts' non-ASCII literals (the rupee sign, the emoji of the sentiment
    labels and warnings) are written as their UTF-8 bytes;
  \<^item> a raised Python exception is a value of \<open>pyexc\<close>;
  \<^item> the state of Python's \<open>random\<close> module is the sequence of 32-bit outputs of
    its Mersenne Twister (\<open>genrand_uint32\<close>), of which a run uses a finite prefix:
    \<open>rng = 32 word list\<close>. A computation that draws random numbers is an
    \<open>'a rand\<close>: it either runs out of generator output (\<open>None\<close>: it needs more
    words than the prefix holds, and a loop that never accepts a word never
    returns) or returns a result, a value or a raised exception, with the
    remaining output.
\<close>

named_theorems rand_simps \<open>evaluation rules of the random-source monad\<close>
named_theorems py_eval \<open>rules that evaluate the model on concrete Python values\<close>

declare char_of_eq_iff [py_eval]

lemma eq_char_of_iff [py_eval]: "c = char_of n \<longleftrightarrow> take_bit 8 n = of_char c"
  by (metis char_of_eq_iff)

type_synonym pystr = string
type_synonym rng = "32 word list"

datatype pyexc =
    ValueError pystr
  | TypeError pystr
  | KeyError pystr
  | IndexError pystr

type_synonym 'a rand = "rng \<Rightarrow> ((pyexc + 'a) \<times> rng) option"

definition rreturn :: "'a \<Rightarrow> 'a rand" where
  "rreturn x ws = Some (Inr x, ws)"

definition rraise :: "pyexc \<Rightarrow> 'a rand" where
  "rraise e ws = Some (Inl e, ws)"

definition rbind :: "'a rand \<Rightarrow> ('a \<Rightarrow> 'b rand) \<Rightarrow> 'b rand" where
  "rbind m f ws =
     (case m ws of
        None \<Rightarrow> None
      | Some (Inl e, ws') \<Rightarrow> Some (Inl e, ws')
      | Some (Inr x, ws') \<Rightarrow> f x ws')"

text \<open>\<open>rcatch m h\<close> is \<open>try: m except e: h(e)\<close>.\<close>

definition rcatch :: "'a rand \<Rightarrow> (pyexc \<Rightarrow> 'a) \<Rightarrow> 'a rand" where
  "rcatch m h ws =
     (case m ws of
        None \<Rightarrow> None
      | Some (Inl e, ws') \<Rightarrow> Some (Inr (h e), ws')
      | Some (Inr x, ws') \<Rightarrow> Some (Inr x, ws'))"

text \<open>A pure step that may raise (\<open>Inl\<close>), as a step of a random computation.\<close>

definition rfrom :: "pyexc + 'a \<Rightarrow> 'a rand" where
  "rfrom r ws = Some (r, ws)"

text \<open>Lifting a draw that cannot raise (it only needs generator output).\<close>

definition rlift :: "(rng \<Rightarrow> ('a \<times> rng) option) \<Rightarrow> 'a rand" where
  "rlift m ws = map_option (\<lambda>(x, ws'). (Inr x, ws')) (m ws)"

definition rmap :: "('a \<Rightarrow> 'b) \<Rightarrow> 'a rand \<Rightarrow> 'b rand" where
  "rmap f m = rbind m (\<lambda>x. rreturn (f x))"

lemma rreturn_apply [rand_simps, simp]: "rreturn x ws = Some (Inr x, ws)"
  by (simp add: rreturn_def)

lemma rraise_apply [rand_simps, simp]: "rraise e ws = Some (Inl e, ws)"
  by (simp add: rraise_def)

lemma rbind_rreturn [rand_simps, simp]: "rbind (rreturn x) f = f x"
  by (simp add: rbind_def fun_eq_iff)

lemma rbind_rraise [rand_simps, simp]: "rbind (rraise e) f = rraise e"
  by (simp add: rbind_def fun_eq_iff)

lemma rbind_apply [rand_simps]:
  "rbind m f ws =
     (case m ws of
        None \<Rightarrow> None
      | Some (Inl e, ws') \<Rightarrow> Some (Inl e, ws')
      | Some (Inr x, ws') \<Rightarrow> f x ws')"
  by (fact rbind_def)

lemma rbind_Some_Inr [simp]:
  "m ws = Some (Inr x, ws') \<Longrightarrow> rbind m f ws = f x ws'"
  by (simp add: rbind_def)

lemma rbind_Some_Inl [simp]:
  "m ws = Some (Inl e, ws') \<Longrightarrow> rbind m f ws = Some (Inl e, ws')"
  by (simp add: rbind_def)

lemma rbind_None [simp]: "m ws = None \<Longrightarrow> rbind m f ws = None"
  by (simp add: rbind_def)

lemma rbind_eq_Some_Inr:
  "rbind m f ws = Some (Inr y, ws'') \<longleftrightarrow>
     (\<exists>x ws'. m ws = Some (Inr x, ws') \<and> f x ws' = Some (Inr y, ws''))"
  by (auto simp: rbind_def split: option.splits sum.splits)

lemma rbind_eq_Some_Inl:
  "rbind m f ws = Some (Inl e, ws'') \<longleftrightarrow>
     (m ws = Some (Inl e, ws'') \<or> (\<exists>x ws'. m ws = Some (Inr x, ws') \<and> f x ws' = Some (Inl e, ws'')))"
  by (auto simp: rbind_def split: option.splits sum.splits)

lemma rbind_eq_None:
  "rbind m f ws = None \<longleftrightarrow> (m ws = None \<or> (\<exists>x ws'. m ws = Some (Inr x, ws') \<and> f x ws' = None))"
  by (auto simp: rbind_def split: option.splits sum.splits)

lemma rlift_apply [rand_simps, simp]:
  "rlift m ws = map_option (\<lambda>(x, ws'). (Inr x, ws')) (m ws)"
  by (fact rlift_def)

lemma rfrom_apply [rand_simps, simp]: "rfrom r ws = Some (r, ws)"
  by (simp add: rfrom_def)

lemma rbind_rlift [rand_simps, simp]:
  "rbind (rlift m) f ws = (case m ws of None \<Rightarrow> None | Some (x, ws') \<Rightarrow> f x ws')"
  by (simp add: rbind_def split: option.splits)

lemma rmap_rlift [rand_simps, simp]:
  "rmap f (rlift m) ws = map_option (\<lambda>(x, ws'). (Inr (f x), ws')) (m ws)"
  by (simp add: rmap_def split: option.splits)

lemma rcatch_apply [rand_simps]:
  "rcatch m h ws =
     (case m ws of
        None \<Rightarrow> None
      | Some (Inl e, ws') \<Rightarrow> Some (Inr (h e), ws')
      | Some (Inr x, ws') \<Rightarrow> Some (Inr x, ws'))"
  by (fact rcatch_def)

lemma rcatch_never_raises: "rcatch m h ws \<noteq> Some (Inl e, ws')"
  by (auto simp: rcatch_def split: option.splits sum.splits)

lemma rcatch_eq_Some_Inr:
  "rcatch m h ws = Some (Inr r, ws') \<longleftrightarrow>
     (\<exists>e. m ws = Some (Inl e, ws') \<and> r = h e) \<or> m ws = Some (Inr r, ws')"
  by (auto simp: rcatch_def split: option.splits sum.splits)

lemma rmap_eq_Some:
  "rmap f m ws = Some (Inr y, ws') \<longleftrightarrow> (\<exists>x. m ws = Some (Inr x, ws') \<and> y = f x)"
  "rmap f m ws = Some (Inl e, ws') \<longleftrightarrow> m ws = Some (Inl e, ws')"
  by (auto simp: rmap_def rbind_def split: option.splits sum.splits)

subsection \<open>More generator output never changes a result\<close>

text \<open>
  The model runs on a finite prefix of the generator's output. A computation is
  \<open>rstable\<close> (stable) when giving it a longer prefix changes nothing but the words left over:
  then a result computed on a prefix is the result of the real, unbounded run.
\<close>

definition rstable :: "'a rand \<Rightarrow> bool" where
  "rstable m \<longleftrightarrow> (\<forall>ws more r ws'. m ws = Some (r, ws') \<longrightarrow> m (ws @ more) = Some (r, ws' @ more))"

lemma stableD: "rstable m \<Longrightarrow> m ws = Some (r, ws') \<Longrightarrow> m (ws @ more) = Some (r, ws' @ more)"
  by (simp add: rstable_def)

lemma rstable_rreturn [intro, simp]: "rstable (rreturn x)"
  by (simp add: rstable_def)

lemma rstable_rraise [intro, simp]: "rstable (rraise e)"
  by (simp add: rstable_def)

lemma rstable_rfrom [intro, simp]: "rstable (rfrom r)"
  by (simp add: rstable_def)

lemma rstable_rbind [intro]:
  assumes "rstable m" and "\<And>x. rstable (f x)"
  shows "rstable (rbind m f)"
  unfolding rstable_def
proof (intro allI impI)
  fix ws more r ws''
  assume run: "rbind m f ws = Some (r, ws'')"
  then obtain r0 ws' where m: "m ws = Some (r0, ws')"
    by (cases "m ws") (auto simp: rbind_def)
  have m': "m (ws @ more) = Some (r0, ws' @ more)"
    by (rule stableD [OF assms(1) m])
  show "rbind m f (ws @ more) = Some (r, ws'' @ more)"
  proof (cases r0)
    case (Inl e)
    with run m m' show ?thesis by simp
  next
    case (Inr x)
    with run m have fx: "f x ws' = Some (r, ws'')" by simp
    have "f x (ws' @ more) = Some (r, ws'' @ more)"
      by (rule stableD [OF assms(2) fx])
    with Inr m' show ?thesis by simp
  qed
qed

lemma rstable_rcatch [intro]: "rstable m \<Longrightarrow> rstable (rcatch m h)"
  unfolding rstable_def rcatch_def
  by (auto split: option.splits sum.splits)

lemma rstable_rmap [intro]: "rstable m \<Longrightarrow> rstable (rmap f m)"
  by (auto simp: rmap_def)

lemma rstable_rlift [intro]:
  "(\<And>ws x ws' more. m ws = Some (x, ws') \<Longrightarrow> m (ws @ more) = Some (x, ws' @ more)) \<Longrightarrow>
   rstable (rlift m)"
  by (auto simp: rstable_def)

lemma rstable_if [intro]: "rstable a \<Longrightarrow> rstable b \<Longrightarrow> rstable (if c then a else b)"
  by simp

lemma rstable_option_case [intro]:
  "rstable a \<Longrightarrow> (\<And>x. rstable (b x)) \<Longrightarrow> rstable (case y of None \<Rightarrow> a | Some x \<Rightarrow> b x)"
  by (cases y) simp_all

subsection \<open>A bounded supply of accepted words\<close>

text \<open>
  \<open>rbounded k m\<close>: on \<open>k\<close> zero words followed by anything, \<open>m\<close> returns and
  leaves some of those zero words unread. A zero word is accepted by every draw of the
  random module (it reads as 0, below every bound), so \<open>k\<close> bounds the number of
  words the computation consumes when no draw is rejected: the rejection loops end.
\<close>

definition rbounded :: "nat \<Rightarrow> 'a rand \<Rightarrow> bool" where
  "rbounded k m \<longleftrightarrow> (\<forall>rest. \<exists>r j. j \<le> k \<and> m (replicate k 0 @ rest) = Some (r, replicate j 0 @ rest))"

lemma rboundedI:
  "(\<And>rest. \<exists>r j. j \<le> k \<and> m (replicate k 0 @ rest) = Some (r, replicate j 0 @ rest)) \<Longrightarrow> rbounded k m"
  by (simp add: rbounded_def)

lemma rboundedE:
  assumes "rbounded k m"
  obtains r j where "j \<le> k" "m (replicate k 0 @ rest) = Some (r, replicate j 0 @ rest)"
  using assms unfolding rbounded_def by blast

lemma rbounded_mono:
  assumes "rbounded k m" and "k \<le> k'"
  shows "rbounded k' m"
proof (rule rboundedI)
  fix rest
  have split: "replicate k' (0::32 word) @ rest = replicate k 0 @ (replicate (k' - k) 0 @ rest)"
    using assms(2) by (simp add: replicate_add [symmetric])
  obtain r j where j: "j \<le> k"
    and run: "m (replicate k 0 @ (replicate (k' - k) 0 @ rest)) = Some (r, replicate j 0 @ (replicate (k' - k) 0 @ rest))"
    using assms(1) by (rule rboundedE)
  have "m (replicate k' 0 @ rest) = Some (r, replicate (j + (k' - k)) 0 @ rest)"
    using run by (simp only: split replicate_add append_assoc)
  moreover have "j + (k' - k) \<le> k'" using j assms(2) by simp
  ultimately show "\<exists>r j. j \<le> k' \<and> m (replicate k' 0 @ rest) = Some (r, replicate j 0 @ rest)"
    by blast
qed

lemma rbounded_rreturn [intro]: "rbounded k (rreturn x)"
  by (rule rboundedI) auto

lemma rbounded_rraise [intro]: "rbounded k (rraise e)"
  by (rule rboundedI) auto

lemma rbounded_rfrom [intro]: "rbounded k (rfrom r)"
  by (rule rboundedI) auto

lemma rbounded_rbind:
  assumes m: "rbounded k1 m"
    and f: "\<And>x ws ws'. m ws = Some (Inr x, ws') \<Longrightarrow> rbounded k2 (f x)"
  shows "rbounded (k1 + k2) (rbind m f)"
proof (rule rboundedI)
  fix rest
  obtain r j where j: "j \<le> k1" and run: "m (replicate k1 0 @ (replicate k2 0 @ rest)) = Some (r, replicate j 0 @ (replicate k2 0 @ rest))"
    using m by (rule rboundedE)
  have eq: "replicate (k1 + k2) (0::32 word) @ rest = replicate k1 0 @ (replicate k2 0 @ rest)"
    by (simp add: replicate_add)
  show "\<exists>r j. j \<le> k1 + k2 \<and> rbind m f (replicate (k1 + k2) 0 @ rest) = Some (r, replicate j 0 @ rest)"
  proof (cases r)
    case (Inl e)
    with run j show ?thesis
      by (intro exI [of _ "Inl e"] exI [of _ "j + k2"]) (simp add: eq rbind_apply replicate_add)
  next
    case (Inr x)
    have swap: "replicate j (0::32 word) @ replicate k2 0 @ rest = replicate k2 0 @ (replicate j 0 @ rest)"
      by (simp add: replicate_add [symmetric] add.commute)
    obtain r' j' where j': "j' \<le> k2" and run': "f x (replicate k2 0 @ (replicate j 0 @ rest)) = Some (r', replicate j' 0 @ (replicate j 0 @ rest))"
      using f [OF run [unfolded Inr]] by (rule rboundedE)
    from run Inr run' j j' show ?thesis
      by (intro exI [of _ r'] exI [of _ "j' + j"]) (simp add: eq rbind_apply swap replicate_add)
  qed
qed

lemma rbounded_rcatch [intro]:
  assumes "rbounded k m"
  shows "rbounded k (rcatch m h)"
proof (rule rboundedI)
  fix rest
  obtain r j where "j \<le> k" "m (replicate k 0 @ rest) = Some (r, replicate j 0 @ rest)"
    using assms by (rule rboundedE)
  then show "\<exists>r j. j \<le> k \<and> rcatch m h (replicate k 0 @ rest) = Some (r, replicate j 0 @ rest)"
    by (cases r) (auto simp: rcatch_apply)
qed

lemma rbounded_rmap [intro]:
  assumes "rbounded k m"
  shows "rbounded k (rmap f m)"
proof -
  have "rbounded (k + 0) (rbind m (\<lambda>x. rreturn (f x)))"
    using assms by (rule rbounded_rbind) auto
  then show ?thesis by (simp add: rmap_def)
qed

lemma rbounded_rlift:
  assumes "\<And>rest. \<exists>x j. j \<le> k \<and> g (replicate k 0 @ rest) = Some (x, replicate j 0 @ rest)"
  shows "rbounded k (rlift g)"
proof (rule rboundedI)
  fix rest
  from assms obtain x j where "j \<le> k" "g (replicate k 0 @ rest) = Some (x, replicate j 0 @ rest)" by blast
  then show "\<exists>r j. j \<le> k \<and> rlift g (replicate k 0 @ rest) = Some (r, replicate j 0 @ rest)" by auto
qed

subsection \<open>Generic list facts\<close>

lemma prefix_Cons_hd: "prefix (a # xs) ys \<Longrightarrow> a \<in> set ys"
  by (auto simp: prefix_def)

lemma dropWhile_none: "\<forall>c \<in> set xs. \<not> P c \<Longrightarrow> dropWhile P xs = xs"
  by (induction xs) simp_all

lemma sublist_hd_in_set: "sublist (a # xs) ys \<Longrightarrow> a \<in> set ys"
  by (auto simp: sublist_def)

end
