(* ===== verification/PyStr.thy ===== *)
theory PyStr
  imports Prelude
begin

text \<open>
  The Python \<open>str\<close> methods the two scripts call, on UTF-8 byte strings:
  \<open>strip()\<close>, \<open>lower()\<close>, \<open>title()\<close>, the operator \<open>sub in s\<close>,
  \<open>replace(old, new)\<close>, \<open>str(n)\<close> of an \<open>int\<close> and \<open>int(s)\<close>. Case mapping and
  white space follow CPython on the ASCII range; bytes outside it are uncased and not
  white space (so a non-ASCII letter or a non-breaking space is treated as the
  byte sequence it is). The lemmas show that the naive substring scan is the
  library's \<open>sublist\<close>, that \<open>replace\<close> leaves strings without an occurrence
  alone, and that \<open>int(str(n)) = n\<close> for every integer.
\<close>

section \<open>Character classes and case mapping\<close>

definition is_py_space :: "char \<Rightarrow> bool" where
  "is_py_space c \<longleftrightarrow> (let n = (of_char c :: nat) in (9 \<le> n \<and> n \<le> 13) \<or> (28 \<le> n \<and> n \<le> 32))"

definition is_upper :: "char \<Rightarrow> bool" where
  "is_upper c \<longleftrightarrow> (let n = (of_char c :: nat) in 65 \<le> n \<and> n \<le> 90)"

definition is_lower :: "char \<Rightarrow> bool" where
  "is_lower c \<longleftrightarrow> (let n = (of_char c :: nat) in 97 \<le> n \<and> n \<le> 122)"

definition is_cased :: "char \<Rightarrow> bool" where
  "is_cased c \<longleftrightarrow> is_upper c \<or> is_lower c"

definition lower_char :: "char \<Rightarrow> char" where
  "lower_char c = (if is_upper c then char_of (of_char c + (32::nat)) else c)"

definition upper_char :: "char \<Rightarrow> char" where
  "upper_char c = (if is_lower c then char_of (of_char c - (32::nat)) else c)"

definition is_digit :: "char \<Rightarrow> bool" where
  "is_digit c \<longleftrightarrow> (let n = (of_char c :: nat) in 48 \<le> n \<and> n \<le> 57)"

definition digit_val :: "char \<Rightarrow> nat" where
  "digit_val c = of_char c - 48"

definition digit_char :: "nat \<Rightarrow> char" where
  "digit_char d = char_of (48 + d)"

section \<open>String methods\<close>

text \<open>\<open>s.strip()\<close>: white space removed at both ends.\<close>

definition py_strip :: "pystr \<Rightarrow> pystr" where
  "py_strip s = rev (dropWhile is_py_space (rev (dropWhile is_py_space s)))"

text \<open>\<open>s.lower()\<close>.\<close>

definition py_lower :: "pystr \<Rightarrow> pystr" where
  "py_lower s = map lower_char s"

text \<open>
  \<open>s.title()\<close> (CPython \<open>do_title\<close>): a character after a cased character is
  lowered, any other is title-cased; \<open>prev\<close> is \<open>previous_is_cased\<close>.
\<close>

fun title_from :: "bool \<Rightarrow> pystr \<Rightarrow> pystr" where
  "title_from prev [] = []"
| "title_from prev (c # cs) = (if prev then lower_char c else upper_char c) # title_from (is_cased c) cs"

definition py_title :: "pystr \<Rightarrow> pystr" where
  "py_title s = title_from False s"

text \<open>\<open>sub in s\<close>: a scan of the start positions of \<open>s\<close>.\<close>

fun py_contains :: "pystr \<Rightarrow> pystr \<Rightarrow> bool" where
  "py_contains sub [] \<longleftrightarrow> sub = []"
| "py_contains sub (c # cs) \<longleftrightarrow> prefix sub (c # cs) \<or> py_contains sub cs"

text \<open>
  \<open>s.replace(old, new)\<close>: every non-overlapping occurrence, left to right. With
  an empty \<open>old\<close>, Python inserts \<open>new\<close> before every character and at the end.
\<close>

fun py_replace :: "pystr \<Rightarrow> pystr \<Rightarrow> pystr \<Rightarrow> pystr" where
  "py_replace [] new s = new @ concat (map (\<lambda>c. c # new) s)"
| "py_replace (a # os) new [] = []"
| "py_replace (a # os) new (c # cs) =
     (if prefix (a # os) (c # cs) then new @ py_replace (a # os) new (drop (length os) cs)
      else c # py_replace (a # os) new cs)"

section \<open>Integers and their decimal strings\<close>

text \<open>\<open>str(n)\<close>: decimal digits, a minus sign for a negative number.\<close>

fun nat_digits :: "nat \<Rightarrow> pystr" where
  "nat_digits n = (if n < 10 then [digit_char n] else nat_digits (n div 10) @ [digit_char (n mod 10)])"

declare nat_digits.simps [simp del]

lemma nat_digits_small [py_eval]: "n < 10 \<Longrightarrow> nat_digits n = [digit_char n]"
  by (simp add: nat_digits.simps)

lemma nat_digits_big [py_eval]:
  "\<not> n < 10 \<Longrightarrow> nat_digits n = nat_digits (n div 10) @ [digit_char (n mod 10)]"
  by (simp add: nat_digits.simps)

definition py_str_int :: "int \<Rightarrow> pystr" where
  "py_str_int i = (if i < 0 then CHR ''-'' # nat_digits (nat (- i)) else nat_digits (nat i))"

text \<open>
  \<open>int(s)\<close> in base 10: white space stripped, an optional sign, then decimal digits,
  single underscores allowed between digits (PEP 515); anything else raises
  \<open>ValueError\<close>. Non-ASCII decimal digits, which CPython also accepts, are not modelled.
\<close>

fun digits_from :: "nat \<Rightarrow> pystr \<Rightarrow> nat option" where
  "digits_from acc [] = Some acc"
| "digits_from acc (c # cs) =
     (if is_digit c then digits_from (10 * acc + digit_val c) cs
      else if c = CHR ''_'' then
        (case cs of
           [] \<Rightarrow> None
         | d # ds \<Rightarrow> if is_digit d then digits_from (10 * acc + digit_val d) ds else None)
      else None)"

definition parse_digits :: "pystr \<Rightarrow> nat option" where
  "parse_digits s =
     (case s of
        [] \<Rightarrow> None
      | c # cs \<Rightarrow> if is_digit c then digits_from (digit_val c) cs else None)"

definition py_repr :: "pystr \<Rightarrow> pystr" where
  "py_repr s = CHR 0x27 # s @ [CHR 0x27]"

definition py_int :: "pystr \<Rightarrow> pyexc + int" where
  "py_int s =
     (let t = py_strip s;
          r = (case t of
                 [] \<Rightarrow> None
               | c # ds \<Rightarrow>
                   if c = CHR ''-'' then map_option (\<lambda>n. - int n) (parse_digits ds)
                   else if c = CHR ''+'' then map_option int (parse_digits ds)
                   else map_option int (parse_digits t))
      in case r of
           Some i \<Rightarrow> Inr i
         | None \<Rightarrow> Inl (ValueError (''invalid literal for int() with base 10: '' @ py_repr s)))"

lemmas py_char_defs [py_eval] =
  is_py_space_def is_upper_def is_lower_def is_cased_def lower_char_def upper_char_def
  is_digit_def digit_val_def digit_char_def

section \<open>Lemmas\<close>

subsection \<open>Substring test\<close>

text \<open>The scan is the library's contiguous-sublist relation.\<close>

lemma py_contains_sublist: "py_contains sub s \<longleftrightarrow> sublist sub s"
  by (induction s) (auto simp: sublist_Cons_right)

lemma py_contains_Nil [simp]: "py_contains [] s"
  by (simp add: py_contains_sublist)

lemma py_contains_hd: "py_contains (a # sub) s \<Longrightarrow> a \<in> set s"
  by (simp add: py_contains_sublist sublist_hd_in_set)

subsection \<open>Replacement\<close>

lemma py_contains_single: "py_contains [c] s \<longleftrightarrow> c \<in> set s"
  by (induction s) auto

lemma py_replace_absent: "a \<notin> set s \<Longrightarrow> py_replace (a # os) new s = s"
proof (induction s)
  case Nil
  then show ?case by simp
next
  case (Cons c cs)
  then have "\<not> prefix (a # os) (c # cs)" by (auto dest: prefix_Cons_hd)
  with Cons show ?case by simp
qed

lemma py_replace_prefix:
  "py_replace (a # os) new ((a # os) @ s) = new @ py_replace (a # os) new s"
  by simp

subsection \<open>Decimal strings\<close>

lemma digit_char_is_digit: "d < 10 \<Longrightarrow> is_digit (digit_char d)"
  by (simp add: is_digit_def digit_char_def)

lemma digit_val_digit_char [simp]: "d < 10 \<Longrightarrow> digit_val (digit_char d) = d"
  by (simp add: digit_val_def digit_char_def)

lemma digit_not_space: "is_digit c \<Longrightarrow> \<not> is_py_space c"
  by (auto simp: is_digit_def is_py_space_def Let_def)

lemma nat_digits_all_digits: "\<forall>c \<in> set (nat_digits n). is_digit c"
proof (induction n rule: nat_digits.induct)
  case (1 n)
  then show ?case
    by (subst nat_digits.simps) (auto simp: digit_char_is_digit)
qed

lemma nat_digits_not_Nil [simp]: "nat_digits n \<noteq> []"
  by (subst nat_digits.simps) simp

lemma nat_digits_Cons: "\<exists>c cs. nat_digits n = c # cs \<and> is_digit c"
proof -
  obtain c cs where "nat_digits n = c # cs"
    using nat_digits_not_Nil by (cases "nat_digits n") blast+
  with nat_digits_all_digits [of n] show ?thesis by auto
qed

text \<open>The number of digits of \<open>n\<close> with \<open>10^k \<le> n < 10^(k+1)\<close> is \<open>k + 1\<close>.\<close>

lemma nat_digits_length:
  "10 ^ k \<le> n \<Longrightarrow> n < 10 ^ Suc k \<Longrightarrow> length (nat_digits n) = Suc k"
proof (induction k arbitrary: n)
  case 0
  then show ?case by (subst nat_digits.simps) simp
next
  case (Suc k)
  have lo: "10 ^ k \<le> n div 10"
    using Suc.prems(1) by (simp add: le_div_geq div_le_mono [of "10 ^ Suc k" n 10, simplified])
  have hi: "n div 10 < 10 ^ Suc k"
    using Suc.prems(2) by (simp add: less_mult_imp_div_less mult.commute)
  have "(10::nat) \<le> 10 ^ Suc k"
    by (rule self_le_power) simp_all
  then have "\<not> n < 10"
    using Suc.prems(1) by linarith
  then show ?case
    using Suc.IH [OF lo hi] by (subst nat_digits.simps) simp
qed

text \<open>Reading digits back: \<open>digits_from\<close> is a left fold over an all-digit string.\<close>

definition digits_value :: "nat \<Rightarrow> pystr \<Rightarrow> nat" where
  "digits_value acc ds = foldl (\<lambda>a c. 10 * a + digit_val c) acc ds"

lemma digits_from_all_digits:
  "\<forall>c \<in> set ds. is_digit c \<Longrightarrow> digits_from acc ds = Some (digits_value acc ds)"
  by (induction ds arbitrary: acc) (simp_all add: digits_value_def)

lemma digits_value_nat_digits: "digits_value 0 (nat_digits n) = n"
proof (induction n rule: nat_digits.induct)
  case (1 n)
  show ?case
  proof (cases "n < 10")
    case True
    then show ?thesis by (subst nat_digits.simps) (simp add: digits_value_def)
  next
    case False
    with "1.IH" have "digits_value 0 (nat_digits (n div 10)) = n div 10" by simp
    with False show ?thesis
      by (subst nat_digits.simps) (simp add: digits_value_def)
  qed
qed

lemma parse_digits_nat_digits [simp]: "parse_digits (nat_digits n) = Some n"
proof -
  obtain c cs where nd: "nat_digits n = c # cs" and "is_digit c"
    using nat_digits_Cons by blast
  moreover have "\<forall>c \<in> set cs. is_digit c"
    using nat_digits_all_digits [of n] nd by simp
  ultimately have "parse_digits (nat_digits n) = Some (digits_value (digit_val c) cs)"
    by (simp add: parse_digits_def digits_from_all_digits)
  also have "digits_value (digit_val c) cs = digits_value 0 (nat_digits n)"
    by (simp add: nd digits_value_def)
  finally show ?thesis by (simp add: digits_value_nat_digits)
qed

lemma py_strip_no_space: "\<forall>c \<in> set s. \<not> is_py_space c \<Longrightarrow> py_strip s = s"
  by (simp add: py_strip_def dropWhile_none)

lemma py_strip_nat_digits [simp]: "py_strip (nat_digits n) = nat_digits n"
  using nat_digits_all_digits [of n] by (auto intro: py_strip_no_space dest: digit_not_space)

text \<open>\<open>int(str(n)) = n\<close> for every Python integer.\<close>

lemma py_int_py_str_int [simp]: "py_int (py_str_int i) = Inr i"
proof (cases "i < 0")
  case True
  have sp: "py_strip (CHR ''-'' # nat_digits (nat (- i))) = CHR ''-'' # nat_digits (nat (- i))"
    using nat_digits_all_digits [of "nat (- i)"]
    by (auto intro!: py_strip_no_space dest: digit_not_space simp: is_py_space_def)
  from True show ?thesis by (simp add: py_int_def py_str_int_def sp)
next
  case False
  obtain c cs where nd: "nat_digits (nat i) = c # cs" and "is_digit c"
    using nat_digits_Cons by blast
  then have "c \<noteq> CHR ''-''" and "c \<noteq> CHR ''+''" by (auto simp: is_digit_def)
  moreover have "parse_digits (c # cs) = Some (nat i)"
    using parse_digits_nat_digits [of "nat i"] nd by simp
  moreover have "py_strip (c # cs) = c # cs"
    using py_strip_nat_digits [of "nat i"] nd by simp
  ultimately show ?thesis
    using False nd by (simp add: py_int_def py_str_int_def Let_def)
qed

lemma py_str_int_length:
  "10 ^ k \<le> i \<Longrightarrow> i < 10 ^ Suc k \<Longrightarrow> length (py_str_int i) = Suc k"
proof -
  assume lo: "10 ^ k \<le> i" and hi: "i < 10 ^ Suc k"
  then have "10 ^ k \<le> nat i" and "nat i < 10 ^ Suc k"
    by (simp_all add: le_nat_iff nat_less_iff)
  moreover have "\<not> i < 0"
    using lo by (smt (verit) zero_le_power)
  ultimately show ?thesis by (simp add: py_str_int_def nat_digits_length)
qed

lemma py_str_int_digits: "0 \<le> i \<Longrightarrow> \<forall>c \<in> set (py_str_int i). is_digit c"
  by (simp add: py_str_int_def nat_digits_all_digits)

end
