(* ===== verification/PyRandom.thy ===== *)
theory PyRandom
  imports PyStr
begin

text \<open>
  Python's \<open>random\<close> module (CPython 3.12) on top of the generator's 32-bit output:
  \<open>getrandbits(k)\<close> (C, \<open>_random_Random_getrandbits_impl\<close>), the rejection loop
  \<open>_randbelow_with_getrandbits\<close>, \<open>randrange\<close> and \<open>randint\<close> with their
  \<open>ValueError\<close>, \<open>choice\<close> with its \<open>IndexError\<close>, \<open>random()\<close>
  (\<open>random_random\<close>: 53 bits from two words) and \<open>uniform(a, b)\<close>. The
  Mersenne Twister itself is not modelled: every lemma holds for every sequence of
  generator words, so for the twister's. \<open>random()\<close> is an exact dyadic rational, as
  in CPython; \<open>uniform\<close> is computed in exact rationals, where CPython rounds
  \<open>a + (b - a) * random()\<close> to a double.
\<close>

section \<open>Definitions\<close>

fun bit_length :: "nat \<Rightarrow> nat" where
  "bit_length n = (if n = 0 then 0 else Suc (bit_length (n div 2)))"

declare bit_length.simps [simp del]

lemma bit_length_0 [simp]: "bit_length 0 = 0"
  by (simp add: bit_length.simps)

lemma bit_length_pos [py_eval]: "n \<noteq> 0 \<Longrightarrow> bit_length n = Suc (bit_length (n div 2))"
  by (simp add: bit_length.simps)

text \<open>
  \<open>getrandbits(k)\<close> for \<open>k > 0\<close>: \<open>(k - 1) div 32 + 1\<close> words, least significant
  first; the last word keeps only its top bits (\<open>r >>= 32 - k\<close>).
\<close>

fun getrandbits_words :: "nat \<Rightarrow> rng \<Rightarrow> (nat \<times> rng) option" where
  "getrandbits_words k [] = None"
| "getrandbits_words k (w # ws) =
     (if k \<le> 32 then Some (unat (drop_bit (32 - k) w), ws)
      else (case getrandbits_words (k - 32) ws of
              None \<Rightarrow> None
            | Some (h, ws') \<Rightarrow> Some (unat w + 2 ^ 32 * h, ws')))"

definition getrandbits :: "nat \<Rightarrow> rng \<Rightarrow> (nat \<times> rng) option" where
  "getrandbits k ws = (if k = 0 then Some (0, ws) else getrandbits_words k ws)"

lemma getrandbits_words_shorter:
  "getrandbits_words k ws = Some (r, ws') \<Longrightarrow> length ws' < length ws"
  by (induction k ws arbitrary: r ws' rule: getrandbits_words.induct)
     (fastforce split: if_splits option.splits)+

lemma bit_length_eq_0 [simp]: "bit_length n = 0 \<longleftrightarrow> n = 0"
  by (cases "n = 0") (simp_all add: bit_length_pos)

lemma bit_length_gt_0 [simp]: "0 < bit_length n \<longleftrightarrow> 0 < n"
  by (cases "n = 0") (simp_all add: bit_length_pos)

text \<open>
  \<^verbatim>\<open>
  def _randbelow_with_getrandbits(self, n):
      k = n.bit_length()
      r = getrandbits(k)
      while r >= n:
          r = getrandbits(k)
      return r
  \<close>
  With \<open>n = 0\<close> the loop never ends (\<open>getrandbits(0) = 0\<close>): \<open>None\<close>. Otherwise
  every round consumes at least one word, which is the termination measure.
\<close>

function randbelow :: "nat \<Rightarrow> rng \<Rightarrow> (nat \<times> rng) option" where
  "randbelow n ws =
     (if n = 0 then None
      else case getrandbits (bit_length n) ws of
             None \<Rightarrow> None
           | Some (r, ws') \<Rightarrow> if r < n then Some (r, ws') else randbelow n ws')"
  by pat_completeness auto
termination
  by (relation "measure (\<lambda>(n, ws). length ws)")
     (auto simp: getrandbits_def dest: getrandbits_words_shorter)

declare randbelow.simps [simp del]

text \<open>\<open>randrange(start, stop)\<close> with step 1, and \<open>randint(a, b) = randrange(a, b + 1)\<close>.\<close>

definition randrange :: "int \<Rightarrow> int \<Rightarrow> int rand" where
  "randrange start stop =
     (let width = stop - start in
      if 0 < width then rmap (\<lambda>r. start + int r) (rlift (randbelow (nat width)))
      else rraise (ValueError (''empty range in randrange('' @ py_str_int start @ '', ''
                               @ py_str_int stop @ '')'')))"

definition randint :: "int \<Rightarrow> int \<Rightarrow> int rand" where
  "randint a b = randrange a (b + 1)"

definition choice :: "'a list \<Rightarrow> 'a rand" where
  "choice seq =
     (if seq = [] then rraise (IndexError ''Cannot choose from an empty sequence'')
      else rmap (\<lambda>i. seq ! i) (rlift (randbelow (length seq))))"

text \<open>\<open>random()\<close>: \<open>(a * 2^26 + b) / 2^53\<close> with \<open>a = w1 >> 5\<close>, \<open>b = w2 >> 6\<close>.\<close>

definition random_value :: "32 word \<Rightarrow> 32 word \<Rightarrow> rat" where
  "random_value w1 w2 = of_nat (unat (drop_bit 5 w1) * 2 ^ 26 + unat (drop_bit 6 w2)) / 2 ^ 53"

definition random_words :: "rng \<Rightarrow> (rat \<times> rng) option" where
  "random_words ws = (case ws of w1 # w2 # ws' \<Rightarrow> Some (random_value w1 w2, ws') | _ \<Rightarrow> None)"

definition py_random :: "rat rand" where
  "py_random = rlift random_words"

definition uniform :: "rat \<Rightarrow> rat \<Rightarrow> rat rand" where
  "uniform a b = rmap (\<lambda>r. a + (b - a) * r) py_random"

section \<open>Lemmas\<close>

subsection \<open>Bit lengths and word reads\<close>

lemma bit_length_bound: "n < 2 ^ bit_length n"
proof (induction n rule: bit_length.induct)
  case (1 n)
  show ?case
  proof (cases "n = 0")
    case False
    with "1.IH" have "n div 2 < 2 ^ bit_length (n div 2)" by simp
    with False show ?thesis by (simp add: bit_length_pos)
  qed simp
qed

lemma unat_drop_bit_less: "k \<le> 32 \<Longrightarrow> unat (drop_bit (32 - k) (w :: 32 word)) < 2 ^ k"
proof -
  assume k: "k \<le> 32"
  have "unat (drop_bit (32 - k) w) = unat w div 2 ^ (32 - k)"
    by (simp only: unat_drop_bit_eq) (simp add: drop_bit_eq_div)
  also have "\<dots> < 2 ^ k"
  proof -
    have "unat w < 2 ^ k * 2 ^ (32 - k)"
      using unsigned_less [of w, where ?'a = nat] k by (simp flip: power_add)
    then show ?thesis by (simp add: less_mult_imp_div_less)
  qed
  finally show ?thesis .
qed

lemma getrandbits_words_bound:
  "getrandbits_words k ws = Some (r, ws') \<Longrightarrow> r < 2 ^ k"
proof (induction k ws arbitrary: r ws' rule: getrandbits_words.induct)
  case (1 k)
  then show ?case by simp
next
  case (2 k w ws)
  show ?case
  proof (cases "k \<le> 32")
    case True
    with "2.prems" show ?thesis by (auto simp: unat_drop_bit_less)
  next
    case False
    with "2.prems" obtain h where h: "getrandbits_words (k - 32) ws = Some (h, ws')"
      and r: "r = unat w + 2 ^ 32 * h"
      by (auto split: option.splits)
    from "2.IH" [OF False h] have "h < 2 ^ (k - 32)" .
    then have "Suc h \<le> 2 ^ (k - 32)" by simp
    then have "2 ^ 32 * Suc h \<le> (2::nat) ^ 32 * 2 ^ (k - 32)" by simp
    also have "\<dots> = 2 ^ (32 + (k - 32))" by (simp only: power_add)
    also have "\<dots> = 2 ^ k" using False by simp
    finally show ?thesis using r unsigned_less [of w, where ?'a = nat] by simp
  qed
qed

lemma getrandbits_bound: "getrandbits k ws = Some (r, ws') \<Longrightarrow> r < 2 ^ k"
  by (auto simp: getrandbits_def split: if_splits dest: getrandbits_words_bound)

lemma getrandbits_words_append:
  "getrandbits_words k ws = Some (r, ws') \<Longrightarrow> getrandbits_words k (ws @ more) = Some (r, ws' @ more)"
  by (induction k ws arbitrary: r ws' rule: getrandbits_words.induct)
     (auto split: if_splits option.splits)

lemma getrandbits_append:
  "getrandbits k ws = Some (r, ws') \<Longrightarrow> getrandbits k (ws @ more) = Some (r, ws' @ more)"
  by (auto simp: getrandbits_def split: if_splits dest: getrandbits_words_append)

text \<open>For \<open>k \<le> 32\<close> a read is one word: its top \<open>k\<close> bits.\<close>

lemma getrandbits_one_word:
  "0 < k \<Longrightarrow> k \<le> 32 \<Longrightarrow> getrandbits k (w # ws) = Some (unat (drop_bit (32 - k) w), ws)"
  by (simp add: getrandbits_def)

lemma getrandbits_Nil: "0 < k \<Longrightarrow> getrandbits k [] = None"
  by (simp add: getrandbits_def)

subsection \<open>The rejection loop\<close>

lemma randbelow_less: "randbelow n ws = Some (r, ws') \<Longrightarrow> r < n"
proof (induction n ws rule: randbelow.induct)
  case (1 n ws)
  from "1.prems" show ?case
    by (subst (asm) randbelow.simps)
       (auto split: if_splits option.splits intro: "1.IH")
qed

lemma randbelow_append:
  "randbelow n ws = Some (r, ws') \<Longrightarrow> randbelow n (ws @ more) = Some (r, ws' @ more)"
proof (induction n ws rule: randbelow.induct)
  case (1 n ws)
  from "1.prems" obtain r0 ws0 where n: "n \<noteq> 0" and g: "getrandbits (bit_length n) ws = Some (r0, ws0)"
    by (subst (asm) randbelow.simps) (auto split: if_splits option.splits)
  have g': "getrandbits (bit_length n) (ws @ more) = Some (r0, ws0 @ more)"
    using g by (rule getrandbits_append)
  show ?case
  proof (cases "r0 < n")
    case True
    with "1.prems" n g g' show ?thesis by (simp add: randbelow.simps [of n])
  next
    case False
    with "1.prems" n g have "randbelow n ws0 = Some (r, ws')"
      by (simp add: randbelow.simps [of n ws])
    then have "randbelow n (ws0 @ more) = Some (r, ws' @ more)"
      using "1.IH" [OF n g refl] False by simp
    with False n g' show ?thesis by (simp add: randbelow.simps [of n "ws @ more"])
  qed
qed

text \<open>
  For \<open>0 < n < 2^32\<close> every round reads one word, and a word is accepted when its
  top \<open>bit_length n\<close> bits are below \<open>n\<close>.
\<close>

definition accepts :: "nat \<Rightarrow> 32 word \<Rightarrow> bool" where
  "accepts n w \<longleftrightarrow> unat (drop_bit (32 - bit_length n) w) < n"

lemma bit_length_le: "m < 2 ^ k \<Longrightarrow> bit_length m \<le> k"
proof (induction m arbitrary: k rule: bit_length.induct)
  case (1 m)
  show ?case
  proof (cases "m = 0")
    case False
    then obtain k' where k: "k = Suc k'"
      using "1.prems" by (cases k) auto
    with "1.prems" have "m div 2 < 2 ^ k'" by simp
    with "1.IH" False k show ?thesis by (simp add: bit_length_pos)
  qed simp
qed

lemma randbelow_one_word:
  assumes "0 < n" and "n < 2 ^ 32"
  shows "randbelow n (w # ws) = (if accepts n w then Some (unat (drop_bit (32 - bit_length n) w), ws) else randbelow n ws)"
proof -
  have k: "0 < bit_length n" "bit_length n \<le> 32"
    using assms by (simp_all add: bit_length_le)
  show ?thesis
    using assms k by (simp add: randbelow.simps [of n "w # ws"] getrandbits_one_word accepts_def)
qed

lemma randbelow_Nil: "randbelow n [] = None"
  by (simp add: randbelow.simps getrandbits_def)

text \<open>The loop returns exactly when some word of the source is acceptable; it
  returns the first one.\<close>

lemma randbelow_None_iff:
  assumes "0 < n" and "n < 2 ^ 32"
  shows "randbelow n ws = None \<longleftrightarrow> (\<forall>w \<in> set ws. \<not> accepts n w)"
  using assms by (induction ws) (simp_all add: randbelow_Nil randbelow_one_word)

lemma randbelow_Some:
  assumes "0 < n" and "n < 2 ^ 32" and "\<forall>v \<in> set rej. \<not> accepts n v" and "accepts n w"
  shows "randbelow n (rej @ w # ws) = Some (unat (drop_bit (32 - bit_length n) w), ws)"
  using assms by (induction rej) (simp_all add: randbelow_one_word)

lemma randrange_result:
  "randrange a b ws = Some (Inr r, ws') \<Longrightarrow> a \<le> r \<and> r < b"
  by (auto simp: randrange_def rmap_def Let_def split: if_splits option.splits dest!: randbelow_less)

lemma randrange_error:
  "randrange a b ws = Some (Inl e, ws') \<longleftrightarrow> b \<le> a \<and> ws' = ws \<and>
     e = ValueError (''empty range in randrange('' @ py_str_int a @ '', '' @ py_str_int b @ '')'')"
  by (auto simp: randrange_def rmap_def Let_def split: option.splits)

lemma randint_result: "randint a b ws = Some (Inr r, ws') \<Longrightarrow> a \<le> r \<and> r \<le> b"
  by (auto simp: randint_def dest: randrange_result)

lemma randint_no_error: "a \<le> b \<Longrightarrow> randint a b ws \<noteq> Some (Inl e, ws')"
  by (simp add: randint_def randrange_error)

lemma choice_result: "choice xs ws = Some (Inr x, ws') \<Longrightarrow> x \<in> set xs"
  by (auto simp: choice_def rmap_def split: if_splits option.splits dest!: randbelow_less)

lemma choice_no_error: "xs \<noteq> [] \<Longrightarrow> choice xs ws \<noteq> Some (Inl e, ws')"
  by (auto simp: choice_def rmap_def split: option.splits)

lemma rstable_randrange [intro]: "rstable (randrange a b)"
  unfolding randrange_def Let_def
  by (auto intro: randbelow_append)

lemma rstable_randint [intro]: "rstable (randint a b)"
  by (simp add: randint_def rstable_randrange)

lemma rstable_choice [intro]: "rstable (choice xs)"
  unfolding choice_def by (auto intro: randbelow_append)

lemma random_value_range: "0 \<le> random_value w1 w2 \<and> random_value w1 w2 < 1"
proof -
  have a: "unat (drop_bit 5 w1) < 2 ^ 27" using unat_drop_bit_less [of 27 w1] by simp
  have b: "unat (drop_bit 6 w2) < 2 ^ 26" using unat_drop_bit_less [of 26 w2] by simp
  have "unat (drop_bit 5 w1) * 2 ^ 26 \<le> (2 ^ 27 - 1) * (2::nat) ^ 26"
    using a by (intro mult_le_mono1) simp
  with b have "unat (drop_bit 5 w1) * 2 ^ 26 + unat (drop_bit 6 w2) < (2::nat) ^ 53"
    by simp
  then have "(of_nat (unat (drop_bit 5 w1) * 2 ^ 26 + unat (drop_bit 6 w2)) :: rat) < 2 ^ 53"
    by (metis of_nat_less_iff of_nat_numeral of_nat_power)
  then have "(of_nat (unat (drop_bit 5 w1) * 2 ^ 26 + unat (drop_bit 6 w2)) :: rat) / 2 ^ 53 < 1"
    by (simp only: divide_less_eq_1_pos zero_less_power zero_less_numeral)
  moreover have "0 \<le> (of_nat (unat (drop_bit 5 w1) * 2 ^ 26 + unat (drop_bit 6 w2)) :: rat) / 2 ^ 53"
    by (rule divide_nonneg_pos) (rule of_nat_0_le_iff, simp)
  ultimately show ?thesis by (simp only: random_value_def)
qed

lemma random_words_range: "random_words ws = Some (r, ws') \<Longrightarrow> 0 \<le> r \<and> r < 1"
  using random_value_range by (auto simp: random_words_def split: list.splits)

lemma random_words_append:
  "random_words ws = Some (r, ws') \<Longrightarrow> random_words (ws @ more) = Some (r, ws' @ more)"
  by (auto simp: random_words_def split: list.splits)

lemma uniform_range:
  "a \<le> b \<Longrightarrow> uniform a b ws = Some (Inr x, ws') \<Longrightarrow> a \<le> x \<and> x \<le> b"
proof -
  assume ab: "a \<le> b" and u: "uniform a b ws = Some (Inr x, ws')"
  then obtain r where r: "random_words ws = Some (r, ws')" and x: "x = a + (b - a) * r"
    by (auto simp: uniform_def py_random_def rmap_def split: option.splits)
  from random_words_range [OF r] have "0 \<le> r" "r \<le> 1" by simp_all
  with ab have "0 \<le> (b - a) * r" and "(b - a) * r \<le> b - a"
    by (simp_all add: mult_left_le)
  with x show ?thesis by simp
qed

lemma rstable_uniform [intro]: "rstable (uniform a b)"
  unfolding uniform_def py_random_def
  by (intro rstable_rmap rstable_rlift random_words_append)

subsection \<open>Draws on accepted words\<close>

lemma getrandbits_words_zeros:
  "0 < c \<Longrightarrow> k \<le> 32 * c \<Longrightarrow> \<exists>j < c. getrandbits_words k (replicate c 0 @ rest) = Some (0, replicate j 0 @ rest)"
proof (induction c arbitrary: k)
  case 0
  then show ?case by simp
next
  case (Suc c)
  show ?case
  proof (cases "k \<le> 32")
    case True
    then show ?thesis by auto
  next
    case False
    with Suc.prems have c: "0 < c" "k - 32 \<le> 32 * c" by auto
    from Suc.IH [OF c] obtain j where "j < c" "getrandbits_words (k - 32) (replicate c 0 @ rest) = Some (0, replicate j 0 @ rest)"
      by blast
    with False show ?thesis by (intro exI [of _ j]) simp
  qed
qed

lemma randbelow_zeros:
  assumes "0 < n" and "n < 2 ^ (32 * c)"
  shows "\<exists>j < c. randbelow n (replicate c 0 @ rest) = Some (0, replicate j 0 @ rest)"
proof -
  have k: "0 < bit_length n" "bit_length n \<le> 32 * c" using assms by (simp_all add: bit_length_le)
  then have c: "0 < c" by (cases c) simp_all
  from getrandbits_words_zeros [OF c k(2)] obtain j where j: "j < c"
    and g: "getrandbits_words (bit_length n) (replicate c 0 @ rest) = Some (0, replicate j 0 @ rest)" by blast
  show ?thesis
    using assms(1) k j g by (intro exI [of _ j]) (simp add: randbelow.simps [of n] getrandbits_def)
qed

lemma rbounded_randrange:
  assumes "nat (b - a) < 2 ^ (32 * c)"
  shows "rbounded c (randrange a b)"
proof (cases "0 < b - a")
  case True
  have "\<exists>x j. j \<le> c \<and> randbelow (nat (b - a)) (replicate c 0 @ rest) = Some (x, replicate j 0 @ rest)" for rest
    using randbelow_zeros [of "nat (b - a)" c rest] True assms by (auto dest: less_imp_le)
  then have "rbounded c (rlift (randbelow (nat (b - a))))" by (rule rbounded_rlift)
  with True show ?thesis by (auto simp: randrange_def Let_def)
qed (auto simp: randrange_def Let_def)

lemma rbounded_randint: "nat (b + 1 - a) < 2 ^ (32 * c) \<Longrightarrow> rbounded c (randint a b)"
  unfolding randint_def by (rule rbounded_randrange)

lemma rbounded_choice: "length xs < 2 ^ 32 \<Longrightarrow> rbounded 1 (choice xs)"
proof (cases "xs = []")
  case False
  assume l: "length xs < 2 ^ 32"
  have "\<exists>x j. j \<le> 1 \<and> randbelow (length xs) (replicate 1 0 @ rest) = Some (x, replicate j 0 @ rest)" for rest
    using randbelow_zeros [of "length xs" 1 rest] False l by (auto dest: less_imp_le)
  then have "rbounded 1 (rlift (randbelow (length xs)))" by (rule rbounded_rlift)
  with False show ?thesis by (auto simp: choice_def)
qed (auto simp: choice_def)

lemma rbounded_uniform: "rbounded 2 (uniform a b)"
proof -
  have "\<exists>x j. j \<le> 2 \<and> random_words (replicate 2 0 @ rest) = Some (x, replicate j 0 @ rest)" for rest
    by (intro exI [of _ 0]) (simp add: random_words_def random_value_def numeral_2_eq_2)
  then have "rbounded 2 (rlift random_words)" by (rule rbounded_rlift)
  then show ?thesis by (auto simp: uniform_def py_random_def)
qed

end
