(* ===== verification/Phone.thy ===== *)
theory Phone
  imports PyRandom
begin

text \<open>
  The table-driven phone record provider of \<^verbatim>\<open>src/main1.py\<close>: the dictionary
  \<^verbatim>\<open>series_to_brand\<close> (lines 26--38) and \<^verbatim>\<open>get_mobile_info\<close> (lines 40--67),
  which finds the first series named in the query (or draws one), derives the model
  name from the title-cased query, and draws the launch and purchase years, the
  condition, the price and the IMEI with Python's \<open>random\<close>. The lemmas show that
  every record it returns is well formed (years in range and ordered, a listed
  condition, a rupee price in range, a 15-digit IMEI), that it never raises, that
  the series is the first one whose lower-cased name occurs in the lower-cased
  query, and how the model name comes out of \<^verbatim>\<open>title()\<close> and \<^verbatim>\<open>replace\<close>.
\<close>

section \<open>Data\<close>

text \<open>The dictionary, in insertion order (which decides the first match).\<close>

definition series_to_brand :: "(pystr \<times> pystr) list" where
  "series_to_brand =
     [(''iPhone'', ''Apple''), (''Galaxy S'', ''Samsung''), (''Galaxy Note'', ''Samsung''),
      (''OnePlus'', ''OnePlus''), (''Redmi Note'', ''Xiaomi''), (''V'', ''Vivo''),
      (''Realme'', ''Realme''), (''Oppo'', ''Oppo''), (''Motorola'', ''Motorola''),
      (''Poco'', ''Poco''), (''Nothing'', ''Nothing'')]"

definition series_keys :: "pystr list" where
  "series_keys = map fst series_to_brand"

text \<open>\<open>d[k]\<close> on a dictionary with string keys: \<open>KeyError\<close> when absent.\<close>

definition dict_lookup :: "(pystr \<times> 'v) list \<Rightarrow> pystr \<Rightarrow> pyexc + 'v" where
  "dict_lookup d k = (case map_of d k of Some v \<Rightarrow> Inr v | None \<Rightarrow> Inl (KeyError (py_repr k)))"

text \<open>The record \<^verbatim>\<open>get_mobile_info\<close> returns (a dict with these keys; the key \<^verbatim>\<open>make\<close> is the field \<open>phone_make\<close>, since a record already declares \<open>make\<close>).\<close>

record phone_info =
  phone_make :: pystr
  series :: pystr
  model :: pystr
  launch_year :: int
  purchased_year :: int
  condition :: pystr
  price :: pystr
  imei_number :: pystr

definition conditions :: "pystr list" where
  "conditions = [''New'', ''Used'', ''Refurbished'']"

text \<open>The rupee sign U+20B9, as its UTF-8 bytes.\<close>

definition rupee :: pystr where
  "rupee = [CHR 0xE2, CHR 0x82, CHR 0xB9]"

section \<open>Operations\<close>

text \<open>
  \<^verbatim>\<open>
  for series in series_to_brand.keys():
      if series.lower() in mobile_name:
          series_found = series
          break
  \<close>
\<close>

fun find_series :: "pystr list \<Rightarrow> pystr \<Rightarrow> pystr option" where
  "find_series [] name = None"
| "find_series (s # ss) name = (if py_contains (py_lower s) name then Some s else find_series ss name)"

text \<open>\<^verbatim>\<open>mobile_name.title().replace(series_found, "").strip() or "Standard"\<close>\<close>

definition model_name :: "pystr \<Rightarrow> pystr \<Rightarrow> pystr" where
  "model_name name sf =
     (let m = py_strip (py_replace sf [] (py_title name)) in if m = [] then ''Standard'' else m)"

definition get_mobile_info :: "pystr \<Rightarrow> phone_info rand" where
  "get_mobile_info mobile_name =
     (let name = py_lower (py_strip mobile_name) in
      rbind (case find_series series_keys name of
               Some s \<Rightarrow> rreturn s
             | None \<Rightarrow> choice series_keys) (\<lambda>sf.
      rbind (rfrom (dict_lookup series_to_brand sf)) (\<lambda>mk.
      rbind (randint 2018 2025) (\<lambda>ly.
      rbind (randint ly 2025) (\<lambda>py.
      rbind (choice conditions) (\<lambda>cond.
      rbind (randint 8000 100000) (\<lambda>pr.
      rbind (randint 100000000000000 999999999999999) (\<lambda>imei.
      rreturn \<lparr>phone_make = mk, series = sf, model = model_name name sf, launch_year = ly,
               purchased_year = py, condition = cond, price = rupee @ py_str_int pr,
               imei_number = py_str_int imei\<rparr>))))))))"

section \<open>Well-formed records\<close>

text \<open>
  What a record of \<^verbatim>\<open>get_mobile_info\<close> satisfies, as an executable check: the
  price is the rupee sign followed by \<open>str(n)\<close> for some \<open>8000 \<le> n \<le> 100000\<close>,
  the IMEI is \<open>str(m)\<close> for some \<open>10^14 \<le> m < 10^15\<close>.
\<close>

definition wf_price :: "pystr \<Rightarrow> bool" where
  "wf_price p \<longleftrightarrow> take 3 p = rupee \<and>
     (case py_int (drop 3 p) of
        Inr n \<Rightarrow> 8000 \<le> n \<and> n \<le> 100000 \<and> p = rupee @ py_str_int n
      | Inl _ \<Rightarrow> False)"

definition wf_imei :: "pystr \<Rightarrow> bool" where
  "wf_imei s \<longleftrightarrow>
     (case py_int s of
        Inr m \<Rightarrow> 10 ^ 14 \<le> m \<and> m < 10 ^ 15 \<and> s = py_str_int m
      | Inl _ \<Rightarrow> False)"

definition wf_phone :: "phone_info \<Rightarrow> bool" where
  "wf_phone p \<longleftrightarrow>
     series p \<in> set series_keys \<and> map_of series_to_brand (series p) = Some (phone_make p) \<and>
     2018 \<le> launch_year p \<and> launch_year p \<le> purchased_year p \<and> purchased_year p \<le> 2025 \<and>
     condition p \<in> set conditions \<and> wf_price (price p) \<and> wf_imei (imei_number p)"


section \<open>Lemmas\<close>

lemmas phone_eval [py_eval] = series_keys_def series_to_brand_def conditions_def dict_lookup_def
  rupee_def model_name_def py_title_def py_strip_def py_lower_def

lemma find_series_find: "find_series ks name = find (\<lambda>s. py_contains (py_lower s) name) ks"
  by (induction ks) simp_all

lemma find_series_in: "find_series ks name = Some s \<Longrightarrow> s \<in> set ks"
  by (induction ks) (auto split: if_splits)

lemma dict_lookup_Inr: "dict_lookup d k = Inr v \<longleftrightarrow> map_of d k = Some v"
  by (simp add: dict_lookup_def split: option.splits)

lemma dict_lookup_series: "s \<in> set series_keys \<Longrightarrow> \<exists>v. dict_lookup series_to_brand s = Inr v"
  by (auto simp: dict_lookup_def series_keys_def dest: weak_map_of_SomeI split: option.splits)

lemma wf_price_intro: "8000 \<le> n \<Longrightarrow> n \<le> 100000 \<Longrightarrow> wf_price (rupee @ py_str_int n)"
  by (simp add: wf_price_def rupee_def)

lemma wf_imei_intro: "10 ^ 14 \<le> m \<Longrightarrow> m < 10 ^ 15 \<Longrightarrow> wf_imei (py_str_int m)"
  by (simp add: wf_imei_def)

lemma series_keys_not_Nil [simp]: "series_keys \<noteq> []"
  by (simp add: series_keys_def series_to_brand_def)

lemma conditions_not_Nil [simp]: "conditions \<noteq> []"
  by (simp add: conditions_def)

lemma find_or_choice_in:
  "(case find_series series_keys name of Some s \<Rightarrow> rreturn s | None \<Rightarrow> choice series_keys) ws = Some (Inr sf, ws')
   \<Longrightarrow> sf \<in> set series_keys"
  by (auto split: option.splits dest: find_series_in choice_result)

lemma find_or_choice_no_error:
  "(case find_series series_keys name of Some s \<Rightarrow> rreturn s | None \<Rightarrow> choice series_keys) ws \<noteq> Some (Inl e, ws')"
  by (auto split: option.splits simp: choice_no_error)

lemma wf_imei_digits: "wf_imei s \<Longrightarrow> length s = 15 \<and> (\<forall>c \<in> set s. is_digit c)"
proof -
  assume "wf_imei s"
  then obtain m where m: "10 ^ 14 \<le> m" "m < 10 ^ 15" and s: "s = py_str_int m"
    by (auto simp: wf_imei_def split: sum.splits)
  from m have "length (py_str_int m) = Suc 14"
    by (intro py_str_int_length) simp_all
  moreover from m have "\<forall>c \<in> set (py_str_int m). is_digit c"
    by (intro py_str_int_digits) simp
  ultimately show ?thesis by (simp add: s)
qed

lemma rstable_get_mobile_info: "rstable (get_mobile_info q)"
  unfolding get_mobile_info_def Let_def
  by (intro rstable_rbind rstable_option_case rstable_choice rstable_randint rstable_rfrom rstable_rreturn)

lemma get_mobile_info_result_wf:
  "get_mobile_info q ws = Some (Inr p, ws') \<Longrightarrow> wf_phone p"
  by (auto simp: get_mobile_info_def Let_def rbind_eq_Some_Inr wf_phone_def dict_lookup_Inr
           dest!: randint_result choice_result find_or_choice_in intro!: wf_price_intro wf_imei_intro)

lemma get_mobile_info_never_raises [simp]:
  "get_mobile_info q ws \<noteq> Some (Inl e, ws')"
proof
  assume "get_mobile_info q ws = Some (Inl e, ws')"
  then show False
    by (auto simp: get_mobile_info_def Let_def rbind_eq_Some_Inl rbind_eq_Some_Inr
             find_or_choice_no_error randint_no_error choice_no_error
             dest!: randint_result find_or_choice_in dict_lookup_series)
qed

text \<open>Claim C9. Every record \<^verbatim>\<open>get_mobile_info\<close> (main1.py) returns is well formed:
  its series is a key of \<^verbatim>\<open>series_to_brand\<close> and its make that key's brand,
  \<open>2018 \<le> launch_year \<le> purchased_year \<le> 2025\<close>, its condition is New, Used or
  Refurbished, its price is the rupee sign and \<open>str(n)\<close> with \<open>8000 \<le> n \<le> 100000\<close>,
  and its IMEI is \<open>str(m)\<close> with \<open>10^14 \<le> m < 10^15\<close>.\<close>

theorem get_mobile_info_wf:
  "get_mobile_info q ws = Some (Inr p, ws') \<Longrightarrow> wf_phone p"
  by (rule get_mobile_info_result_wf)

text \<open>Claim C10. \<^verbatim>\<open>get_mobile_info\<close> never raises: the dictionary lookup, the
  \<^verbatim>\<open>randint\<close> ranges (\<open>randint(launch_year, 2025)\<close> included) and the
  \<^verbatim>\<open>choice\<close> lists are always valid.\<close>

theorem get_mobile_info_no_error:
  "get_mobile_info q ws \<noteq> Some (Inl e, ws')"
  by (rule get_mobile_info_never_raises)


text \<open>A run of the provider on the query \<open>iPhone 15\<close> with seven generator words.\<close>

lemma get_mobile_info_iphone_runs:
  "\<exists>p ws'. get_mobile_info ''iPhone 15'' [0, 0, 0, 0, 0, 0, 0] = Some (Inr p, ws')"
  by (simp add: get_mobile_info_def randint_def randrange_def choice_def randbelow_one_word
      randbelow.simps [of 900000000000000] getrandbits_def accepts_def rmap_def Let_def py_eval)

lemma find_series_iphone: "find_series series_keys (py_lower (py_strip ''iPhone 15'')) = Some ''iPhone''"
  by (simp add: py_eval)

theorem get_mobile_info_wf_witness:
  "\<exists>p ws'. get_mobile_info ''iPhone 15'' [0, 0, 0, 0, 0, 0, 0] = Some (Inr p, ws') \<and> wf_phone p"
proof -
  obtain p ws' where run: "get_mobile_info ''iPhone 15'' [0, 0, 0, 0, 0, 0, 0] = Some (Inr p, ws')"
    using get_mobile_info_iphone_runs by blast
  show ?thesis using run get_mobile_info_wf [OF run] by blast
qed

text \<open>Claim C34. Scenario 1 of the spec, as the code behaves: for the query \<open>iPhone 15\<close>
  the record has series \<open>iPhone\<close> and make \<open>Apple\<close>; its model is \<open>Iphone 15\<close>,
  because \<^verbatim>\<open>title()\<close> spells the series \<open>Iphone\<close> and \<^verbatim>\<open>replace("iPhone", "")\<close>
  then removes nothing.\<close>

theorem get_mobile_info_iphone:
  "get_mobile_info ''iPhone 15'' ws = Some (Inr p, ws') \<Longrightarrow>
   series p = ''iPhone'' \<and> phone_make p = ''Apple'' \<and> model p = ''Iphone 15''"
  using find_series_iphone
  by (auto simp: get_mobile_info_def Let_def rbind_eq_Some_Inr py_eval)

theorem get_mobile_info_iphone_witness:
  "\<exists>p ws'. get_mobile_info ''iPhone 15'' [0, 0, 0, 0, 0, 0, 0] = Some (Inr p, ws') \<and>
     series p = ''iPhone'' \<and> phone_make p = ''Apple'' \<and> model p = ''Iphone 15''"
proof -
  obtain p ws' where run: "get_mobile_info ''iPhone 15'' [0, 0, 0, 0, 0, 0, 0] = Some (Inr p, ws')"
    using get_mobile_info_iphone_runs by blast
  show ?thesis using run get_mobile_info_iphone [OF run] by blast
qed

lemma find_series_V:
  assumes "CHR ''v'' \<in> set name" and "\<forall>s \<in> set (take 5 series_keys). \<not> py_contains (py_lower s) name"
  shows "find_series series_keys name = Some ''V''"
proof -
  have v: "char_of (118::nat) = CHR ''v''" by (simp add: py_eval)
  show ?thesis using assms by (simp add: py_eval py_contains_single v)
qed

lemma get_mobile_info_poco_runs:
  "\<exists>p ws'. get_mobile_info ''Poco X6 review'' [0, 0, 0, 0, 0, 0, 0] = Some (Inr p, ws')"
  by (simp add: get_mobile_info_def randint_def randrange_def choice_def randbelow_one_word
      randbelow.simps [of 900000000000000] getrandbits_def accepts_def rmap_def Let_def py_eval)

text \<open>Claim C28. The one-letter key \<^verbatim>\<open>"V"\<close> of \<^verbatim>\<open>series_to_brand\<close> captures
  every query whose lower-cased text contains a \<open>v\<close> and none of the five series
  before it, whatever phone it names: \<open>Poco X6 review\<close> becomes a Vivo.\<close>

theorem v_series_captures:
  assumes "get_mobile_info q ws = Some (Inr p, ws')"
    and "CHR ''v'' \<in> set (py_lower (py_strip q))"
    and "\<forall>s \<in> set (take 5 series_keys). \<not> py_contains (py_lower s) (py_lower (py_strip q))"
  shows "series p = ''V'' \<and> phone_make p = ''Vivo''"
  using assms find_series_V [OF assms(2,3)]
  by (auto simp: get_mobile_info_def Let_def rbind_eq_Some_Inr py_eval)

theorem v_series_captures_witness:
  "\<exists>p ws'. get_mobile_info ''Poco X6 review'' [0, 0, 0, 0, 0, 0, 0] = Some (Inr p, ws') \<and>
     CHR ''v'' \<in> set (py_lower (py_strip ''Poco X6 review'')) \<and>
     (\<forall>s \<in> set (take 5 series_keys). \<not> py_contains (py_lower s) (py_lower (py_strip ''Poco X6 review''))) \<and>
     series p = ''V'' \<and> phone_make p = ''Vivo''"
proof -
  obtain p ws' where run: "get_mobile_info ''Poco X6 review'' [0, 0, 0, 0, 0, 0, 0] = Some (Inr p, ws')"
    using get_mobile_info_poco_runs by blast
  have v: "CHR ''v'' \<in> set (py_lower (py_strip ''Poco X6 review''))" by (simp add: py_eval)
  have n: "\<forall>s \<in> set (take 5 series_keys). \<not> py_contains (py_lower s) (py_lower (py_strip ''Poco X6 review''))"
    by (simp add: py_eval)
  show ?thesis using v_series_captures [OF run v n] run v n by blast
qed

lemma rbounded_get_mobile_info: "rbounded 7 (get_mobile_info q)"
proof -
  have sf: "rbounded 1 (case find_series series_keys name of Some s \<Rightarrow> rreturn s | None \<Rightarrow> choice series_keys)" for name
  proof -
    have "rbounded 1 (choice series_keys)"
      by (rule rbounded_choice) (simp add: series_keys_def series_to_brand_def)
    then show ?thesis by (cases "find_series series_keys name") auto
  qed
  have py: "rbounded 1 (randint ly 2025)" if "randint 2018 2025 ws = Some (Inr ly, ws')" for ly ws ws'
    using randint_result [OF that] by (intro rbounded_randint) (simp add: nat_less_iff)
  have c: "rbounded 1 (choice conditions)" by (rule rbounded_choice) (simp add: conditions_def)
  have "rbounded (1 + (0 + (1 + (1 + (1 + (1 + (2 + 0))))))) (get_mobile_info q)"
    unfolding get_mobile_info_def Let_def
    by (rule rbounded_rbind [OF sf] rbounded_rbind [OF rbounded_rfrom] rbounded_rbind [OF rbounded_randint]
        rbounded_rbind [OF py] rbounded_rbind [OF c] rbounded_rreturn | simp)+
  then show ?thesis by (simp add: numeral_eq_Suc)
qed

text \<open>Claim C11. \<^verbatim>\<open>get_mobile_info\<close> returns a well-formed record, never an
  exception, after at most seven words of generator output when every draw accepts its
  first word: its rejection loops (\<^verbatim>\<open>choice\<close> of a series, four \<^verbatim>\<open>randint\<close>s
  and the condition, and the IMEI's two-word draw) each end after one read, and no
  draw raises on the ranges the earlier draws leave.\<close>

theorem get_mobile_info_terminates:
  "\<exists>p j. j \<le> 7 \<and> get_mobile_info q (replicate 7 0 @ rest) = Some (Inr p, replicate j 0 @ rest) \<and> wf_phone p"
proof -
  obtain r j where j: "j \<le> 7" and run: "get_mobile_info q (replicate 7 0 @ rest) = Some (r, replicate j 0 @ rest)"
    using rbounded_get_mobile_info [of q] unfolding rbounded_def by blast
  then obtain p where p: "r = Inr p"
    using get_mobile_info_never_raises by (cases r) auto
  with run have "wf_phone p" by (blast intro: get_mobile_info_result_wf)
  with j run p show ?thesis by blast
qed

text \<open>Claim C29. \<^verbatim>\<open>find_series\<close>, the \<^verbatim>\<open>for\<close>/\<^verbatim>\<open>break\<close> scan of lines
  42--46, is the spec's first-match rule: it returns \<open>s\<close> exactly when \<open>s\<close> is a
  key whose lower-cased name occurs in the query and no key before it (in insertion
  order) does.\<close>

theorem find_series_first_match:
  "find_series ks name = Some s \<longleftrightarrow>
   (\<exists>xs ys. ks = xs @ s # ys \<and> py_contains (py_lower s) name \<and> (\<forall>x \<in> set xs. \<not> py_contains (py_lower x) name))"
proof (induction ks)
  case Nil
  then show ?case by simp
next
  case (Cons k ks)
  show ?case
  proof (cases "py_contains (py_lower k) name")
    case True
    show ?thesis
    proof
      assume "find_series (k # ks) name = Some s"
      with True have "s = k" by simp
      with True show "\<exists>xs ys. k # ks = xs @ s # ys \<and> py_contains (py_lower s) name \<and> (\<forall>x \<in> set xs. \<not> py_contains (py_lower x) name)"
        by (intro exI [of _ "[]"] exI [of _ ks]) simp
    next
      assume "\<exists>xs ys. k # ks = xs @ s # ys \<and> py_contains (py_lower s) name \<and> (\<forall>x \<in> set xs. \<not> py_contains (py_lower x) name)"
      then obtain xs ys where d: "k # ks = xs @ s # ys" and n: "\<forall>x \<in> set xs. \<not> py_contains (py_lower x) name" by blast
      have "xs = []"
      proof (rule ccontr)
        assume "xs \<noteq> []"
        with d have "k \<in> set xs" by (cases xs) auto
        with n True show False by blast
      qed
      with d True show "find_series (k # ks) name = Some s" by simp
    qed
  next
    case False
    have "(\<exists>xs ys. k # ks = xs @ s # ys \<and> py_contains (py_lower s) name \<and> (\<forall>x \<in> set xs. \<not> py_contains (py_lower x) name)) \<longleftrightarrow>
          (\<exists>xs ys. ks = xs @ s # ys \<and> py_contains (py_lower s) name \<and> (\<forall>x \<in> set xs. \<not> py_contains (py_lower x) name))"
    proof
      assume "\<exists>xs ys. k # ks = xs @ s # ys \<and> py_contains (py_lower s) name \<and> (\<forall>x \<in> set xs. \<not> py_contains (py_lower x) name)"
      then obtain xs ys where d: "k # ks = xs @ s # ys" and m: "py_contains (py_lower s) name"
        and n: "\<forall>x \<in> set xs. \<not> py_contains (py_lower x) name" by blast
      with False obtain xs' where "xs = k # xs'" by (cases xs) auto
      with d m n show "\<exists>xs ys. ks = xs @ s # ys \<and> py_contains (py_lower s) name \<and> (\<forall>x \<in> set xs. \<not> py_contains (py_lower x) name)"
        by auto
    next
      assume "\<exists>xs ys. ks = xs @ s # ys \<and> py_contains (py_lower s) name \<and> (\<forall>x \<in> set xs. \<not> py_contains (py_lower x) name)"
      then obtain xs ys where "ks = xs @ s # ys" "py_contains (py_lower s) name" "\<forall>x \<in> set xs. \<not> py_contains (py_lower x) name"
        by blast
      with False show "\<exists>xs ys. k # ks = xs @ s # ys \<and> py_contains (py_lower s) name \<and> (\<forall>x \<in> set xs. \<not> py_contains (py_lower x) name)"
        by (intro exI [of _ "k # xs"] exI [of _ ys]) simp
    qed
    with False Cons.IH show ?thesis by simp
  qed
qed

theorem find_series_first_match_witness:
  "find_series series_keys ''poco x6 review'' = Some ''V'' \<and>
   (\<exists>xs ys. series_keys = xs @ ''V'' # ys \<and> py_contains (py_lower ''V'') ''poco x6 review'' \<and>
      (\<forall>x \<in> set xs. \<not> py_contains (py_lower x) ''poco x6 review''))"
proof -
  have f: "find_series series_keys ''poco x6 review'' = Some ''V''" by (simp add: py_eval)
  show ?thesis using find_series_first_match [of series_keys "''poco x6 review''" "''V''"] f by blast
qed

end
