(* ===== verification/Gateway.thy ===== *)
theory Gateway
  imports PyStr
begin

text \<open>
  The language-model client \<^verbatim>\<open>mistral_chat\<close> of \<^verbatim>\<open>src/main1.py\<close> (lines 9--21).
  The HTTP exchange with the local endpoint is external: a \<open>gateway\<close> maps the JSON
  payload to what \<^verbatim>\<open>requests.post(...).json()\<close> produced, either a raised exception
  (its message) or a decoded JSON value. Everything after it is modelled: the test
  \<^verbatim>\<open>"message" in data\<close>, the lookups \<^verbatim>\<open>data["message"]["content"]\<close> with the
  exceptions Python raises for each kind of value, and the \<^verbatim>\<open>except\<close> that turns
  any of them into a warning string. Decoded JSON is a Python value (\<open>json\<close>); a decoded
  object is a dict with distinct keys. The lemmas show that the reply is the content
  field exactly when the response has the expected shape, a warning string otherwise,
  and that the content may be any JSON value, a string or not.
\<close>

section \<open>Python values from JSON\<close>

datatype json =
    JNull
  | JBool bool
  | JInt int
  | JFloat rat
  | JStr pystr
  | JArr "json list"
  | JObj "(pystr \<times> json) list"

fun py_type_name :: "json \<Rightarrow> pystr" where
  "py_type_name JNull = ''NoneType''"
| "py_type_name (JBool b) = ''bool''"
| "py_type_name (JInt i) = ''int''"
| "py_type_name (JFloat x) = ''float''"
| "py_type_name (JStr s) = ''str''"
| "py_type_name (JArr xs) = ''list''"
| "py_type_name (JObj kvs) = ''dict''"

text \<open>\<open>k in v\<close> for a string \<open>k\<close>: dict keys, substrings, list elements, else \<open>TypeError\<close>.\<close>

fun py_in :: "pystr \<Rightarrow> json \<Rightarrow> pyexc + bool" where
  "py_in k (JObj kvs) = Inr (k \<in> set (map fst kvs))"
| "py_in k (JStr s) = Inr (py_contains k s)"
| "py_in k (JArr xs) = Inr (JStr k \<in> set xs)"
| "py_in k v = Inl (TypeError (''argument of type '' @ py_repr (py_type_name v) @ '' is not iterable''))"

text \<open>\<open>v[k]\<close> for a string \<open>k\<close>.\<close>

fun py_getitem :: "json \<Rightarrow> pystr \<Rightarrow> pyexc + json" where
  "py_getitem (JObj kvs) k = (case map_of kvs k of Some v \<Rightarrow> Inr v | None \<Rightarrow> Inl (KeyError (py_repr k)))"
| "py_getitem (JStr s) k = Inl (TypeError (''string indices must be integers, not '' @ py_repr ''str''))"
| "py_getitem (JArr xs) k = Inl (TypeError ''list indices must be integers or slices, not str'')"
| "py_getitem v k = Inl (TypeError (py_repr (py_type_name v) @ '' object is not subscriptable''))"

text \<open>
  \<open>v += t\<close> for a string \<open>t\<close>: concatenation on a string, \<^verbatim>\<open>list.extend\<close> (one
  element per character) on a list, \<open>TypeError\<close> on any other value.
\<close>

fun py_iadd_str :: "json \<Rightarrow> pystr \<Rightarrow> pyexc + json" where
  "py_iadd_str (JStr s) t = Inr (JStr (s @ t))"
| "py_iadd_str (JArr xs) t = Inr (JArr (xs @ map (\<lambda>c. JStr [c]) t))"
| "py_iadd_str v t =
     Inl (TypeError (''unsupported operand type(s) for +=: '' @ py_repr (py_type_name v) @ '' and ''
                     @ py_repr ''str''))"

text \<open>\<open>str(e)\<close> of the exceptions the model raises.\<close>

fun exc_str :: "pyexc \<Rightarrow> pystr" where
  "exc_str (ValueError m) = m"
| "exc_str (TypeError m) = m"
| "exc_str (KeyError m) = m"
| "exc_str (IndexError m) = m"

section \<open>Messages and the gateway\<close>

datatype role = System | User | Assistant

fun role_str :: "role \<Rightarrow> pystr" where
  "role_str System = ''system''"
| "role_str User = ''user''"
| "role_str Assistant = ''assistant''"

text \<open>A chat message \<open>{"role": ..., "content": ...}\<close>; the content is any Python value.\<close>

record message =
  msg_role :: role
  msg_content :: json

definition message_json :: "message \<Rightarrow> json" where
  "message_json m = JObj [(''role'', JStr (role_str (msg_role m))), (''content'', msg_content m)]"

datatype http_outcome = Raised pystr | Decoded json

type_synonym gateway = "json \<Rightarrow> http_outcome"

text \<open>The warning sign U+26A0 U+FE0F as UTF-8.\<close>

definition warning_sign :: pystr where
  "warning_sign = [CHR 0xE2, CHR 0x9A, CHR 0xA0, CHR 0xEF, CHR 0xB8, CHR 0x8F]"

definition error_reply :: "pystr \<Rightarrow> json" where
  "error_reply m = JStr (warning_sign @ '' Mistral Error: '' @ m)"

definition invalid_reply :: json where
  "invalid_reply = JStr (warning_sign @ '' Mistral returned an invalid response. Please ensure it'' @ [CHR 0x27] @ ''s running.'')"

text \<open>
  \<^verbatim>\<open>
  try:
      ...
      data = response.json()
      if "message" in data:
          return data["message"]["content"]
      else:
          return "...invalid response..."
  except Exception as e:
      return f"... Mistral Error: {e}"
  \<close>
\<close>

definition mistral_reply :: "http_outcome \<Rightarrow> json" where
  "mistral_reply out =
     (case out of
        Raised m \<Rightarrow> error_reply m
      | Decoded data \<Rightarrow>
          (case py_in ''message'' data of
             Inl e \<Rightarrow> error_reply (exc_str e)
           | Inr True \<Rightarrow>
               (case py_getitem data ''message'' of
                  Inl e \<Rightarrow> error_reply (exc_str e)
                | Inr msg \<Rightarrow>
                    (case py_getitem msg ''content'' of
                       Inl e \<Rightarrow> error_reply (exc_str e)
                     | Inr c \<Rightarrow> c))
           | Inr False \<Rightarrow> invalid_reply))"

definition mistral_payload :: "message list \<Rightarrow> json" where
  "mistral_payload msgs = JObj [(''model'', JStr ''mistral''), (''messages'', JArr (map message_json msgs))]"

definition mistral_chat :: "gateway \<Rightarrow> message list \<Rightarrow> json" where
  "mistral_chat gw msgs = mistral_reply (gw (mistral_payload msgs))"

section \<open>The client's contract\<close>

text \<open>
  The shape of a well-formed reply of the endpoint: an object whose \<open>message\<close> is an
  object with a \<open>content\<close> field.
\<close>

definition response_content :: "http_outcome \<Rightarrow> json option" where
  "response_content out =
     (case out of
        Decoded (JObj kvs) \<Rightarrow>
          (case map_of kvs ''message'' of Some (JObj m) \<Rightarrow> map_of m ''content'' | _ \<Rightarrow> None)
      | _ \<Rightarrow> None)"

lemma py_in_JObj_iff: "py_in k (JObj kvs) = Inr (map_of kvs k \<noteq> None)"
  by (simp add: map_of_eq_None_iff)

lemma map_of_Some_key: "map_of kvs k = Some v \<Longrightarrow> k \<in> fst ` set kvs"
  by (metis map_of_eq_None_iff option.distinct(1))

lemma error_reply_warning: "\<exists>w. error_reply m = JStr (warning_sign @ w)"
  by (simp add: error_reply_def)

lemma invalid_reply_warning: "\<exists>w. invalid_reply = JStr (warning_sign @ w)"
  by (simp add: invalid_reply_def)

lemma py_getitem_nonobj: "(\<forall>kvs. v \<noteq> JObj kvs) \<Longrightarrow> \<exists>e. py_getitem v k = Inl e"
  by (cases v) auto

lemma mistral_reply_shape:
  "(case response_content out of
      Some c \<Rightarrow> mistral_reply out = c
    | None \<Rightarrow> (\<exists>w. mistral_reply out = JStr (warning_sign @ w)))"
proof (cases out)
  case (Raised m)
  then show ?thesis by (simp add: response_content_def mistral_reply_def error_reply_warning)
next
  case (Decoded data)
  show ?thesis
  proof (cases data)
    case (JObj kvs)
    show ?thesis
    proof (cases "map_of kvs ''message''")
      case None
      then have "''message'' \<notin> fst ` set kvs" by (simp add: map_of_eq_None_iff)
      with Decoded JObj None show ?thesis
        by (simp add: response_content_def mistral_reply_def invalid_reply_warning)
    next
      case (Some msg)
      show ?thesis
      proof (cases "\<exists>m. msg = JObj m")
        case True
        then obtain m where "msg = JObj m" by blast
        with Decoded JObj Some show ?thesis
          by (auto simp: response_content_def mistral_reply_def map_of_Some_key error_reply_warning
              split: option.splits)
      next
        case False
        then obtain e where "py_getitem msg ''content'' = Inl e" using py_getitem_nonobj by blast
        with False Decoded JObj Some show ?thesis
          by (cases msg) (auto simp: response_content_def mistral_reply_def map_of_Some_key error_reply_warning)
      qed
    qed
  next
    case (JStr s)
    with Decoded show ?thesis
      by (auto simp: response_content_def mistral_reply_def error_reply_warning invalid_reply_warning split: bool.splits)
  next
    case (JArr xs)
    with Decoded show ?thesis
      by (auto simp: response_content_def mistral_reply_def error_reply_warning invalid_reply_warning split: bool.splits)
  qed (simp_all add: Decoded response_content_def mistral_reply_def error_reply_warning)
qed

lemma mistral_reply_content: "response_content out = Some c \<Longrightarrow> mistral_reply out = c"
  using mistral_reply_shape [of out] by simp

lemma mistral_reply_no_content:
  "response_content out = None \<Longrightarrow> \<exists>w. mistral_reply out = JStr (warning_sign @ w)"
  using mistral_reply_shape [of out] by simp

text \<open>Claim C12. \<^verbatim>\<open>mistral_chat\<close> swallows every failure: when the gateway's
  response has the shape \<open>{"message": {"content": c}}\<close> the reply is \<open>c\<close> (whatever
  Python value it is), and otherwise (a raised request or decoding error, a missing key,
  a value of the wrong type) the reply is a string that starts with the warning sign.\<close>

theorem mistral_reply_contract:
  "(case response_content out of
      Some c \<Rightarrow> mistral_reply out = c
    | None \<Rightarrow> (\<exists>w. mistral_reply out = JStr (warning_sign @ w)))"
  by (rule mistral_reply_shape)

end
