(* ===== verification/Sentiment.thy ===== *)
theory Sentiment
  imports PyStr
begin

text \<open>
  \<^verbatim>\<open>analyze_sentiment\<close> (\<^verbatim>\<open>src/main1.py\<close> lines 72--80; \<^verbatim>\<open>src/mobile.py\<close> lines
  45--53 hold the same function). The polarity score of TextBlob is external: a
  \<open>scorer\<close> maps a text to a rational number, the exact value of the Python float
  in \<open>[-1, 1]\<close> it returns. The thresholding is modelled: the threshold \<^verbatim>\<open>0.1\<close> as
  the exact value of its double, the labels, with their emoji as UTF-8 bytes, and the
  order of the tests.
\<close>

type_synonym scorer = "pystr \<Rightarrow> rat"

definition smiling_face :: pystr where
  "smiling_face = [CHR 0xF0, CHR 0x9F, CHR 0x98, CHR 0x8A]"

definition disappointed_face :: pystr where
  "disappointed_face = [CHR 0xF0, CHR 0x9F, CHR 0x98, CHR 0x9E]"

definition neutral_face :: pystr where
  "neutral_face = [CHR 0xF0, CHR 0x9F, CHR 0x98, CHR 0x90]"

definition positive_label :: pystr where
  "positive_label = ''Positive '' @ smiling_face"

definition negative_label :: pystr where
  "negative_label = ''Negative '' @ disappointed_face"

definition neutral_label :: pystr where
  "neutral_label = ''Neutral '' @ neutral_face"

text \<open>The literal \<^verbatim>\<open>0.1\<close> is the double nearest to \<open>1/10\<close>, which is
  \<open>3602879701896397 / 2\<^sup>55\<close>, slightly above \<open>1/10\<close>; comparing two doubles
  compares their exact values.\<close>

definition float_tenth :: rat where
  "float_tenth = 3602879701896397 / 36028797018963968"

definition analyze_sentiment :: "scorer \<Rightarrow> pystr \<Rightarrow> pystr" where
  "analyze_sentiment polarity_of text =
     (let polarity = polarity_of text in
      if polarity > float_tenth then positive_label
      else if polarity < - float_tenth then negative_label
      else neutral_label)"

lemma labels_distinct [simp]:
  "positive_label \<noteq> negative_label" "positive_label \<noteq> neutral_label" "negative_label \<noteq> neutral_label"
  by (simp_all add: positive_label_def negative_label_def neutral_label_def)

end
