(* ===== verification/Chat.thy ===== *)
theory Chat
  imports Phone Gateway Sentiment
begin

text \<open>
  The conversation of \<^verbatim>\<open>src/main1.py\<close> (lines 89--189): the session state kept in
  \<^verbatim>\<open>st.session_state\<close> (\<^verbatim>\<open>chat_history\<close>, \<^verbatim>\<open>pending_action\<close>,
  \<^verbatim>\<open>current_phone\<close>) and one run of the script on a submitted input, which is one
  turn. A turn appends the user's message, then either answers the pending follow-up
  question (no network call) or resolves a new phone, calls the language model and
  picks the next follow-up action; it appends the reply and scores its sentiment.
  Streamlit keeps every write to the session state made before an exception, so a
  turn that raises ends in \<open>Crashed\<close> with the state as the exception left it.
  Randomness comes from the generator words (\<open>'a rand\<close>), the model's reply from the
  \<open>gateway\<close>, the polarity from the \<open>scorer\<close>.
\<close>

section \<open>State\<close>

text \<open>The pending actions, stored as the strings \<^verbatim>\<open>"show_imei"\<close>, ... \<^verbatim>\<open>"follow_up"\<close>.\<close>

datatype action = Show_imei | Compare | Resale | Pros_cons | Follow_up

record session =
  chat_history :: "message list"
  pending_action :: "action option"
  current_phone :: "phone_info option"

definition nl :: pystr where
  "nl = [CHR 0x0A]"

definition system_prompt :: pystr where
  "system_prompt =
     ''You are a friendly and intelligent mobile expert chatbot. '' @
     ''When a user mentions a mobile model, respond naturally and give useful information. '' @
     ''After providing info, ask a logical follow-up question '' @ [CHR 0xE2, CHR 0x80, CHR 0x94] @
     '' like showing IMEI, comparing models, '' @
     ''discussing resale value, or asking if the user wants pros and cons.''"

definition system_message :: message where
  "system_message = \<lparr>msg_role = System, msg_content = JStr system_prompt\<rparr>"

text \<open>The three \<^verbatim>\<open>if ... not in st.session_state\<close> initialisations of a new session.\<close>

definition init_session :: session where
  "init_session = \<lparr>chat_history = [system_message], pending_action = None, current_phone = None\<rparr>"

definition user_message :: "pystr \<Rightarrow> message" where
  "user_message u = \<lparr>msg_role = User, msg_content = JStr u\<rparr>"

definition assistant_message :: "json \<Rightarrow> message" where
  "assistant_message r = \<lparr>msg_role = Assistant, msg_content = r\<rparr>"

section \<open>Answering a pending follow-up question\<close>

text \<open>\<^verbatim>\<open>any(w in user_input.lower() for w in ["yes", "yeah", "sure", "ok", "of course"])\<close>\<close>

definition affirm_words :: "pystr list" where
  "affirm_words = [''yes'', ''yeah'', ''sure'', ''ok'', ''of course'']"

definition is_affirmative :: "pystr \<Rightarrow> bool" where
  "is_affirmative u \<longleftrightarrow> list_ex (\<lambda>w. py_contains w (py_lower u)) affirm_words"

definition followup_questions :: "pystr list" where
  "followup_questions =
     [''Would you like me to tell you its resale value?'',
      ''Would you like to compare it with a similar model?'',
      ''Do you want to know its top 3 pros and cons?'']"

definition pros_cons_text :: pystr where
  "pros_cons_text =
     ''Pros:'' @ nl @ ''- Great performance'' @ nl @ ''- Good camera'' @ nl @ ''- Reliable brand'' @ nl @ nl @
     ''Cons:'' @ nl @ ''- Slightly high price'' @ nl @ ''- Average battery life''"

text \<open>\<open>phone_info[...]\<close> on the stored phone: \<open>TypeError\<close> while it is still \<open>None\<close>.\<close>

definition require_phone :: "phone_info option \<Rightarrow> phone_info rand" where
  "require_phone po =
     (case po of
        Some p \<Rightarrow> rreturn p
      | None \<Rightarrow> rraise (TypeError (py_repr ''NoneType'' @ '' object is not subscriptable'')))"

definition imei_reply :: "phone_info \<Rightarrow> pystr" where
  "imei_reply p =
     ''The IMEI number for '' @ phone_make p @ '' '' @ series p @ '' '' @ model p @ '' is **''
     @ imei_number p @ ''**.''"

text \<open>\<open>int(x)\<close> of a float: truncation towards zero.\<close>

definition py_trunc :: "rat \<Rightarrow> int" where
  "py_trunc x = (if 0 \<le> x then \<lfloor>x\<rfloor> else - \<lfloor>- x\<rfloor>)"

text \<open>\<^verbatim>\<open>int(int(phone_info['price'].replace(RUPEE,'')) * random.uniform(0.3, 0.7))\<close>, \<^verbatim>\<open>RUPEE\<close> the rupee sign.\<close>

definition resale_value :: "phone_info \<Rightarrow> int rand" where
  "resale_value p =
     rbind (rfrom (py_int (py_replace rupee [] (price p)))) (\<lambda>n.
     rmap (\<lambda>f. py_trunc (of_int n * f)) (uniform (3 / 10) (7 / 10)))"

definition decline_text :: pystr where
  "decline_text = ''Alright, skipping that step.''"

text \<open>
  The branch \<^verbatim>\<open>if st.session_state.pending_action:\<close> (lines 118--150): the reply and
  the state after it. The last \<^verbatim>\<open>else\<close> of the dispatch (reached by \<^verbatim>\<open>follow_up\<close>)
  replies \<^verbatim>\<open>"Okay!"\<close> and does not touch \<^verbatim>\<open>pending_action\<close>.
\<close>

definition answer_pending :: "action \<Rightarrow> pystr \<Rightarrow> session \<Rightarrow> (pystr \<times> session) rand" where
  "answer_pending act user_input s =
     (let phone_info = current_phone s in
      if is_affirmative user_input then
        (case act of
           Show_imei \<Rightarrow>
             rbind (require_phone phone_info) (\<lambda>p.
             rbind (choice followup_questions) (\<lambda>q.
             rreturn (imei_reply p @ nl @ nl @ q, s\<lparr>pending_action := Some Follow_up\<rparr>)))
         | Compare \<Rightarrow>
             rbind (choice series_keys) (\<lambda>c.
             rreturn (''This model is comparable to the **'' @ c @ ''** series in performance and pricing.'',
                      s\<lparr>pending_action := None\<rparr>))
         | Resale \<Rightarrow>
             rbind (require_phone phone_info) (\<lambda>p.
             rbind (resale_value p) (\<lambda>r.
             rreturn (''The estimated resale value is around '' @ rupee @ py_str_int r @ ''.'',
                      s\<lparr>pending_action := None\<rparr>)))
         | Pros_cons \<Rightarrow> rreturn (pros_cons_text, s\<lparr>pending_action := None\<rparr>)
         | Follow_up \<Rightarrow> rreturn (''Okay!'', s))
      else rreturn (decline_text, s\<lparr>pending_action := None\<rparr>))"

section \<open>A new phone\<close>

definition phone_details :: "phone_info \<Rightarrow> pystr" where
  "phone_details p =
     ''Make: '' @ phone_make p @ nl @ ''Series: '' @ series p @ nl @ ''Model: '' @ model p @ nl @
     ''Launch Year: '' @ py_str_int (launch_year p) @ nl @ ''Condition: '' @ condition p @ nl @
     ''Price: '' @ price p @ nl"

definition ai_prompt :: "pystr \<Rightarrow> phone_info \<Rightarrow> pystr" where
  "ai_prompt u p =
     u @ nl @ nl @ ''Here are the phone details:'' @ nl @ phone_details p @ nl @
     ''Give a friendly review and ask one realistic follow-up question.''"

definition next_actions :: "action list" where
  "next_actions = [Show_imei, Compare, Resale, Pros_cons]"

text \<open>The dictionary \<open>followup_text\<close> of lines 173--178, keyed by the action's string.\<close>

fun action_str :: "action \<Rightarrow> pystr" where
  "action_str Show_imei = ''show_imei''"
| "action_str Compare = ''compare''"
| "action_str Resale = ''resale''"
| "action_str Pros_cons = ''pros_cons''"
| "action_str Follow_up = ''follow_up''"

definition followup_texts :: "(pystr \<times> pystr) list" where
  "followup_texts =
     [(''show_imei'', ''Would you like me to show its IMEI number?''),
      (''compare'', ''Would you like me to compare it with a similar model?''),
      (''resale'', ''Do you want to know its resale value?''),
      (''pros_cons'', ''Would you like me to tell you its top pros and cons?'')]"

section \<open>The turn\<close>

datatype turn_result =
    No_input
  | Replied session pystr pystr
  | Crashed session pyexc

fun turn_session :: "session \<Rightarrow> turn_result \<Rightarrow> session" where
  "turn_session s No_input = s"
| "turn_session s (Replied s' r l) = s'"
| "turn_session s (Crashed s' e) = s'"

text \<open>
  Lines 183--189: append the reply, show it, and score it; \<^verbatim>\<open>TextBlob\<close> raises on
  anything but a string.
\<close>

definition finish_turn :: "scorer \<Rightarrow> session \<Rightarrow> json \<Rightarrow> turn_result" where
  "finish_turn pol s reply =
     (let s' = s\<lparr>chat_history := chat_history s @ [assistant_message reply]\<rparr> in
      case reply of
        JStr t \<Rightarrow> Replied s' t (analyze_sentiment pol t)
      | _ \<Rightarrow> Crashed s' (TypeError (''The `text` argument passed to `__init__(text)` must be a string, not <class ''
                                   @ py_repr (py_type_name reply) @ ''>'')))"

text \<open>Lines 153--181: the branch for a new phone.\<close>

definition new_phone_turn :: "gateway \<Rightarrow> scorer \<Rightarrow> pystr \<Rightarrow> session \<Rightarrow> turn_result rand" where
  "new_phone_turn gw pol user_input s =
     rcatch (rbind (get_mobile_info user_input) (\<lambda>phone_info.
       let s2 = s\<lparr>current_phone := Some phone_info\<rparr>;
           ai_reply = mistral_chat gw (chat_history s2 @ [user_message (ai_prompt user_input phone_info)])
       in rcatch (
            rbind (choice next_actions) (\<lambda>next_action.
            rbind (rfrom (dict_lookup followup_texts (action_str next_action))) (\<lambda>followup_text.
            rreturn (case py_iadd_str ai_reply (nl @ nl @ followup_text) of
                       Inl e \<Rightarrow> Crashed s2 e
                     | Inr reply \<Rightarrow> finish_turn pol (s2\<lparr>pending_action := Some next_action\<rparr>) reply))))
          (Crashed s2)))
     (Crashed s)"

text \<open>One run of the script on the submitted text \<open>user_input\<close> (lines 114--189).\<close>

definition chat_turn :: "gateway \<Rightarrow> scorer \<Rightarrow> pystr \<Rightarrow> session \<Rightarrow> turn_result rand" where
  "chat_turn gw pol user_input s =
     (if user_input = [] then rreturn No_input
      else
        let s1 = s\<lparr>chat_history := chat_history s @ [user_message user_input]\<rparr> in
        case pending_action s1 of
          Some act \<Rightarrow>
            rcatch (rmap (\<lambda>(reply, s2). finish_turn pol s2 (JStr reply))
                         (answer_pending act user_input s1))
                   (Crashed s1)
        | None \<Rightarrow> new_phone_turn gw pol user_input s1)"

section \<open>Specification of the conversation\<close>

text \<open>
  What every session the script can reach satisfies: the transcript starts with the
  system message, and a pending action is only ever set together with a stored phone,
  which is a well-formed record of \<^verbatim>\<open>get_mobile_info\<close>.
\<close>

definition session_inv :: "session \<Rightarrow> bool" where
  "session_inv s \<longleftrightarrow>
     take 1 (chat_history s) = [system_message] \<and>
     (case current_phone s of None \<Rightarrow> pending_action s = None | Some p \<Rightarrow> wf_phone p)"

text \<open>The sessions reachable from a new session by turns on any inputs, gateway
  replies, polarity scores and generator output, crashed turns included.\<close>

inductive reachable :: "session \<Rightarrow> bool" where
  init: "reachable init_session"
| turn: "reachable s \<Longrightarrow> chat_turn gw pol u s ws = Some (Inr r, ws') \<Longrightarrow> reachable (turn_session s r)"

text \<open>
  The abstract state machine of the spec (section 4.3): \<open>Idle\<close>, or awaiting an
  answer to one pending action; a step is labelled by whether the user's answer is
  affirmative. From \<open>Idle\<close> any input leads to one of the four offered actions; a
  decline returns to \<open>Idle\<close>; an affirmed \<open>ShowImei\<close> offers \<open>FollowUp\<close>; every
  other affirmed action, \<open>FollowUp\<close> included, returns to \<open>Idle\<close>.
\<close>

datatype astate = Idle | Awaiting action

definition abs_state :: "session \<Rightarrow> astate" where
  "abs_state s = (case pending_action s of None \<Rightarrow> Idle | Some a \<Rightarrow> Awaiting a)"

inductive spec_step :: "astate \<Rightarrow> bool \<Rightarrow> astate \<Rightarrow> bool" where
  new_phone: "a \<in> set next_actions \<Longrightarrow> spec_step Idle aff (Awaiting a)"
| decline: "spec_step (Awaiting a) False Idle"
| show_imei: "spec_step (Awaiting Show_imei) True (Awaiting Follow_up)"
| resolved: "a \<noteq> Show_imei \<Longrightarrow> spec_step (Awaiting a) True Idle"

text \<open>The Python type of a message's content: \<open>str\<close> or \<open>list\<close>.\<close>

fun py_str_or_list :: "json \<Rightarrow> bool" where
  "py_str_or_list (JStr t) = True"
| "py_str_or_list (JArr xs) = True"
| "py_str_or_list v = False"

text \<open>A gateway whose replies have a list as content.\<close>

definition list_gateway :: gateway where
  "list_gateway payload = Decoded (JObj [(''message'', JObj [(''role'', JStr ''assistant''), (''content'', JArr [])])])"

text \<open>A stored phone used by the resale scenario of the spec (price 50000 rupees).\<close>

definition sample_phone :: phone_info where
  "sample_phone = \<lparr>phone_make = ''Apple'', series = ''iPhone'', model = ''15'', launch_year = 2020,
     purchased_year = 2021, condition = ''New'', price = rupee @ py_str_int 50000,
     imei_number = py_str_int 100000000000000\<rparr>"

section \<open>Lemmas on a turn\<close>

lemma next_actions_not_Nil [simp]: "next_actions \<noteq> []"
  by (simp add: next_actions_def)

lemma followup_text_exists: "a \<in> set next_actions \<Longrightarrow> \<exists>t. dict_lookup followup_texts (action_str a) = Inr t"
  by (auto simp: next_actions_def followup_texts_def dict_lookup_def)

lemma new_phone_turn_run:
  assumes "get_mobile_info u ws = Some (Inr p, ws1)" and "choice next_actions ws1 = Some (Inr a, ws2)"
    and "dict_lookup followup_texts (action_str a) = Inr t"
  shows "new_phone_turn gw pol u s ws =
     Some (Inr (case py_iadd_str (mistral_chat gw (chat_history s @ [user_message (ai_prompt u p)])) (nl @ nl @ t) of
            Inl e \<Rightarrow> Crashed (s\<lparr>current_phone := Some p\<rparr>) e
          | Inr reply \<Rightarrow> finish_turn pol (s\<lparr>current_phone := Some p, pending_action := Some a\<rparr>) reply), ws2)"
  using assms by (simp add: new_phone_turn_def Let_def rcatch_def)

lemma new_phone_turn_cases:
  assumes run: "new_phone_turn gw pol u s ws = Some (Inr r, ws')"
  shows "\<exists>p ws1 a t. get_mobile_info u ws = Some (Inr p, ws1) \<and> choice next_actions ws1 = Some (Inr a, ws') \<and>
     a \<in> set next_actions \<and> dict_lookup followup_texts (action_str a) = Inr t \<and>
     r = (case py_iadd_str (mistral_chat gw (chat_history s @ [user_message (ai_prompt u p)])) (nl @ nl @ t) of
            Inl e \<Rightarrow> Crashed (s\<lparr>current_phone := Some p\<rparr>) e
          | Inr reply \<Rightarrow> finish_turn pol (s\<lparr>current_phone := Some p, pending_action := Some a\<rparr>) reply)"
proof -
  obtain p ws1 where gm: "get_mobile_info u ws = Some (Inr p, ws1)"
  proof (cases "get_mobile_info u ws")
    case None
    with run show ?thesis by (simp add: new_phone_turn_def rcatch_def)
  next
    case (Some res)
    then show ?thesis
      using that get_mobile_info_never_raises by (cases res; case_tac a) auto
  qed
  obtain a ws2 where ch: "choice next_actions ws1 = Some (Inr a, ws2)"
  proof (cases "choice next_actions ws1")
    case None
    with run gm show ?thesis by (simp add: new_phone_turn_def Let_def rcatch_def)
  next
    case (Some res)
    then show ?thesis
      using that choice_no_error [OF next_actions_not_Nil] by (cases res; case_tac a) auto
  qed
  have a: "a \<in> set next_actions" using ch by (rule choice_result)
  then obtain t where t: "dict_lookup followup_texts (action_str a) = Inr t"
    using followup_text_exists by blast
  from new_phone_turn_run [OF gm ch t, of gw pol s] run show ?thesis
    using gm ch a t by auto
qed

lemma chat_turn_cases:
  assumes run: "chat_turn gw pol u s ws = Some (Inr r, ws')"
  defines "s1 \<equiv> s\<lparr>chat_history := chat_history s @ [user_message u]\<rparr>"
  shows "(u = [] \<and> r = No_input) \<or>
    (u \<noteq> [] \<and> (\<exists>a. pending_action s = Some a \<and>
        ((\<exists>e. answer_pending a u s1 ws = Some (Inl e, ws') \<and> r = Crashed s1 e) \<or>
         (\<exists>reply s2. answer_pending a u s1 ws = Some (Inr (reply, s2), ws') \<and> r = finish_turn pol s2 (JStr reply))))) \<or>
    (u \<noteq> [] \<and> pending_action s = None \<and> new_phone_turn gw pol u s1 ws = Some (Inr r, ws'))"
  using run unfolding s1_def
  by (auto simp: chat_turn_def Let_def rcatch_eq_Some_Inr rmap_eq_Some split: if_splits option.splits)

lemma take1_append: "take 1 xs = [x] \<Longrightarrow> take 1 (xs @ ys) = [x]"
  by (cases xs) simp_all

lemma session_inv_history:
  "session_inv s \<Longrightarrow> session_inv (s\<lparr>chat_history := chat_history s @ ms\<rparr>)"
  using take1_append [of "chat_history s" system_message ms] by (simp add: session_inv_def split: option.splits)

lemma finish_turn_session:
  "turn_session s0 (finish_turn pol s reply) = s\<lparr>chat_history := chat_history s @ [assistant_message reply]\<rparr>"
  by (simp add: finish_turn_def Let_def split: json.splits)

lemma answer_pending_session:
  "answer_pending a u s ws = Some (Inr (reply, s2), ws') \<Longrightarrow>
   chat_history s2 = chat_history s \<and> current_phone s2 = current_phone s \<and>
   pending_action s2 \<in> {None, Some Follow_up, pending_action s}"
  by (auto simp: answer_pending_def Let_def rbind_eq_Some_Inr split: if_splits action.splits)

lemma answer_pending_inv:
  "session_inv s \<Longrightarrow> pending_action s \<noteq> None \<Longrightarrow> answer_pending a u s ws = Some (Inr (reply, s2), ws') \<Longrightarrow>
   session_inv s2"
  by (drule answer_pending_session) (auto simp: session_inv_def split: option.splits)

lemma new_phone_turn_inv:
  assumes inv: "session_inv s" and run: "new_phone_turn gw pol u s ws = Some (Inr r, ws')"
  shows "session_inv (turn_session s r)"
proof -
  from new_phone_turn_cases [OF run] obtain p ws1 a t where
    gm: "get_mobile_info u ws = Some (Inr p, ws1)" and a: "a \<in> set next_actions" and
    r: "r = (case py_iadd_str (mistral_chat gw (chat_history s @ [user_message (ai_prompt u p)])) (nl @ nl @ t) of
            Inl e \<Rightarrow> Crashed (s\<lparr>current_phone := Some p\<rparr>) e
          | Inr reply \<Rightarrow> finish_turn pol (s\<lparr>current_phone := Some p, pending_action := Some a\<rparr>) reply)"
    by blast
  have wf: "wf_phone p" using gm by (rule get_mobile_info_result_wf)
  let ?s2 = "s\<lparr>current_phone := Some p\<rparr>" and ?s3 = "s\<lparr>current_phone := Some p, pending_action := Some a\<rparr>"
  from inv wf have i2: "session_inv ?s2" and i3: "session_inv ?s3"
    by (simp_all add: session_inv_def)
  show ?thesis
  proof (cases "py_iadd_str (mistral_chat gw (chat_history s @ [user_message (ai_prompt u p)])) (nl @ nl @ t)")
    case (Inl e)
    with r i2 show ?thesis by simp
  next
    case (Inr reply)
    have "session_inv (?s3\<lparr>chat_history := chat_history ?s3 @ [assistant_message reply]\<rparr>)"
      using i3 by (rule session_inv_history)
    with r Inr show ?thesis by (simp add: finish_turn_session)
  qed
qed

lemma chat_turn_inv:
  assumes inv: "session_inv s" and run: "chat_turn gw pol u s ws = Some (Inr r, ws')"
  shows "session_inv (turn_session s r)"
proof -
  let ?s1 = "s\<lparr>chat_history := chat_history s @ [user_message u]\<rparr>"
  have inv1: "session_inv ?s1" using inv by (rule session_inv_history)
  consider (none) "u = []" "r = No_input"
    | (crash) e where "r = Crashed ?s1 e"
    | (answer) a reply s2 where "pending_action s = Some a"
        "answer_pending a u ?s1 ws = Some (Inr (reply, s2), ws')" "r = finish_turn pol s2 (JStr reply)"
    | (phone) "pending_action s = None" "new_phone_turn gw pol u ?s1 ws = Some (Inr r, ws')"
    using chat_turn_cases [OF run] by auto
  then show ?thesis
  proof cases
    case none
    with inv show ?thesis by simp
  next
    case crash
    with inv1 show ?thesis by simp
  next
    case answer
    then have "session_inv s2" using answer_pending_inv [OF inv1] by simp
    with answer show ?thesis by (simp add: finish_turn_session session_inv_history)
  next
    case phone
    then have "session_inv (turn_session ?s1 r)" using new_phone_turn_inv [OF inv1] by blast
    then show ?thesis using inv by (cases r) simp_all
  qed
qed

lemma reachable_inv: "reachable s \<Longrightarrow> session_inv s"
proof (induction rule: reachable.induct)
  case init
  show ?case by (simp add: session_inv_def init_session_def)
next
  case (turn s gw pol u ws r ws')
  then show ?case by (blast intro: chat_turn_inv)
qed

inductive_cases spec_step_AwaitingE: "spec_step (Awaiting a) aff t"

lemma wf_price_parts: "wf_price pr \<Longrightarrow> \<exists>n. 8000 \<le> n \<and> n \<le> 100000 \<and> pr = rupee @ py_str_int n"
  by (auto simp: wf_price_def split: sum.splits)

lemma rupee_not_in_digits: "0 \<le> n \<Longrightarrow> CHR 0xE2 \<notin> set (py_str_int n)"
  using py_str_int_digits [of n] by (auto simp: is_digit_def)

lemma strip_rupee: "0 \<le> n \<Longrightarrow> py_replace rupee [] (rupee @ py_str_int n) = py_str_int n"
  using rupee_not_in_digits [of n]
  by (simp add: rupee_def py_replace_absent del: py_replace.simps(3))
     (simp add: py_replace_absent)

lemma uniform_never_raises: "uniform a b ws \<noteq> Some (Inl e, ws')"
  by (auto simp: uniform_def py_random_def rmap_def split: option.splits)

lemma resale_value_run:
  assumes "0 \<le> n" and "price p = rupee @ py_str_int n"
  shows "resale_value p ws = rmap (\<lambda>f. py_trunc (of_int n * f)) (uniform (3 / 10) (7 / 10)) ws"
  using assms by (simp add: resale_value_def strip_rupee)

lemma resale_value_never_raises: "wf_price (price p) \<Longrightarrow> resale_value p ws \<noteq> Some (Inl e, ws')"
proof -
  assume "wf_price (price p)"
  then obtain n where "8000 \<le> n" and pr: "price p = rupee @ py_str_int n"
    by (blast dest: wf_price_parts)
  then have "0 \<le> n" by simp
  from resale_value_run [OF this pr] show ?thesis
    by (simp add: rmap_eq_Some uniform_never_raises)
qed

lemma py_trunc_nonneg: "0 \<le> x \<Longrightarrow> py_trunc x = \<lfloor>x\<rfloor>"
  by (simp add: py_trunc_def)

lemma resale_value_bounds:
  assumes "0 \<le> n" and "price p = rupee @ py_str_int n" and "resale_value p ws = Some (Inr r, ws')"
  shows "\<lfloor>of_int n * (3 / 10 :: rat)\<rfloor> \<le> r \<and> r \<le> \<lfloor>of_int n * (7 / 10 :: rat)\<rfloor>"
proof -
  from assms obtain f where u: "uniform (3 / 10) (7 / 10) ws = Some (Inr f, ws')"
    and r: "r = py_trunc (of_int n * f)"
    by (auto simp: resale_value_run rmap_eq_Some)
  from uniform_range [OF _ u] have f: "3 / 10 \<le> f" "f \<le> 7 / 10" by simp_all
  have n: "(0::rat) \<le> of_int n" using assms(1) by simp
  have "of_int n * (3 / 10) \<le> of_int n * f" by (rule mult_left_mono [OF f(1) n])
  moreover have "of_int n * f \<le> of_int n * (7 / 10 :: rat)" by (rule mult_left_mono [OF f(2) n])
  moreover have "0 \<le> of_int n * f" using n f by simp
  ultimately show ?thesis using r by (simp add: py_trunc_nonneg floor_mono)
qed

lemma followup_questions_not_Nil [simp]: "followup_questions \<noteq> []"
  by (simp add: followup_questions_def)

lemma answer_pending_never_raises:
  assumes "current_phone s = Some p" and "wf_phone p"
  shows "answer_pending a u s ws \<noteq> Some (Inl e, ws')"
  using assms
  by (auto simp: answer_pending_def Let_def require_phone_def rbind_eq_Some_Inl rbind_eq_Some_Inr
      choice_no_error resale_value_never_raises wf_phone_def split: if_splits action.splits)

lemma finish_turn_JStr: "finish_turn pol s (JStr t) =
  Replied (s\<lparr>chat_history := chat_history s @ [assistant_message (JStr t)]\<rparr>) t (analyze_sentiment pol t)"
  by (simp add: finish_turn_def)

lemma pending_turn_no_crash:
  assumes "reachable s" and "pending_action s \<noteq> None" and "u \<noteq> []"
    and run: "chat_turn gw pol u s ws = Some (Inr r, ws')"
  shows "\<exists>s' reply l. r = Replied s' reply l"
proof -
  have inv: "session_inv s" using assms(1) by (rule reachable_inv)
  with assms(2) obtain p where p: "current_phone s = Some p" "wf_phone p"
    by (auto simp: session_inv_def split: option.splits)
  let ?s1 = "s\<lparr>chat_history := chat_history s @ [user_message u]\<rparr>"
  have "current_phone ?s1 = Some p" using p by simp
  then have nr: "answer_pending a u ?s1 ws \<noteq> Some (Inl e, ws')" for a e
    using p(2) by (rule answer_pending_never_raises)
  from chat_turn_cases [OF run] assms(2,3) nr show ?thesis
    by (auto simp: finish_turn_JStr)
qed

lemma decline_turn:
  assumes "pending_action s = Some a" and "u \<noteq> []" and "\<not> is_affirmative u"
  shows "chat_turn gw pol u s ws =
    Some (Inr (Replied (s\<lparr>chat_history := chat_history s @ [user_message u, assistant_message (JStr decline_text)],
                            pending_action := None\<rparr>)
                        decline_text (analyze_sentiment pol decline_text)), ws)"
  using assms by (simp add: chat_turn_def answer_pending_def rcatch_def rmap_def finish_turn_JStr)

lemma idle_turn_pending:
  assumes "pending_action s = None" and run: "chat_turn gw pol u s ws = Some (Inr (Replied s' reply l), ws')"
  shows "\<exists>a p. pending_action s' = Some a \<and> a \<in> set next_actions \<and> current_phone s' = Some p \<and> wf_phone p"
proof -
  let ?s1 = "s\<lparr>chat_history := chat_history s @ [user_message u]\<rparr>"
  from chat_turn_cases [OF run] assms(1) have np: "new_phone_turn gw pol u ?s1 ws = Some (Inr (Replied s' reply l), ws')"
    by auto
  from new_phone_turn_cases [OF np] obtain p ws1 a t where
    gm: "get_mobile_info u ws = Some (Inr p, ws1)" and a: "a \<in> set next_actions" and
    r: "Replied s' reply l = (case py_iadd_str (mistral_chat gw (chat_history ?s1 @ [user_message (ai_prompt u p)])) (nl @ nl @ t) of
            Inl e \<Rightarrow> Crashed (?s1\<lparr>current_phone := Some p\<rparr>) e
          | Inr reply \<Rightarrow> finish_turn pol (?s1\<lparr>current_phone := Some p, pending_action := Some a\<rparr>) reply)"
    by blast
  have wf: "wf_phone p" using gm by (rule get_mobile_info_result_wf)
  from r have "pending_action s' = Some a \<and> current_phone s' = Some p"
    by (auto simp: finish_turn_def Let_def split: sum.splits json.splits)
  with a wf show ?thesis by blast
qed

lemma idle_turn_run:
  assumes "pending_action s = None" and "u \<noteq> []" and run: "chat_turn gw pol u s ws = Some (Inr r, ws')"
  defines "s1 \<equiv> s\<lparr>chat_history := chat_history s @ [user_message u]\<rparr>"
  shows "\<exists>p ws1 a t. get_mobile_info u ws = Some (Inr p, ws1) \<and> a \<in> set next_actions \<and>
     r = (case py_iadd_str (mistral_chat gw (chat_history s1 @ [user_message (ai_prompt u p)])) (nl @ nl @ t) of
            Inl e \<Rightarrow> Crashed (s1\<lparr>current_phone := Some p\<rparr>) e
          | Inr reply \<Rightarrow> finish_turn pol (s1\<lparr>current_phone := Some p, pending_action := Some a\<rparr>) reply)"
proof -
  from chat_turn_cases [OF run] assms(1,2) have "new_phone_turn gw pol u s1 ws = Some (Inr r, ws')"
    unfolding s1_def by auto
  from new_phone_turn_cases [OF this] show ?thesis by blast
qed

lemma gateway_failure_turn:
  assumes "pending_action s = None" and "u \<noteq> []" and "\<forall>payload. gw payload = Raised m"
    and run: "chat_turn gw pol u s ws = Some (Inr r, ws')"
  shows "\<exists>s' t l a. r = Replied s' (warning_sign @ '' Mistral Error: '' @ m @ nl @ nl @ t) l \<and>
           pending_action s' = Some a \<and> a \<in> set next_actions"
  using idle_turn_run [OF assms(1,2) run] assms(3)
  by (auto simp: mistral_chat_def mistral_reply_def error_reply_def finish_turn_JStr)

lemma non_string_content_turn:
  assumes "pending_action s = None" and "u \<noteq> []"
    and "\<forall>payload. response_content (gw payload) = Some c" and "\<forall>t. c \<noteq> JStr t"
    and run: "chat_turn gw pol u s ws = Some (Inr r, ws')"
  shows "\<exists>s' e p. r = Crashed s' e \<and> current_phone s' = Some p"
proof -
  have mc: "mistral_chat gw msgs = c" for msgs
    using assms(3) by (simp add: mistral_chat_def mistral_reply_content)
  from idle_turn_run [OF assms(1,2) run] obtain p ws1 a t where
    r: "r = (case py_iadd_str c (nl @ nl @ t) of
            Inl e \<Rightarrow> Crashed (s\<lparr>chat_history := chat_history s @ [user_message u], current_phone := Some p\<rparr>) e
          | Inr reply \<Rightarrow> finish_turn pol (s\<lparr>chat_history := chat_history s @ [user_message u],
                                 current_phone := Some p, pending_action := Some a\<rparr>) reply)"
    by (auto simp: mc)
  show ?thesis
  proof (cases "py_iadd_str c (nl @ nl @ t)")
    case (Inl e)
    with r show ?thesis by simp
  next
    case (Inr reply)
    with assms(4) have "\<forall>t. reply \<noteq> JStr t" by (cases c) auto
    with r Inr show ?thesis by (cases reply) (auto simp: finish_turn_def Let_def)
  qed
qed

lemma resale_turn:
  assumes "pending_action s = Some Resale" and "current_phone s = Some p"
    and "price p = rupee @ py_str_int n" and "0 \<le> n" and "is_affirmative u"
    and run: "chat_turn gw pol u s ws = Some (Inr r, ws')"
  shows "\<exists>N s' l. r = Replied s' (''The estimated resale value is around '' @ rupee @ py_str_int N @ ''.'') l \<and>
           \<lfloor>of_int n * (3 / 10 :: rat)\<rfloor> \<le> N \<and> N \<le> \<lfloor>of_int n * (7 / 10 :: rat)\<rfloor> \<and>
           pending_action s' = None"
proof -
  from assms(5) have u: "u \<noteq> []" by (auto simp: is_affirmative_def affirm_words_def py_lower_def)
  let ?s1 = "s\<lparr>chat_history := chat_history s @ [user_message u]\<rparr>"
  have nr: "answer_pending Resale u ?s1 ws \<noteq> Some (Inl e, ws')" for e
    using assms(2,3,4) by (auto simp: answer_pending_def Let_def require_phone_def rbind_eq_Some_Inl
        resale_value_run rmap_eq_Some uniform_never_raises)
  from chat_turn_cases [OF run] assms(1) u nr obtain reply s2 where
    ap: "answer_pending Resale u ?s1 ws = Some (Inr (reply, s2), ws')" and r: "r = finish_turn pol s2 (JStr reply)"
    by auto
  from ap assms(2,5) obtain N where rv: "resale_value p ws = Some (Inr N, ws')"
    and reply: "reply = ''The estimated resale value is around '' @ rupee @ py_str_int N @ ''.''"
    and s2: "pending_action s2 = None"
    by (auto simp: answer_pending_def Let_def require_phone_def rbind_eq_Some_Inr)
  from resale_value_bounds [OF assms(4,3) rv] r reply s2 show ?thesis
    by (auto simp: finish_turn_JStr)
qed

lemma turn_transcript:
  assumes "u \<noteq> []" and run: "chat_turn gw pol u s ws = Some (Inr r, ws')"
  shows "\<exists>ms. chat_history (turn_session s r) = chat_history s @ user_message u # ms \<and>
              length ms \<le> 1 \<and> (\<forall>m \<in> set ms. msg_role m = Assistant)"
proof -
  let ?s1 = "s\<lparr>chat_history := chat_history s @ [user_message u]\<rparr>"
  consider (crash) e where "r = Crashed ?s1 e"
    | (answer) a reply s2 where "answer_pending a u ?s1 ws = Some (Inr (reply, s2), ws')" "r = finish_turn pol s2 (JStr reply)"
    | (phone) "pending_action s = None" "new_phone_turn gw pol u ?s1 ws = Some (Inr r, ws')"
    using chat_turn_cases [OF run] assms(1) by auto
  then show ?thesis
  proof cases
    case crash
    then show ?thesis by simp
  next
    case answer
    then have "chat_history s2 = chat_history ?s1" by (blast dest: answer_pending_session)
    with answer show ?thesis by (simp add: finish_turn_session assistant_message_def)
  next
    case phone
    from new_phone_turn_cases [OF phone(2)] obtain p ws1 a t where
      r: "r = (case py_iadd_str (mistral_chat gw (chat_history ?s1 @ [user_message (ai_prompt u p)])) (nl @ nl @ t) of
            Inl e \<Rightarrow> Crashed (?s1\<lparr>current_phone := Some p\<rparr>) e
          | Inr reply \<Rightarrow> finish_turn pol (?s1\<lparr>current_phone := Some p, pending_action := Some a\<rparr>) reply)"
      by blast
    then show ?thesis
      by (auto simp: finish_turn_session assistant_message_def split: sum.splits)
  qed
qed

lemma answer_pending_pending:
  assumes "answer_pending a u s ws = Some (Inr (reply, s2), ws')"
  shows "pending_action s2 =
    (if \<not> is_affirmative u then None else if a = Show_imei then Some Follow_up
     else if a = Follow_up then pending_action s else None)"
  using assms by (auto simp: answer_pending_def Let_def rbind_eq_Some_Inr split: if_splits action.splits)

lemma turn_refines_spec:
  assumes "u \<noteq> []" and run: "chat_turn gw pol u s ws = Some (Inr (Replied s' reply l), ws')"
  shows "spec_step (abs_state s) (is_affirmative u) (abs_state s') \<or>
         (abs_state s = Awaiting Follow_up \<and> is_affirmative u \<and> abs_state s' = Awaiting Follow_up)"
proof (cases "pending_action s")
  case None
  from idle_turn_pending [OF None run] obtain a where "pending_action s' = Some a" "a \<in> set next_actions"
    by blast
  with None show ?thesis by (simp add: abs_state_def spec_step.new_phone)
next
  case (Some a)
  let ?s1 = "s\<lparr>chat_history := chat_history s @ [user_message u]\<rparr>"
  from chat_turn_cases [OF run] assms(1) Some obtain reply' s2 where
    ap: "answer_pending a u ?s1 ws = Some (Inr (reply', s2), ws')"
    and r: "Replied s' reply l = finish_turn pol s2 (JStr reply')"
    by auto
  from r have "pending_action s' = pending_action s2" by (simp add: finish_turn_JStr)
  with answer_pending_pending [OF ap] Some show ?thesis
    by (auto simp: abs_state_def intro: spec_step.intros)
qed

lemma follow_up_not_spec: "\<not> spec_step (Awaiting Follow_up) True (Awaiting Follow_up)"
  by (auto elim: spec_step_AwaitingE)

lemma get_mobile_info_iphone_exact:
  "\<exists>p. get_mobile_info ''iPhone 15'' [0, 0, 0, 0, 0, 0] = Some (Inr p, [])"
  by (simp add: get_mobile_info_def randint_def randrange_def choice_def randbelow_one_word
      randbelow.simps [of 900000000000000] getrandbits_def accepts_def rmap_def Let_def py_eval)

lemma choice_next_actions_0: "choice next_actions [0] = Some (Inr Show_imei, [])"
  by (simp add: choice_def next_actions_def randbelow_one_word accepts_def py_eval)

lemma choice_followup_questions_0: "\<exists>q. choice followup_questions [0] = Some (Inr q, [])"
  by (simp add: choice_def followup_questions_def randbelow_one_word accepts_def py_eval)

lemma first_turn_run:
  "\<exists>s1 reply l. chat_turn (\<lambda>_. Raised ''down'') (\<lambda>_. 0) ''iPhone 15'' init_session [0, 0, 0, 0, 0, 0, 0] =
      Some (Inr (Replied s1 reply l), []) \<and> pending_action s1 = Some Show_imei \<and> (\<exists>p. current_phone s1 = Some p)"
proof -
  obtain p where gm: "get_mobile_info ''iPhone 15'' [0, 0, 0, 0, 0, 0] = Some (Inr p, [])"
    using get_mobile_info_iphone_exact by blast
  have gm': "get_mobile_info ''iPhone 15'' [0, 0, 0, 0, 0, 0, 0] = Some (Inr p, [0])"
    using stableD [OF rstable_get_mobile_info gm, of "[0]"] by simp
  have t: "dict_lookup followup_texts (action_str Show_imei) = Inr ''Would you like me to show its IMEI number?''"
    by (simp add: dict_lookup_def followup_texts_def)
  show ?thesis
    by (simp add: chat_turn_def init_session_def new_phone_turn_run [OF gm' choice_next_actions_0 t]
        mistral_chat_def mistral_reply_def error_reply_def finish_turn_JStr)
qed

lemma is_affirmative_yes: "is_affirmative ''yes''"
  by (simp add: is_affirmative_def affirm_words_def py_eval)

lemma second_turn_run:
  assumes "pending_action s1 = Some Show_imei" and "current_phone s1 = Some p"
  shows "\<exists>s2 reply l. chat_turn gw pol ''yes'' s1 [0] = Some (Inr (Replied s2 reply l), []) \<and>
           pending_action s2 = Some Follow_up \<and> current_phone s2 = Some p"
proof -
  obtain q where q: "choice followup_questions [0] = Some (Inr q, [])"
    using choice_followup_questions_0 by blast
  show ?thesis
    using assms is_affirmative_yes
    by (simp add: chat_turn_def answer_pending_def require_phone_def q rcatch_def rmap_def rbind_apply Let_def finish_turn_JStr)
qed

lemma follow_up_reachable:
  "\<exists>s p. reachable s \<and> pending_action s = Some Follow_up \<and> current_phone s = Some p"
proof -
  obtain s1 reply l p where r1: "chat_turn (\<lambda>_. Raised ''down'') (\<lambda>_. 0) ''iPhone 15'' init_session
      [0, 0, 0, 0, 0, 0, 0] = Some (Inr (Replied s1 reply l), [])"
    and p1: "pending_action s1 = Some Show_imei" and c1: "current_phone s1 = Some p"
    using first_turn_run by blast
  have "reachable (turn_session init_session (Replied s1 reply l))"
    by (rule reachable.turn [OF reachable.init r1])
  then have re1: "reachable s1" by simp
  obtain s2 reply2 l2 where r2: "chat_turn (\<lambda>_. Raised ''down'') (\<lambda>_. 0) ''yes'' s1 [0] = Some (Inr (Replied s2 reply2 l2), [])"
    and p2: "pending_action s2 = Some Follow_up" and c2: "current_phone s2 = Some p"
    using second_turn_run [OF p1 c1] by blast
  have "reachable (turn_session s1 (Replied s2 reply2 l2))"
    by (rule reachable.turn [OF re1 r2])
  with p2 c2 show ?thesis by auto
qed

lemma follow_up_turn:
  assumes "pending_action s = Some Follow_up" and "is_affirmative u"
  shows "chat_turn gw pol u s ws =
    Some (Inr (Replied (s\<lparr>chat_history := chat_history s @ [user_message u, assistant_message (JStr ''Okay!'')]\<rparr>)
                        ''Okay!'' (analyze_sentiment pol ''Okay!'')), ws)"
proof -
  from assms(2) have "u \<noteq> []" by (auto simp: is_affirmative_def affirm_words_def py_lower_def)
  with assms show ?thesis
    by (simp add: chat_turn_def answer_pending_def rcatch_def rmap_def finish_turn_JStr)
qed

lemma follow_up_breaks_spec:
  "\<exists>s u ws s' reply l ws'. reachable s \<and> chat_turn gw pol u s ws = Some (Inr (Replied s' reply l), ws') \<and>
     \<not> spec_step (abs_state s) (is_affirmative u) (abs_state s')"
proof -
  obtain s p where re: "reachable s" and f: "pending_action s = Some Follow_up"
    using follow_up_reachable by blast
  let ?s' = "s\<lparr>chat_history := chat_history s @ [user_message ''yes'', assistant_message (JStr ''Okay!'')]\<rparr>"
  have run: "chat_turn gw pol ''yes'' s [] = Some (Inr (Replied ?s' ''Okay!'' (analyze_sentiment pol ''Okay!'')), [])"
    by (rule follow_up_turn [OF f is_affirmative_yes])
  have "\<not> spec_step (abs_state s) (is_affirmative ''yes'') (abs_state ?s')"
    using f is_affirmative_yes follow_up_not_spec by (simp add: abs_state_def)
  with re run show ?thesis by blast
qed

lemma null_content_turn_run:
  "\<exists>s' e. chat_turn (\<lambda>_. Decoded (JObj [(''message'', JObj [(''role'', JStr ''assistant''), (''content'', JNull)])]))
      (\<lambda>_. 0) ''iPhone 15'' init_session [0, 0, 0, 0, 0, 0, 0] = Some (Inr (Crashed s' e), [])"
proof -
  obtain p where gm: "get_mobile_info ''iPhone 15'' [0, 0, 0, 0, 0, 0] = Some (Inr p, [])"
    using get_mobile_info_iphone_exact by blast
  have gm': "get_mobile_info ''iPhone 15'' [0, 0, 0, 0, 0, 0, 0] = Some (Inr p, [0])"
    using stableD [OF rstable_get_mobile_info gm, of "[0]"] by simp
  have t: "dict_lookup followup_texts (action_str Show_imei) = Inr ''Would you like me to show its IMEI number?''"
    by (simp add: dict_lookup_def followup_texts_def)
  show ?thesis
    by (simp add: chat_turn_def init_session_def new_phone_turn_run [OF gm' choice_next_actions_0 t]
        mistral_chat_def mistral_reply_def)
qed

lemma resale_turn_run:
  "\<exists>r. chat_turn gw pol ''yes'' (init_session\<lparr>pending_action := Some Resale, current_phone := Some sample_phone\<rparr>)
      [0, 0] = Some (Inr r, [])"
proof -
  have "resale_value sample_phone [0, 0] = Some (Inr 15000, [])"
    by (simp add: resale_value_run [of 50000] sample_phone_def uniform_def py_random_def random_words_def
        random_value_def py_trunc_def rmap_def rbind_apply)
  then show ?thesis
    using is_affirmative_yes
    by (simp add: chat_turn_def answer_pending_def require_phone_def rcatch_def rmap_def rbind_apply Let_def
        sample_phone_def init_session_def)
qed

lemma first_turn_reachable:
  "\<exists>s1 reply l. reachable s1 \<and> chat_turn (\<lambda>_. Raised ''down'') (\<lambda>_. 0) ''iPhone 15'' init_session [0, 0, 0, 0, 0, 0, 0] =
      Some (Inr (Replied s1 reply l), []) \<and> pending_action s1 = Some Show_imei \<and> (\<exists>p. current_phone s1 = Some p)"
proof -
  obtain s1 reply l where r1: "chat_turn (\<lambda>_. Raised ''down'') (\<lambda>_. 0) ''iPhone 15'' init_session
      [0, 0, 0, 0, 0, 0, 0] = Some (Inr (Replied s1 reply l), [])"
    and p1: "pending_action s1 = Some Show_imei" and c1: "\<exists>p. current_phone s1 = Some p"
    using first_turn_run by blast
  have "reachable (turn_session init_session (Replied s1 reply l))"
    by (rule reachable.turn [OF reachable.init r1])
  with r1 p1 c1 show ?thesis by auto
qed

lemma first_run_obtain:
  obtains s1 reply l where "chat_turn (\<lambda>_. Raised ''down'') (\<lambda>_. 0) ''iPhone 15'' init_session [0, 0, 0, 0, 0, 0, 0] =
      Some (Inr (Replied s1 reply l), [])"
  using first_turn_run by blast

lemma sample_price: "price sample_phone = rupee @ py_str_int 50000"
  by (simp add: sample_phone_def)

lemma not_affirmative_no_thanks: "\<not> is_affirmative ''no thanks''"
  by (simp add: is_affirmative_def affirm_words_def py_lower_def py_eval)

lemma py_iadd_str_type: "py_iadd_str v t = Inr reply \<Longrightarrow> py_str_or_list reply"
  by (cases v) auto

lemma turn_history_types:
  assumes run: "chat_turn gw pol u s ws = Some (Inr r, ws')"
  shows "\<exists>ms. chat_history (turn_session s r) = chat_history s @ ms \<and>
           (\<forall>m \<in> set ms. py_str_or_list (msg_content m) \<and> msg_role m \<noteq> System)"
proof -
  let ?s1 = "s\<lparr>chat_history := chat_history s @ [user_message u]\<rparr>"
  consider (none) "r = No_input"
    | (crash) e where "r = Crashed ?s1 e"
    | (answer) a reply s2 where "answer_pending a u ?s1 ws = Some (Inr (reply, s2), ws')" "r = finish_turn pol s2 (JStr reply)"
    | (phone) "new_phone_turn gw pol u ?s1 ws = Some (Inr r, ws')"
    using chat_turn_cases [OF run] by auto
  then show ?thesis
  proof cases
    case none
    then show ?thesis by simp
  next
    case crash
    then show ?thesis by (simp add: user_message_def)
  next
    case answer
    then have "chat_history s2 = chat_history ?s1" by (blast dest: answer_pending_session)
    with answer show ?thesis by (simp add: finish_turn_session assistant_message_def user_message_def)
  next
    case phone
    from new_phone_turn_cases [OF phone] obtain p ws1 a t where
      r: "r = (case py_iadd_str (mistral_chat gw (chat_history ?s1 @ [user_message (ai_prompt u p)])) (nl @ nl @ t) of
            Inl e \<Rightarrow> Crashed (?s1\<lparr>current_phone := Some p\<rparr>) e
          | Inr reply \<Rightarrow> finish_turn pol (?s1\<lparr>current_phone := Some p, pending_action := Some a\<rparr>) reply)"
      by blast
    then show ?thesis
      by (auto simp: finish_turn_session assistant_message_def user_message_def
          dest: py_iadd_str_type split: sum.splits)
  qed
qed

lemma reachable_roles:
  assumes "reachable s"
  shows "\<forall>m \<in> set (drop 1 (chat_history s)). msg_role m \<noteq> System"
  using assms
proof (induction rule: reachable.induct)
  case init
  then show ?case by (simp add: init_session_def)
next
  case (turn s gw pol u ws r ws')
  have "chat_history s \<noteq> []"
    using reachable_inv [OF turn.hyps(1)] by (auto simp: session_inv_def)
  then have d: "drop 1 (chat_history s @ ms) = drop 1 (chat_history s) @ ms" for ms
    by (cases "chat_history s") simp_all
  from turn_history_types [OF turn.hyps(2)] turn.IH d show ?case by fastforce
qed

lemma list_content_turn_run:
  "\<exists>s' e. chat_turn list_gateway (\<lambda>_. 0) ''iPhone 15'' init_session [0, 0, 0, 0, 0, 0, 0] = Some (Inr (Crashed s' e), []) \<and>
     (\<exists>xs. assistant_message (JArr xs) \<in> set (chat_history s'))"
proof -
  obtain p where gm: "get_mobile_info ''iPhone 15'' [0, 0, 0, 0, 0, 0] = Some (Inr p, [])"
    using get_mobile_info_iphone_exact by blast
  have gm': "get_mobile_info ''iPhone 15'' [0, 0, 0, 0, 0, 0, 0] = Some (Inr p, [0])"
    using stableD [OF rstable_get_mobile_info gm, of "[0]"] by simp
  have t: "dict_lookup followup_texts (action_str Show_imei) = Inr ''Would you like me to show its IMEI number?''"
    by (simp add: dict_lookup_def followup_texts_def)
  show ?thesis
    by (simp add: chat_turn_def init_session_def new_phone_turn_run [OF gm' choice_next_actions_0 t]
        mistral_chat_def mistral_reply_def list_gateway_def finish_turn_def) blast
qed

lemma rbounded_require_phone [intro]: "rbounded 0 (require_phone po)"
  by (cases po) (auto simp: require_phone_def)

lemma rbounded_resale_value: "rbounded 2 (resale_value p)"
proof -
  have "rbounded (0 + 2) (resale_value p)"
    unfolding resale_value_def by (rule rbounded_rbind [OF rbounded_rfrom rbounded_rmap [OF rbounded_uniform]])
  then show ?thesis by (simp only: add_0)
qed

lemma rbounded_answer_pending: "rbounded 2 (answer_pending a u s)"
proof -
  have q: "rbounded 1 (choice followup_questions)" by (rule rbounded_choice) (simp add: followup_questions_def)
  have c: "rbounded 1 (choice series_keys)" by (rule rbounded_choice) (simp add: series_keys_def series_to_brand_def)
  have imei: "rbounded (0 + (1 + 0)) (rbind (require_phone po) (\<lambda>p. rbind (choice followup_questions) (\<lambda>x. rreturn (g p x))))"
    for po and g :: "phone_info \<Rightarrow> pystr \<Rightarrow> pystr \<times> session"
    by (rule rbounded_rbind [OF rbounded_require_phone rbounded_rbind [OF q rbounded_rreturn]])
  have cmp: "rbounded (1 + 0) (rbind (choice series_keys) (\<lambda>x. rreturn (g x)))" for g :: "pystr \<Rightarrow> pystr \<times> session"
    by (rule rbounded_rbind [OF c rbounded_rreturn])
  have rs: "rbounded (0 + (2 + 0)) (rbind (require_phone po) (\<lambda>p. rbind (resale_value p) (\<lambda>x. rreturn (g x))))"
    for po and g :: "int \<Rightarrow> pystr \<times> session"
    by (rule rbounded_rbind [OF rbounded_require_phone rbounded_rbind [OF rbounded_resale_value rbounded_rreturn]])
  show ?thesis
    unfolding answer_pending_def Let_def
    by (cases a) (auto intro: rbounded_mono [OF imei] rbounded_mono [OF cmp] rbounded_mono [OF rs])
qed

lemma rbounded_new_phone_turn: "rbounded 8 (new_phone_turn gw pol u s)"
proof -
  have a: "rbounded 1 (choice next_actions)" by (rule rbounded_choice) (simp add: next_actions_def)
  have "rbounded (7 + (1 + (0 + 0))) (new_phone_turn gw pol u s)"
    unfolding new_phone_turn_def Let_def
    by (intro rbounded_rcatch rbounded_rbind [OF rbounded_get_mobile_info]
        rbounded_rbind [OF a] rbounded_rbind [OF rbounded_rfrom] rbounded_rreturn)
  then show ?thesis by simp
qed

lemma rbounded_chat_turn: "rbounded 8 (chat_turn gw pol u s)"
proof -
  have "rbounded 8 (rcatch (rmap f (answer_pending a u s')) h)" for f a s' and h :: "pyexc \<Rightarrow> turn_result"
    by (intro rbounded_rcatch rbounded_rmap rbounded_mono [OF rbounded_answer_pending]) simp
  then show ?thesis
    by (auto simp: chat_turn_def Let_def rbounded_new_phone_turn split: option.splits)
qed

lemma chat_turn_no_Inl: "chat_turn gw pol u s ws \<noteq> Some (Inl e, ws')"
  by (auto simp: chat_turn_def new_phone_turn_def Let_def rcatch_def split: option.splits sum.splits prod.splits)

lemma raised_gateway_str: "\<exists>t. mistral_chat (\<lambda>_. Raised m) msgs = JStr t"
  by (simp add: mistral_chat_def mistral_reply_def error_reply_def)

lemma str_gateway_turn:
  assumes "pending_action s = None" and "u \<noteq> []" and "\<forall>msgs. \<exists>t. mistral_chat gw msgs = JStr t"
    and run: "chat_turn gw pol u s ws = Some (Inr r, ws')"
  shows "\<exists>s' t l. r = Replied s' t l"
proof -
  let ?s1 = "s\<lparr>chat_history := chat_history s @ [user_message u]\<rparr>"
  from idle_turn_run [OF assms(1,2) run] obtain p ws1 a t where
    r: "r = (case py_iadd_str (mistral_chat gw (chat_history ?s1 @ [user_message (ai_prompt u p)])) (nl @ nl @ t) of
            Inl e \<Rightarrow> Crashed (?s1\<lparr>current_phone := Some p\<rparr>) e
          | Inr reply \<Rightarrow> finish_turn pol (?s1\<lparr>current_phone := Some p, pending_action := Some a\<rparr>) reply)"
    by blast
  from assms(3) obtain t0 where "mistral_chat gw (chat_history ?s1 @ [user_message (ai_prompt u p)]) = JStr t0"
    by blast
  with r show ?thesis by (simp add: finish_turn_JStr)
qed

lemma list_content_turn:
  assumes "pending_action s = None" and "u \<noteq> []" and "\<forall>payload. response_content (gw payload) = Some (JArr xs)"
    and run: "chat_turn gw pol u s ws = Some (Inr r, ws')"
  shows "\<exists>s' e t. r = Crashed s' e \<and>
           chat_history s' = chat_history s @ [user_message u, assistant_message (JArr (xs @ map (\<lambda>c. JStr [c]) (nl @ nl @ t)))]"
proof -
  have mc: "mistral_chat gw msgs = JArr xs" for msgs
    using assms(3) by (simp add: mistral_chat_def mistral_reply_content)
  from idle_turn_run [OF assms(1,2) run] obtain p ws1 a t where
    r: "r = (case py_iadd_str (JArr xs) (nl @ nl @ t) of
            Inl e \<Rightarrow> Crashed (s\<lparr>chat_history := chat_history s @ [user_message u], current_phone := Some p\<rparr>) e
          | Inr reply \<Rightarrow> finish_turn pol (s\<lparr>chat_history := chat_history s @ [user_message u],
                                 current_phone := Some p, pending_action := Some a\<rparr>) reply)"
    by (auto simp: mc)
  then show ?thesis by (auto simp: finish_turn_def Let_def)
qed

lemma reachable_content_types:
  assumes "reachable s"
  shows "\<forall>m \<in> set (chat_history s). py_str_or_list (msg_content m)"
  using assms
proof (induction rule: reachable.induct)
  case init
  then show ?case by (simp add: init_session_def system_message_def)
next
  case (turn s gw pol u ws r ws')
  then show ?case by (fastforce dest: turn_history_types)
qed

lemma reachable_price:
  assumes "reachable s" and "current_phone s = Some p" and "price p = rupee @ py_str_int n"
  shows "8000 \<le> n \<and> n \<le> 100000"
proof -
  from reachable_inv [OF assms(1)] assms(2) have "wf_phone p" by (simp add: session_inv_def)
  then obtain m where m: "8000 \<le> m" "m \<le> 100000" and pm: "price p = rupee @ py_str_int m"
    by (auto simp: wf_phone_def dest: wf_price_parts)
  from pm assms(3) have "py_int (py_str_int m) = py_int (py_str_int n)" by simp
  then have "m = n" by simp
  with m show ?thesis by simp
qed

lemma choice_next_actions_resale: "choice next_actions [1073741824] = Some (Inr Resale, [])"
  by (simp add: choice_def next_actions_def randbelow_one_word accepts_def py_eval)

lemma resale_reachable: "\<exists>s p. reachable s \<and> pending_action s = Some Resale \<and> current_phone s = Some p"
proof -
  obtain p where gm: "get_mobile_info ''iPhone 15'' [0, 0, 0, 0, 0, 0] = Some (Inr p, [])"
    using get_mobile_info_iphone_exact by blast
  have gm': "get_mobile_info ''iPhone 15'' [0, 0, 0, 0, 0, 0, 1073741824] = Some (Inr p, [1073741824])"
    using stableD [OF rstable_get_mobile_info gm, of "[1073741824]"] by simp
  have t: "dict_lookup followup_texts (action_str Resale) = Inr ''Do you want to know its resale value?''"
    by (simp add: dict_lookup_def followup_texts_def)
  have "\<exists>s1 reply l. chat_turn (\<lambda>_. Raised ''down'') (\<lambda>_. 0) ''iPhone 15'' init_session [0, 0, 0, 0, 0, 0, 1073741824] =
      Some (Inr (Replied s1 reply l), []) \<and> pending_action s1 = Some Resale \<and> current_phone s1 = Some p"
    by (simp add: chat_turn_def init_session_def new_phone_turn_run [OF gm' choice_next_actions_resale t]
        mistral_chat_def mistral_reply_def error_reply_def finish_turn_JStr)
  then obtain s1 reply l where r1: "chat_turn (\<lambda>_. Raised ''down'') (\<lambda>_. 0) ''iPhone 15'' init_session
      [0, 0, 0, 0, 0, 0, 1073741824] = Some (Inr (Replied s1 reply l), [])"
    and p1: "pending_action s1 = Some Resale" and c1: "current_phone s1 = Some p" by blast
  have "reachable (turn_session init_session (Replied s1 reply l))"
    by (rule reachable.turn [OF reachable.init r1])
  with p1 c1 show ?thesis by auto
qed

lemma resale_pending_run:
  assumes "pending_action s = Some Resale" and "current_phone s = Some p"
    and "price p = rupee @ py_str_int n" and "0 \<le> n"
  shows "\<exists>r. chat_turn gw pol ''yes'' s [0, 0] = Some (Inr r, [])"
proof -
  have "\<exists>N. resale_value p [0, 0] = Some (Inr N, [])"
    by (simp add: resale_value_run [OF assms(4,3)] uniform_def py_random_def random_words_def
        random_value_def rmap_def rbind_apply)
  then obtain N where "resale_value p [0, 0] = Some (Inr N, [])" by blast
  then show ?thesis
    using assms(1,2) is_affirmative_yes
    by (simp add: chat_turn_def answer_pending_def require_phone_def rcatch_def rmap_def rbind_apply Let_def)
qed

section \<open>Properties of the conversation\<close>

text \<open>Claim C1. Every completed turn of \<^verbatim>\<open>main1.py\<close> refines the state machine of the spec: the pending action before and after the turn, read as an abstract state, is a step of \<open>spec_step\<close> labelled by whether the input is affirmative, with one exception, an affirmed \<open>follow_up\<close> that stays pending.\<close>

theorem chat_turn_refines_spec:
  assumes "u \<noteq> []" and run: "chat_turn gw pol u s ws = Some (Inr (Replied s' reply l), ws')"
  shows "spec_step (abs_state s) (is_affirmative u) (abs_state s') \<or>
         (abs_state s = Awaiting Follow_up \<and> is_affirmative u \<and> abs_state s' = Awaiting Follow_up)"
  using assms by (rule turn_refines_spec)

theorem chat_turn_refines_spec_witness:
  "\<exists>s' reply l. ''iPhone 15'' \<noteq> [] \<and>
     chat_turn (\<lambda>_. Raised ''down'') (\<lambda>_. 0) ''iPhone 15'' init_session [0, 0, 0, 0, 0, 0, 0] = Some (Inr (Replied s' reply l), []) \<and>
     (spec_step (abs_state init_session) (is_affirmative ''iPhone 15'') (abs_state s') \<or>
      (abs_state init_session = Awaiting Follow_up \<and> is_affirmative ''iPhone 15'' \<and> abs_state s' = Awaiting Follow_up))"
proof -
  obtain s1 reply l where r1: "chat_turn (\<lambda>_. Raised ''down'') (\<lambda>_. 0) ''iPhone 15'' init_session
      [0, 0, 0, 0, 0, 0, 0] = Some (Inr (Replied s1 reply l), [])"
    using first_turn_run by blast
  show ?thesis using chat_turn_refines_spec [OF _ r1] r1 by blast
qed

text \<open>Claim C2. Every session reachable from a new one by turns (crashed turns included) keeps the invariant: the transcript starts with the system message, and a pending action is only set while a phone is stored, which is a well-formed result of \<^verbatim>\<open>get_mobile_info\<close>.\<close>

theorem reachable_session_inv:
 "reachable s \<Longrightarrow> session_inv s"
  by (rule reachable_inv)

theorem reachable_session_inv_witness: "reachable init_session \<and> session_inv init_session"
  using reachable_session_inv [of init_session] reachable.init by simp

text \<open>Claim C3. When the pending action is \<^verbatim>\<open>follow_up\<close> and the user answers affirmatively, the turn replies \<^verbatim>\<open>Okay!\<close>, consumes no generator output and leaves \<^verbatim>\<open>pending_action\<close> as it was (lines 146--147), so the session stays in the follow-up state.\<close>

theorem follow_up_never_cleared:
  assumes "pending_action s = Some Follow_up" and "is_affirmative u"
  shows "chat_turn gw pol u s ws =
    Some (Inr (Replied (s\<lparr>chat_history := chat_history s @ [user_message u, assistant_message (JStr ''Okay!'')]\<rparr>)
                        ''Okay!'' (analyze_sentiment pol ''Okay!'')), ws)"
  using assms by (rule follow_up_turn)

theorem follow_up_never_cleared_witness:
  "pending_action (init_session\<lparr>pending_action := Some Follow_up\<rparr>) = Some Follow_up \<and> is_affirmative ''yes'' \<and>
   chat_turn (\<lambda>_. Raised ''down'') (\<lambda>_. 0) ''yes'' (init_session\<lparr>pending_action := Some Follow_up\<rparr>) [] =
    Some (Inr (Replied (init_session\<lparr>pending_action := Some Follow_up,
       chat_history := [system_message, user_message ''yes'', assistant_message (JStr ''Okay!'')]\<rparr>)
                        ''Okay!'' (analyze_sentiment (\<lambda>_. 0) ''Okay!'')), [])"
  using follow_up_never_cleared [of "init_session\<lparr>pending_action := Some Follow_up\<rparr>" "''yes''" "\<lambda>_. Raised ''down''" "\<lambda>_. 0" "[]"]
    is_affirmative_yes
  by (simp add: init_session_def)

text \<open>Claim C4. Some reachable session takes a completed turn that is not a step of the spec's state machine, whatever the gateway and the scorer: the affirmed \<^verbatim>\<open>follow_up\<close> of the spec returns to Idle, the code stays in it.\<close>

theorem follow_up_violates_spec:
  "\<exists>s u ws s' reply l ws'. reachable s \<and> chat_turn gw pol u s ws = Some (Inr (Replied s' reply l), ws') \<and>
     \<not> spec_step (abs_state s) (is_affirmative u) (abs_state s')"
  by (rule follow_up_breaks_spec)

theorem follow_up_violates_spec_witness:
  "\<exists>s u ws s' reply l ws'. reachable s \<and> chat_turn (\<lambda>_. Raised ''down'') (\<lambda>_. 0) u s ws = Some (Inr (Replied s' reply l), ws') \<and>
     \<not> spec_step (abs_state s) (is_affirmative u) (abs_state s')"
  by (rule follow_up_violates_spec [of "\<lambda>_. Raised ''down''" "\<lambda>_. 0"])

text \<open>Claim C5. When the gateway's reply has the expected shape but its content is not a string, a new-phone turn crashes with the phone already stored: the exception of \<^verbatim>\<open>ai_reply +=\<close> or of \<^verbatim>\<open>TextBlob\<close> is raised outside the \<^verbatim>\<open>try\<close> of \<^verbatim>\<open>mistral_chat\<close>.\<close>

theorem non_string_content_crashes:
  assumes "pending_action s = None" and "u \<noteq> []"
    and "\<forall>payload. response_content (gw payload) = Some c" and "\<forall>t. c \<noteq> JStr t"
    and run: "chat_turn gw pol u s ws = Some (Inr r, ws')"
  shows "\<exists>s' e p. r = Crashed s' e \<and> current_phone s' = Some p"
  using assms by (rule non_string_content_turn)

theorem non_string_content_crashes_witness:
  "\<exists>r. pending_action init_session = None \<and> ''iPhone 15'' \<noteq> [] \<and>
     (\<forall>payload. response_content ((\<lambda>_. Decoded (JObj [(''message'', JObj [(''role'', JStr ''assistant''), (''content'', JNull)])])) payload) = Some JNull) \<and>
     (\<forall>t. JNull \<noteq> JStr t) \<and>
     chat_turn (\<lambda>_. Decoded (JObj [(''message'', JObj [(''role'', JStr ''assistant''), (''content'', JNull)])]))
      (\<lambda>_. 0) ''iPhone 15'' init_session [0, 0, 0, 0, 0, 0, 0] = Some (Inr r, []) \<and>
     (\<exists>s' e p. r = Crashed s' e \<and> current_phone s' = Some p)"
proof -
  obtain s' e where r: "chat_turn (\<lambda>_. Decoded (JObj [(''message'', JObj [(''role'', JStr ''assistant''), (''content'', JNull)])]))
      (\<lambda>_. 0) ''iPhone 15'' init_session [0, 0, 0, 0, 0, 0, 0] = Some (Inr (Crashed s' e), [])"
    using null_content_turn_run by blast
  have n: "pending_action init_session = None" by (simp add: init_session_def)
  have c: "\<forall>payload. response_content ((\<lambda>_. Decoded (JObj [(''message'', JObj [(''role'', JStr ''assistant''), (''content'', JNull)])])) payload) = Some JNull"
    by (simp add: response_content_def)
  show ?thesis using non_string_content_crashes [OF n _ c _ r] n c r by auto
qed

text \<open>Claim C6. On a reachable session with a pending action, a turn on non-empty input never raises: it always replies.\<close>

theorem pending_turn_completes:
  assumes "reachable s" and "pending_action s \<noteq> None" and "u \<noteq> []"
    and run: "chat_turn gw pol u s ws = Some (Inr r, ws')"
  shows "\<exists>s' reply l. r = Replied s' reply l"
  using assms by (rule pending_turn_no_crash)

theorem pending_turn_completes_witness:
  "\<exists>s1 r. reachable s1 \<and> pending_action s1 \<noteq> None \<and> ''yes'' \<noteq> [] \<and>
     chat_turn (\<lambda>_. Raised ''down'') (\<lambda>_. 0) ''yes'' s1 [0] = Some (Inr r, []) \<and> (\<exists>s' reply l. r = Replied s' reply l)"
proof -
  obtain s1 reply l p where re: "reachable s1" and p1: "pending_action s1 = Some Show_imei" and c1: "current_phone s1 = Some p"
    using first_turn_reachable by blast
  obtain s2 reply2 l2 where r2: "chat_turn (\<lambda>_. Raised ''down'') (\<lambda>_. 0) ''yes'' s1 [0] = Some (Inr (Replied s2 reply2 l2), [])"
    using second_turn_run [OF p1 c1] by blast
  show ?thesis using pending_turn_completes [OF re _ _ r2] re p1 r2 by auto
qed

text \<open>Claim C19. A completed turn without a pending action stores a well-formed phone and sets one of the four offered actions (\<^verbatim>\<open>show_imei\<close>, \<^verbatim>\<open>compare\<close>, \<^verbatim>\<open>resale\<close>, \<^verbatim>\<open>pros_cons\<close>) as pending.\<close>

theorem idle_turn_awaits:
  assumes "pending_action s = None" and run: "chat_turn gw pol u s ws = Some (Inr (Replied s' reply l), ws')"
  shows "\<exists>a p. pending_action s' = Some a \<and> a \<in> set next_actions \<and> current_phone s' = Some p \<and> wf_phone p"
  using assms by (rule idle_turn_pending)

theorem idle_turn_awaits_witness:
  "\<exists>s' reply l. pending_action init_session = None \<and>
     chat_turn (\<lambda>_. Raised ''down'') (\<lambda>_. 0) ''iPhone 15'' init_session [0, 0, 0, 0, 0, 0, 0] = Some (Inr (Replied s' reply l), []) \<and>
     (\<exists>a p. pending_action s' = Some a \<and> a \<in> set next_actions \<and> current_phone s' = Some p \<and> wf_phone p)"
proof -
  obtain s1 reply l where r: "chat_turn (\<lambda>_. Raised ''down'') (\<lambda>_. 0) ''iPhone 15'' init_session [0, 0, 0, 0, 0, 0, 0] =
      Some (Inr (Replied s1 reply l), [])" by (rule first_run_obtain)
  have n: "pending_action init_session = None" by (simp add: init_session_def)
  show ?thesis using idle_turn_awaits [OF n r] n r by blast
qed

text \<open>Claim C20. A non-affirmative answer to any pending action replies with the decline text, consumes no generator output and clears the pending action.\<close>

theorem decline_resets:
  assumes "pending_action s = Some a" and "u \<noteq> []" and "\<not> is_affirmative u"
  shows "chat_turn gw pol u s ws =
    Some (Inr (Replied (s\<lparr>chat_history := chat_history s @ [user_message u, assistant_message (JStr decline_text)],
                            pending_action := None\<rparr>)
                        decline_text (analyze_sentiment pol decline_text)), ws)"
  using assms by (rule decline_turn)

theorem decline_resets_witness:
  "pending_action (init_session\<lparr>pending_action := Some Show_imei\<rparr>) = Some Show_imei \<and> ''no thanks'' \<noteq> [] \<and>
   \<not> is_affirmative ''no thanks'' \<and>
   chat_turn (\<lambda>_. Raised ''down'') (\<lambda>_. 0) ''no thanks'' (init_session\<lparr>pending_action := Some Show_imei\<rparr>) [] =
    Some (Inr (Replied (init_session\<lparr>chat_history := [system_message, user_message ''no thanks'', assistant_message (JStr decline_text)]\<rparr>)
                        decline_text (analyze_sentiment (\<lambda>_. 0) decline_text)), [])"
proof -
  have na: "\<not> is_affirmative ''no thanks''"
    by (simp add: is_affirmative_def affirm_words_def py_lower_def py_eval)
  show ?thesis
    using decline_resets [of "init_session\<lparr>pending_action := Some Show_imei\<rparr>" Show_imei "''no thanks''" "\<lambda>_. Raised ''down''" "\<lambda>_. 0" "[]"] na
    by (simp add: init_session_def)
qed

text \<open>Claim C22. When every request to the gateway raises, a new-phone turn still replies, with the warning text followed by the follow-up question, and sets an offered action as pending.\<close>

theorem gateway_failure_still_awaits:
  assumes "pending_action s = None" and "u \<noteq> []" and "\<forall>payload. gw payload = Raised m"
    and run: "chat_turn gw pol u s ws = Some (Inr r, ws')"
  shows "\<exists>s' t l a. r = Replied s' (warning_sign @ '' Mistral Error: '' @ m @ nl @ nl @ t) l \<and>
           pending_action s' = Some a \<and> a \<in> set next_actions"
  using assms by (rule gateway_failure_turn)

theorem gateway_failure_still_awaits_witness:
  "\<exists>r. pending_action init_session = None \<and> ''iPhone 15'' \<noteq> [] \<and> (\<forall>payload. (\<lambda>_. Raised ''down'') payload = Raised ''down'') \<and>
     chat_turn (\<lambda>_. Raised ''down'') (\<lambda>_. 0) ''iPhone 15'' init_session [0, 0, 0, 0, 0, 0, 0] = Some (Inr r, []) \<and>
     (\<exists>s' t l a. r = Replied s' (warning_sign @ '' Mistral Error: '' @ ''down'' @ nl @ nl @ t) l \<and>
           pending_action s' = Some a \<and> a \<in> set next_actions)"
proof -
  obtain s1 reply l where r: "chat_turn (\<lambda>_. Raised ''down'') (\<lambda>_. 0) ''iPhone 15'' init_session [0, 0, 0, 0, 0, 0, 0] =
      Some (Inr (Replied s1 reply l), [])" by (rule first_run_obtain)
  have n: "pending_action init_session = None" by (simp add: init_session_def)
  show ?thesis using gateway_failure_still_awaits [OF n _ _ r, of "''down''"] n r by auto
qed

text \<open>Claim C25. On a reachable session, an affirmed resale question on the stored
  phone, priced at \<open>n\<close> rupees with \<open>8000 \<le> n \<le> 100000\<close>, replies with a value
  between \<open>n * 0.3\<close> and \<open>n * 0.7\<close> (rounded down) and clears the pending action.
  Prices this small are exact as doubles; the model multiplies exactly where
  \<^verbatim>\<open>int(price * uniform(0.3, 0.7))\<close> rounds the product to a double.\<close>

theorem resale_turn_bounds:
  assumes "reachable s" and "pending_action s = Some Resale" and "current_phone s = Some p"
    and "price p = rupee @ py_str_int n" and "is_affirmative u"
    and run: "chat_turn gw pol u s ws = Some (Inr r, ws')"
  shows "8000 \<le> n \<and> n \<le> 100000 \<and>
         (\<exists>N s' l. r = Replied s' (''The estimated resale value is around '' @ rupee @ py_str_int N @ ''.'') l \<and>
           \<lfloor>of_int n * (3 / 10 :: rat)\<rfloor> \<le> N \<and> N \<le> \<lfloor>of_int n * (7 / 10 :: rat)\<rfloor> \<and>
           pending_action s' = None)"
proof -
  have n: "8000 \<le> n \<and> n \<le> 100000" by (rule reachable_price [OF assms(1,3,4)])
  then have "0 \<le> n" by simp
  with n resale_turn [OF assms(2,3,4) _ assms(5) run] show ?thesis by blast
qed

theorem resale_turn_bounds_witness:
  "\<exists>s p n r. reachable s \<and> pending_action s = Some Resale \<and> current_phone s = Some p \<and>
     price p = rupee @ py_str_int n \<and> is_affirmative ''yes'' \<and>
     chat_turn (\<lambda>_. Raised ''down'') (\<lambda>_. 0) ''yes'' s [0, 0] = Some (Inr r, []) \<and>
     8000 \<le> n \<and> n \<le> 100000 \<and>
     (\<exists>N s' l. r = Replied s' (''The estimated resale value is around '' @ rupee @ py_str_int N @ ''.'') l \<and>
        \<lfloor>of_int n * (3 / 10 :: rat)\<rfloor> \<le> N \<and> N \<le> \<lfloor>of_int n * (7 / 10 :: rat)\<rfloor> \<and> pending_action s' = None)"
proof -
  obtain s p where re: "reachable s" and pa: "pending_action s = Some Resale" and cp: "current_phone s = Some p"
    using resale_reachable by blast
  from reachable_inv [OF re] cp have "wf_phone p" by (simp add: session_inv_def)
  then obtain n where n0: "8000 \<le> n" and pr: "price p = rupee @ py_str_int n"
    by (auto simp: wf_phone_def dest: wf_price_parts)
  obtain r where run: "chat_turn (\<lambda>_. Raised ''down'') (\<lambda>_. 0) ''yes'' s [0, 0] = Some (Inr r, [])"
    using resale_pending_run [OF pa cp pr] n0 by auto
  show ?thesis using resale_turn_bounds [OF re pa cp pr is_affirmative_yes run] re pa cp pr is_affirmative_yes run
    by blast
qed

text \<open>Claim C26. A turn on non-empty input appends exactly the user's message and at most one assistant message to the transcript, crashed turns included.\<close>

theorem chat_turn_transcript:
  assumes "u \<noteq> []" and run: "chat_turn gw pol u s ws = Some (Inr r, ws')"
  shows "\<exists>ms. chat_history (turn_session s r) = chat_history s @ user_message u # ms \<and>
              length ms \<le> 1 \<and> (\<forall>m \<in> set ms. msg_role m = Assistant)"
  using assms by (rule turn_transcript)

theorem chat_turn_transcript_witness:
  "\<exists>r. ''iPhone 15'' \<noteq> [] \<and>
     chat_turn (\<lambda>_. Raised ''down'') (\<lambda>_. 0) ''iPhone 15'' init_session [0, 0, 0, 0, 0, 0, 0] = Some (Inr r, []) \<and>
     (\<exists>ms. chat_history (turn_session init_session r) = chat_history init_session @ user_message ''iPhone 15'' # ms \<and>
              length ms \<le> 1 \<and> (\<forall>m \<in> set ms. msg_role m = Assistant))"
proof -
  obtain s1 reply l where r: "chat_turn (\<lambda>_. Raised ''down'') (\<lambda>_. 0) ''iPhone 15'' init_session [0, 0, 0, 0, 0, 0, 0] =
      Some (Inr (Replied s1 reply l), [])" by (rule first_run_obtain)
  show ?thesis using chat_turn_transcript [OF _ r] r by auto
qed

text \<open>Claim C30. Any answer whose lower-cased text contains \<open>ok\<close> counts as a yes,
  \<open>looks\<close>, \<open>broke\<close> and \<open>not ok\<close> included: with \<^verbatim>\<open>pros_cons\<close> pending such
  an answer gets the pros and cons and clears the pending action.\<close>

theorem ok_substring_affirms:
  assumes "pending_action s = Some Pros_cons" and "py_contains ''ok'' (py_lower u)"
  shows "chat_turn gw pol u s ws =
    Some (Inr (Replied (s\<lparr>chat_history := chat_history s @ [user_message u, assistant_message (JStr pros_cons_text)],
                          pending_action := None\<rparr>)
                        pros_cons_text (analyze_sentiment pol pros_cons_text)), ws)"
proof -
  have a: "is_affirmative u" using assms(2) by (simp add: is_affirmative_def affirm_words_def)
  then have "u \<noteq> []" by (auto simp: is_affirmative_def affirm_words_def py_lower_def)
  with assms(1) a show ?thesis
    by (simp add: chat_turn_def answer_pending_def rcatch_def rmap_def finish_turn_JStr)
qed

theorem ok_substring_affirms_witness:
  "pending_action (init_session\<lparr>pending_action := Some Pros_cons\<rparr>) = Some Pros_cons \<and>
   py_contains ''ok'' (py_lower ''No, I do not like its looks'') \<and>
   chat_turn (\<lambda>_. Raised ''down'') (\<lambda>_. 0) ''No, I do not like its looks'' (init_session\<lparr>pending_action := Some Pros_cons\<rparr>) [] =
    Some (Inr (Replied (init_session\<lparr>chat_history := [system_message, user_message ''No, I do not like its looks'',
                                                         assistant_message (JStr pros_cons_text)]\<rparr>)
                        pros_cons_text (analyze_sentiment (\<lambda>_. 0) pros_cons_text)), [])"
proof -
  have ok: "py_contains ''ok'' (py_lower ''No, I do not like its looks'')" by (simp add: py_eval)
  show ?thesis
    using ok_substring_affirms [of "init_session\<lparr>pending_action := Some Pros_cons\<rparr>" "''No, I do not like its looks''"
        "\<lambda>_. Raised ''down''" "\<lambda>_. 0" "[]"] ok
    by (simp add: init_session_def)
qed

text \<open>Claim C17. On a reachable session, an affirmed \<^verbatim>\<open>show_imei\<close> replies with
  the stored phone's IMEI (15 digits) followed by one of the three follow-up questions,
  and sets \<^verbatim>\<open>follow_up\<close> as pending.\<close>

theorem show_imei_reveals:
  assumes "reachable s" and "pending_action s = Some Show_imei" and "is_affirmative u"
    and run: "chat_turn gw pol u s ws = Some (Inr r, ws')"
  shows "\<exists>p q s' l. current_phone s = Some p \<and> wf_imei (imei_number p) \<and> q \<in> set followup_questions \<and>
           r = Replied s' (imei_reply p @ nl @ nl @ q) l \<and> pending_action s' = Some Follow_up"
proof -
  from reachable_inv [OF assms(1)] assms(2) obtain p where p: "current_phone s = Some p" "wf_phone p"
    by (auto simp: session_inv_def split: option.splits)
  from assms(3) have u: "u \<noteq> []" by (auto simp: is_affirmative_def affirm_words_def py_lower_def)
  let ?s1 = "s\<lparr>chat_history := chat_history s @ [user_message u]\<rparr>"
  have nr: "answer_pending Show_imei u ?s1 ws \<noteq> Some (Inl e, ws')" for e
    using answer_pending_never_raises [of ?s1 p] p by simp
  from chat_turn_cases [OF run] assms(2) u nr obtain reply s2 where
    ap: "answer_pending Show_imei u ?s1 ws = Some (Inr (reply, s2), ws')" and r: "r = finish_turn pol s2 (JStr reply)"
    by auto
  from ap p(1) assms(3) obtain q where q: "choice followup_questions ws = Some (Inr q, ws')"
    and reply: "reply = imei_reply p @ nl @ nl @ q" and s2: "pending_action s2 = Some Follow_up"
    by (auto simp: answer_pending_def Let_def require_phone_def rbind_eq_Some_Inr)
  from p(2) have "wf_imei (imei_number p)" by (simp add: wf_phone_def)
  with p(1) choice_result [OF q] r reply s2 show ?thesis by (auto simp: finish_turn_JStr)
qed

theorem show_imei_reveals_witness:
  "\<exists>s1 r. reachable s1 \<and> pending_action s1 = Some Show_imei \<and> is_affirmative ''yes'' \<and>
     chat_turn (\<lambda>_. Raised ''down'') (\<lambda>_. 0) ''yes'' s1 [0] = Some (Inr r, []) \<and>
     (\<exists>p q s' l. current_phone s1 = Some p \<and> wf_imei (imei_number p) \<and> q \<in> set followup_questions \<and>
           r = Replied s' (imei_reply p @ nl @ nl @ q) l \<and> pending_action s' = Some Follow_up)"
proof -
  obtain s1 reply l p where re: "reachable s1" and p1: "pending_action s1 = Some Show_imei"
    and c1: "current_phone s1 = Some p"
    using first_turn_reachable by blast
  obtain s2 reply2 l2 where r2: "chat_turn (\<lambda>_. Raised ''down'') (\<lambda>_. 0) ''yes'' s1 [0] = Some (Inr (Replied s2 reply2 l2), [])"
    using second_turn_run [OF p1 c1] by blast
  show ?thesis using show_imei_reveals [OF re p1 is_affirmative_yes r2] re p1 is_affirmative_yes r2 by blast
qed

text \<open>Claim C8. Every message in the transcript of a reachable session has content of
  Python type \<open>str\<close> or \<open>list\<close>, and a list does get stored: when the model's
  content is a list, a new-phone turn extends it with the follow-up question character by
  character (\<^verbatim>\<open>ai_reply +=\<close>, line 180), appends it to the transcript (line 184) and
  only then crashes in \<^verbatim>\<open>TextBlob\<close>, leaving a reachable session whose transcript,
  sent to the model on the next turn, holds that list.\<close>

theorem history_content_type:
  assumes "reachable s"
  shows "(\<forall>m \<in> set (chat_history s). py_str_or_list (msg_content m)) \<and>
    (pending_action s = None \<and> u \<noteq> [] \<and> (\<forall>payload. response_content (gw payload) = Some (JArr xs)) \<and>
     chat_turn gw pol u s ws = Some (Inr r, ws') \<longrightarrow>
     (\<exists>s' e t. r = Crashed s' e \<and> reachable s' \<and>
        chat_history s' = chat_history s @ [user_message u, assistant_message (JArr (xs @ map (\<lambda>c. JStr [c]) (nl @ nl @ t)))]))"
proof (intro conjI impI)
  show "\<forall>m \<in> set (chat_history s). py_str_or_list (msg_content m)" by (rule reachable_content_types [OF assms])
next
  assume h: "pending_action s = None \<and> u \<noteq> [] \<and> (\<forall>payload. response_content (gw payload) = Some (JArr xs)) \<and>
     chat_turn gw pol u s ws = Some (Inr r, ws')"
  then have run: "chat_turn gw pol u s ws = Some (Inr r, ws')" by blast
  from h list_content_turn [of s u gw xs pol ws r ws'] obtain s' e t where r: "r = Crashed s' e"
    and hs: "chat_history s' = chat_history s @ [user_message u, assistant_message (JArr (xs @ map (\<lambda>c. JStr [c]) (nl @ nl @ t)))]"
    by blast
  have "reachable (turn_session s r)" by (rule reachable.turn [OF assms run])
  with r hs show "\<exists>s' e t. r = Crashed s' e \<and> reachable s' \<and>
        chat_history s' = chat_history s @ [user_message u, assistant_message (JArr (xs @ map (\<lambda>c. JStr [c]) (nl @ nl @ t)))]"
    by auto
qed

theorem history_content_type_witness:
  "\<exists>r. reachable init_session \<and> chat_turn list_gateway (\<lambda>_. 0) ''iPhone 15'' init_session [0, 0, 0, 0, 0, 0, 0] = Some (Inr r, []) \<and>
     (\<forall>m \<in> set (chat_history init_session). py_str_or_list (msg_content m)) \<and>
     (\<exists>s' e t. r = Crashed s' e \<and> reachable s' \<and>
        chat_history s' = chat_history init_session @ [user_message ''iPhone 15'', assistant_message (JArr ([] @ map (\<lambda>c. JStr [c]) (nl @ nl @ t)))])"
proof -
  obtain s' e where run: "chat_turn list_gateway (\<lambda>_. 0) ''iPhone 15'' init_session [0, 0, 0, 0, 0, 0, 0] = Some (Inr (Crashed s' e), [])"
    using list_content_turn_run by blast
  have pa: "pending_action init_session = None" by (simp add: init_session_def)
  have g: "\<forall>payload. response_content (list_gateway payload) = Some (JArr [])"
    by (simp add: list_gateway_def response_content_def)
  show ?thesis
    using history_content_type [OF reachable.init, of "''iPhone 15''" list_gateway "[]" "\<lambda>_. 0" "[0, 0, 0, 0, 0, 0, 0]" "Crashed s' e" "[]"]
      pa g run reachable.init by auto
qed

text \<open>Claim C7. On a reachable session, a turn on non-empty input returns a reply,
  never a crash, after reading at most eight words of generator output when every draw
  accepts its first word, provided the model's content is a string (a gateway failure
  gives a string too): seven words for \<^verbatim>\<open>get_mobile_info\<close> and one for the next
  action on a new phone, at most two for \<^verbatim>\<open>uniform\<close> on a pending action.\<close>

theorem chat_turn_returns:
  assumes "reachable s" and "u \<noteq> []" and "\<forall>msgs. \<exists>t. mistral_chat gw msgs = JStr t"
  shows "\<exists>s' t l j. j \<le> 8 \<and>
           chat_turn gw pol u s (replicate 8 0 @ rest) = Some (Inr (Replied s' t l), replicate j 0 @ rest)"
proof -
  obtain r j where j: "j \<le> 8" and run0: "chat_turn gw pol u s (replicate 8 0 @ rest) = Some (r, replicate j 0 @ rest)"
    using rbounded_chat_turn [of gw pol u s] unfolding rbounded_def by blast
  obtain x where x: "r = Inr x" using run0 chat_turn_no_Inl by (cases r) auto
  with run0 have run: "chat_turn gw pol u s (replicate 8 0 @ rest) = Some (Inr x, replicate j 0 @ rest)" by simp
  have "\<exists>s' t l. x = Replied s' t l"
  proof (cases "pending_action s")
    case None
    then show ?thesis by (rule str_gateway_turn [OF _ assms(2,3) run])
  next
    case (Some a)
    then show ?thesis using pending_turn_no_crash [OF assms(1) _ assms(2) run] by simp
  qed
  with j run show ?thesis by blast
qed

theorem chat_turn_returns_witness:
  "reachable init_session \<and> ''iPhone 15'' \<noteq> [] \<and> (\<forall>msgs. \<exists>t. mistral_chat (\<lambda>_. Raised ''down'') msgs = JStr t) \<and>
   (\<exists>s' t l j. j \<le> 8 \<and> chat_turn (\<lambda>_. Raised ''down'') (\<lambda>_. 0) ''iPhone 15'' init_session (replicate 8 0 @ []) =
      Some (Inr (Replied s' t l), replicate j 0 @ []))"
proof -
  have g: "\<forall>msgs. \<exists>t. mistral_chat (\<lambda>_. Raised ''down'') msgs = JStr t" by (simp add: raised_gateway_str)
  show ?thesis
    using chat_turn_returns [OF reachable.init _ g, of "''iPhone 15''" "\<lambda>_. 0" "[]"] g reachable.init by simp
qed

end
