(* ===== verification/Catalog.thy ===== *)
theory Catalog
  imports Phone Sentiment
begin

text \<open>
  The catalog-lookup strategy of \<^verbatim>\<open>src/mobile.py\<close>: \<^verbatim>\<open>get_mobile_info\<close> (lines
  18--40) over the rows of the CSV file loaded at start-up (lines 9--13), and the page
  (lines 62--84) that calls it when the button is pressed. The rows are a list of
  records with the file's columns. \<^verbatim>\<open>filtered.sample(1)\<close> draws with numpy's
  generator, not with Python's \<open>random\<close>: the row it picks is an argument of the
  model (\<open>pick\<close>, an index taken modulo the number of matching rows), so every
  statement holds for every choice numpy can make; sampling from no rows raises, as
  pandas does. The IMEI and the condition are drawn with Python's \<open>random\<close>, in
  this order. The lemmas show that a found record copies a matching row and adds a
  well-formed IMEI and condition, that no match gives \<open>None\<close> without drawing, that
  the page never raises (the emptiness test guards the sample), and what the page
  shows in each case.
\<close>

section \<open>Data\<close>

text \<open>A row of \<^verbatim>\<open>mobile_phones.csv\<close>: columns \<open>Brand\<close>, \<open>Series\<close>, \<open>Model\<close>, \<open>Launch_Year\<close>, \<open>Price\<close>.\<close>

record csv_row =
  row_brand :: pystr
  row_series :: pystr
  row_model :: pystr
  row_launch_year :: int
  row_price :: pystr

text \<open>The dict the catalog's \<^verbatim>\<open>get_mobile_info\<close> returns (no \<open>purchased_year\<close>).\<close>

record catalog_info =
  info_make :: pystr
  info_series :: pystr
  info_model :: pystr
  info_launch_year :: int
  info_condition :: pystr
  info_price :: pystr
  info_imei :: pystr

section \<open>Lookup\<close>

text \<open>\<^verbatim>\<open>mobile_df[mobile_df['Model'].str.lower() == name_lower]\<close>, in file order.\<close>

definition matching_rows :: "csv_row list \<Rightarrow> pystr \<Rightarrow> csv_row list" where
  "matching_rows df name_lower = filter (\<lambda>r. py_lower (row_model r) = name_lower) df"

text \<open>The row at the index numpy draws.\<close>

definition sample_row :: "csv_row list \<Rightarrow> nat \<Rightarrow> csv_row" where
  "sample_row rows pick = rows ! (pick mod length rows)"

text \<open>\<^verbatim>\<open>filtered.sample(1).iloc[0]\<close>: pandas refuses a sample of one row from an
  empty frame.\<close>

definition df_sample :: "csv_row list \<Rightarrow> nat \<Rightarrow> pyexc + csv_row" where
  "df_sample rows pick =
     (if rows = [] then
        Inl (ValueError (''Cannot take a larger sample than population when '' @ [CHR 0x27] @ ''replace=False'' @ [CHR 0x27]))
      else Inr (sample_row rows pick))"

definition get_mobile_info_catalog :: "csv_row list \<Rightarrow> nat \<Rightarrow> pystr \<Rightarrow> catalog_info option rand" where
  "get_mobile_info_catalog df pick mobile_name =
     (let name_lower = py_lower (py_strip mobile_name);
          filtered = matching_rows df name_lower
      in if filtered \<noteq> [] then
           rbind (rfrom (df_sample filtered pick)) (\<lambda>phone.
            rbind (randint 100000000000000 999999999999999) (\<lambda>imei.
            rbind (choice conditions) (\<lambda>condition.
            rreturn (Some \<lparr>info_make = row_brand phone, info_series = row_series phone,
                           info_model = row_model phone, info_launch_year = row_launch_year phone,
                           info_condition = condition, info_price = row_price phone,
                           info_imei = py_str_int imei\<rparr>))))
         else rreturn None)"

section \<open>The page\<close>

text \<open>What one run of the page shows.\<close>

datatype page_output =
    Nothing_shown
  | Warning pystr
  | Not_found pystr
  | Details "pystr list" "pystr option"

text \<open>The cross mark U+274C as UTF-8.\<close>

definition cross_mark :: pystr where
  "cross_mark = [CHR 0xE2, CHR 0x9D, CHR 0x8C]"

text \<open>The seven \<^verbatim>\<open>st.write\<close> lines of lines 70--76.\<close>

definition detail_lines :: "catalog_info \<Rightarrow> pystr list" where
  "detail_lines d =
     [''**Make:** '' @ info_make d, ''**Series:** '' @ info_series d, ''**Model:** '' @ info_model d,
      ''**Launch Year:** '' @ py_str_int (info_launch_year d), ''**Condition:** '' @ info_condition d,
      ''**Price:** '' @ info_price d, ''**IMEI Number:** '' @ info_imei d]"

definition mobile_page :: "csv_row list \<Rightarrow> scorer \<Rightarrow> nat \<Rightarrow> bool \<Rightarrow> pystr \<Rightarrow> pystr \<Rightarrow> page_output rand" where
  "mobile_page df pol pick clicked user_input user_review =
     (if \<not> clicked then rreturn Nothing_shown
      else if py_strip user_input = [] then rreturn (Warning ''Please enter a mobile model.'')
      else
        rbind (get_mobile_info_catalog df pick user_input) (\<lambda>data.
        case data of
          Some d \<Rightarrow>
            rreturn (Details (detail_lines d)
                      (if py_strip user_review \<noteq> [] then Some (analyze_sentiment pol user_review) else None))
        | None \<Rightarrow> rreturn (Not_found (cross_mark @ '' Sorry, no data found for this mobile.''))))"

text \<open>A two-row catalog for the scenarios of the spec.\<close>

definition sample_catalog :: "csv_row list" where
  "sample_catalog =
     [\<lparr>row_brand = ''Apple'', row_series = ''iPhone'', row_model = ''iPhone 15'', row_launch_year = 2023,
       row_price = rupee @ ''79999''\<rparr>,
      \<lparr>row_brand = ''Samsung'', row_series = ''Galaxy S'', row_model = ''Galaxy S 3'', row_launch_year = 2019,
       row_price = rupee @ ''20000''\<rparr>]"

section \<open>Lemmas\<close>

lemma matching_rows_iff: "r \<in> set (matching_rows df q) \<longleftrightarrow> r \<in> set df \<and> py_lower (row_model r) = q"
  by (auto simp: matching_rows_def)

lemma sample_row_in: "rows \<noteq> [] \<Longrightarrow> sample_row rows k \<in> set rows"
  by (simp add: sample_row_def)

lemma df_sample_nonempty [simp]: "rows \<noteq> [] \<Longrightarrow> df_sample rows k = Inr (sample_row rows k)"
  by (simp add: df_sample_def)

lemma get_mobile_info_catalog_found:
  assumes "get_mobile_info_catalog df k q ws = Some (Inr (Some d), ws')"
  defines "rows \<equiv> matching_rows df (py_lower (py_strip q))"
  shows "rows \<noteq> [] \<and> (let r = sample_row rows k in
           info_make d = row_brand r \<and> info_series d = row_series r \<and> info_model d = row_model r \<and>
           info_launch_year d = row_launch_year r \<and> info_price d = row_price r \<and>
           info_condition d \<in> set conditions \<and> wf_imei (info_imei d))"
  using assms
  by (auto simp: get_mobile_info_catalog_def Let_def rbind_eq_Some_Inr
      split: if_splits dest!: randint_result choice_result intro!: wf_imei_intro)

lemma get_mobile_info_catalog_None:
  "get_mobile_info_catalog df k q ws = Some (Inr None, ws') \<longleftrightarrow>
   matching_rows df (py_lower (py_strip q)) = [] \<and> ws' = ws"
  by (auto simp: get_mobile_info_catalog_def Let_def rbind_eq_Some_Inr)

lemma get_mobile_info_catalog_never_raises: "get_mobile_info_catalog df k q ws \<noteq> Some (Inl e, ws')"
  by (auto simp: get_mobile_info_catalog_def Let_def rbind_eq_Some_Inl rbind_eq_Some_Inr
      randint_no_error choice_no_error)

lemma mobile_page_cases:
  assumes "clicked" and "py_strip u \<noteq> []" and run: "mobile_page df pol k clicked u rv ws = Some (Inr out, ws')"
  shows "(matching_rows df (py_lower (py_strip u)) = [] \<and> ws' = ws \<and>
           out = Not_found (cross_mark @ '' Sorry, no data found for this mobile.'')) \<or>
         (\<exists>d. get_mobile_info_catalog df k u ws = Some (Inr (Some d), ws') \<and>
           out = Details (detail_lines d)
                   (if py_strip rv \<noteq> [] then Some (analyze_sentiment pol rv) else None))"
  using assms
  by (auto simp: mobile_page_def rbind_eq_Some_Inr get_mobile_info_catalog_None split: option.splits)

lemma catalog_iphone_run:
  "\<exists>d. get_mobile_info_catalog sample_catalog 0 '' IPHONE 15 '' [0, 0, 0] = Some (Inr (Some d), [])"
  by (simp add: get_mobile_info_catalog_def sample_catalog_def matching_rows_def sample_row_def randint_def
      randrange_def choice_def randbelow_one_word randbelow.simps [of 900000000000000] getrandbits_def
      accepts_def rmap_def Let_def py_eval)

lemma catalog_nonexistent_rows: "matching_rows sample_catalog (py_lower (py_strip ''Nonexistent Model 9999'')) = []"
  by (simp add: sample_catalog_def matching_rows_def py_eval)

section \<open>Properties of the catalog strategy\<close>

text \<open>Claim C13. A record the catalog's \<^verbatim>\<open>get_mobile_info\<close> returns copies the make,
  series, model, launch year and price of the matching row numpy picks (one whose
  lower-cased model equals the stripped, lower-cased query), with a listed condition
  and a 15-digit IMEI.\<close>

theorem catalog_record_from_row:
  assumes "get_mobile_info_catalog df k q ws = Some (Inr (Some d), ws')"
  shows "matching_rows df (py_lower (py_strip q)) \<noteq> [] \<and>
         (let r = sample_row (matching_rows df (py_lower (py_strip q))) k in
           info_make d = row_brand r \<and> info_series d = row_series r \<and> info_model d = row_model r \<and>
           info_launch_year d = row_launch_year r \<and> info_price d = row_price r \<and>
           info_condition d \<in> set conditions \<and> wf_imei (info_imei d))"
  using get_mobile_info_catalog_found [OF assms] by simp

theorem catalog_record_from_row_witness:
  "\<exists>d. get_mobile_info_catalog sample_catalog 0 '' IPHONE 15 '' [0, 0, 0] = Some (Inr (Some d), []) \<and>
     info_model d = ''iPhone 15'' \<and> info_price d = rupee @ ''79999'' \<and> wf_imei (info_imei d)"
proof -
  obtain d where run: "get_mobile_info_catalog sample_catalog 0 '' IPHONE 15 '' [0, 0, 0] = Some (Inr (Some d), [])"
    using catalog_iphone_run by blast
  show ?thesis
    using catalog_record_from_row [OF run] run
    by (simp add: sample_catalog_def matching_rows_def sample_row_def Let_def py_eval)
qed

text \<open>Claim C14. The catalog's \<^verbatim>\<open>get_mobile_info\<close> returns \<open>None\<close> exactly when no
  row's lower-cased model equals the stripped, lower-cased query, and then draws
  nothing.\<close>

theorem catalog_not_found_iff:
  "get_mobile_info_catalog df k q ws = Some (Inr None, ws') \<longleftrightarrow>
   matching_rows df (py_lower (py_strip q)) = [] \<and> ws' = ws"
  by (rule get_mobile_info_catalog_None)

text \<open>Claim C35. Scenario 4 of the spec: on a press of the button with a query that no
  row matches, the page shows the not-found message and draws nothing.\<close>

theorem mobile_page_not_found:
  assumes "py_strip u \<noteq> []" and "matching_rows df (py_lower (py_strip u)) = []"
  shows "mobile_page df pol k True u rv ws =
           Some (Inr (Not_found (cross_mark @ '' Sorry, no data found for this mobile.'')), ws)"
  using assms by (simp add: mobile_page_def get_mobile_info_catalog_def Let_def)

theorem mobile_page_not_found_witness:
  "py_strip ''Nonexistent Model 9999'' \<noteq> [] \<and>
   matching_rows sample_catalog (py_lower (py_strip ''Nonexistent Model 9999'')) = [] \<and>
   mobile_page sample_catalog (\<lambda>_. 0) 0 True ''Nonexistent Model 9999'' [] [] =
     Some (Inr (Not_found (cross_mark @ '' Sorry, no data found for this mobile.'')), [])"
  using mobile_page_not_found [OF _ catalog_nonexistent_rows, of "\<lambda>_. 0" 0 "[]" "[]"] catalog_nonexistent_rows
  by (simp add: py_eval)

text \<open>Claim C37. After a press with a non-blank query the page shows either the
  not-found message (no row matches, nothing drawn) or the seven detail lines of the
  record, with the sentiment of the comment exactly when the comment is not blank.\<close>

theorem mobile_page_outcomes:
  assumes "py_strip u \<noteq> []" and run: "mobile_page df pol k True u rv ws = Some (Inr out, ws')"
  shows "(matching_rows df (py_lower (py_strip u)) = [] \<and> ws' = ws \<and>
           out = Not_found (cross_mark @ '' Sorry, no data found for this mobile.'')) \<or>
         (\<exists>d. get_mobile_info_catalog df k u ws = Some (Inr (Some d), ws') \<and>
           out = Details (detail_lines d)
                   (if py_strip rv \<noteq> [] then Some (analyze_sentiment pol rv) else None))"
  using mobile_page_cases [OF _ assms(1) run] by simp

theorem mobile_page_outcomes_witness:
  "\<exists>out. py_strip '' IPHONE 15 '' \<noteq> [] \<and>
     mobile_page sample_catalog (\<lambda>_. 1 / 2) 0 True '' IPHONE 15 '' ''great phone'' [0, 0, 0] = Some (Inr out, []) \<and>
     ((matching_rows sample_catalog (py_lower (py_strip '' IPHONE 15 '')) = [] \<and> [] = [0, 0, (0::32 word)] \<and>
        out = Not_found (cross_mark @ '' Sorry, no data found for this mobile.'')) \<or>
      (\<exists>d. get_mobile_info_catalog sample_catalog 0 '' IPHONE 15 '' [0, 0, 0] = Some (Inr (Some d), []) \<and>
        out = Details (detail_lines d)
          (if py_strip ''great phone'' \<noteq> [] then Some (analyze_sentiment (\<lambda>_. 1 / 2) ''great phone'') else None)))"
proof -
  obtain d where run: "get_mobile_info_catalog sample_catalog 0 '' IPHONE 15 '' [0, 0, 0] = Some (Inr (Some d), [])"
    using catalog_iphone_run by blast
  have ne: "py_strip '' IPHONE 15 '' \<noteq> []" by (simp add: py_eval)
  let ?out = "Details (detail_lines d) (Some (analyze_sentiment (\<lambda>_. 1 / 2) ''great phone''))"
  have page: "mobile_page sample_catalog (\<lambda>_. 1 / 2) 0 True '' IPHONE 15 '' ''great phone'' [0, 0, 0] = Some (Inr ?out, [])"
    using run ne by (simp add: mobile_page_def py_eval)
  show ?thesis using mobile_page_outcomes [OF ne page] ne page by blast
qed

text \<open>Claim C39. The page never raises, whatever the rows, the inputs and numpy's pick:
  the test \<^verbatim>\<open>if not filtered.empty\<close> keeps \<^verbatim>\<open>sample(1)\<close> off an empty frame,
  and the lookup's \<^verbatim>\<open>randint\<close> range and \<^verbatim>\<open>choice\<close> list are valid.\<close>

theorem mobile_page_never_raises: "mobile_page df pol k clicked u rv ws \<noteq> Some (Inl e, ws')"
  by (auto simp: mobile_page_def rbind_eq_Some_Inl get_mobile_info_catalog_never_raises split: option.splits)

end
