(* ===== verification/CatalogData.thy ===== *)
theory CatalogData
  imports Catalog
begin

text \<open>
  The data of the catalog page: the generator script at the end of
  \<^verbatim>\<open>src/mobile.py\<close> (lines 85--119, kept there as comments) that writes
  \<^verbatim>\<open>mobile_phones.csv\<close>. For every brand and series of \<^verbatim>\<open>brands_series\<close> and
  \<open>i\<close> from 1 to 20 it appends a row with model \<open>"{series} {i}"\<close>, a launch year
  \<^verbatim>\<open>randint(2018, 2025)\<close> and a price \<^verbatim>\<open>f"RUPEE{randint(8000, 100000)}"\<close> (\<open>RUPEE\<close> the rupee sign), in this
  order of draws. The file's rows are the generator's result (writing and reading the
  CSV text is pandas' and is not modelled). The lemmas show the shape of the data, that
  its lower-cased models are distinct, and what the catalog lookup of
  \<^verbatim>\<open>get_mobile_info\<close> and the page do on it.
\<close>

section \<open>The generator script\<close>

definition brands_series :: "(pystr \<times> pystr list) list" where
  "brands_series =
     [(''Apple'', [''iPhone'']), (''Samsung'', [''Galaxy S'', ''Galaxy Note'']), (''OnePlus'', [''OnePlus'']),
      (''Xiaomi'', [''Redmi Note'', ''Mi'']), (''Realme'', [''Realme'']), (''Vivo'', [''V'']),
      (''Oppo'', [''Oppo'']), (''Motorola'', [''Moto'']), (''Poco'', [''Poco'']), (''Nothing'', [''Nothing''])]"

definition model_number :: "pystr \<Rightarrow> nat \<Rightarrow> pystr" where
  "model_number sname i = sname @ '' '' @ py_str_int (int i)"

definition generated_row :: "pystr \<Rightarrow> pystr \<Rightarrow> nat \<Rightarrow> int \<Rightarrow> int \<Rightarrow> csv_row" where
  "generated_row brand sname i year amount =
     \<lparr>row_brand = brand, row_series = sname, row_model = model_number sname i,
      row_launch_year = year, row_price = rupee @ py_str_int amount\<rparr>"

fun gen_models :: "pystr \<Rightarrow> pystr \<Rightarrow> nat list \<Rightarrow> csv_row list rand" where
  "gen_models brand sname [] = rreturn []"
| "gen_models brand sname (i # ns) =
     rbind (randint 2018 2025) (\<lambda>year.
     rbind (randint 8000 100000) (\<lambda>amount.
     rmap (\<lambda>rows. generated_row brand sname i year amount # rows) (gen_models brand sname ns)))"

fun gen_series :: "pystr \<Rightarrow> pystr list \<Rightarrow> csv_row list rand" where
  "gen_series brand [] = rreturn []"
| "gen_series brand (sname # ss) =
     rbind (gen_models brand sname [1..<21]) (\<lambda>rows. rmap (\<lambda>rest. rows @ rest) (gen_series brand ss))"

fun gen_brands :: "(pystr \<times> pystr list) list \<Rightarrow> csv_row list rand" where
  "gen_brands [] = rreturn []"
| "gen_brands ((brand, ss) # bs) =
     rbind (gen_series brand ss) (\<lambda>rows. rmap (\<lambda>rest. rows @ rest) (gen_brands bs))"

text \<open>All series of the table, in the generator's order.\<close>

definition all_series :: "pystr list" where
  "all_series = concat (map snd brands_series)"

definition generate_catalog :: "csv_row list rand" where
  "generate_catalog = gen_brands brands_series"

text \<open>What a generated row satisfies: brand and series from the table, launch year and price in range.\<close>

definition wf_generated :: "pystr \<Rightarrow> pystr \<Rightarrow> csv_row \<Rightarrow> bool" where
  "wf_generated brand sname r \<longleftrightarrow>
     row_brand r = brand \<and> row_series r = sname \<and> 2018 \<le> row_launch_year r \<and> row_launch_year r \<le> 2025 \<and>
     wf_price (row_price r)"

section \<open>Lemmas\<close>

lemma gen_models_result:
  "gen_models b s ns ws = Some (Inr rows, ws') \<Longrightarrow>
   map row_model rows = map (model_number s) ns \<and> (\<forall>r \<in> set rows. wf_generated b s r)"
proof (induction ns arbitrary: ws rows)
  case Nil
  then show ?case by simp
next
  case (Cons i ns)
  from Cons.prems obtain ly ws1 pr ws2 rest where
    ly: "randint 2018 2025 ws = Some (Inr ly, ws1)" and pr: "randint 8000 100000 ws1 = Some (Inr pr, ws2)"
    and rest: "gen_models b s ns ws2 = Some (Inr rest, ws')"
    and rows: "rows = generated_row b s i ly pr # rest"
    by (auto simp: rbind_eq_Some_Inr rmap_eq_Some)
  from randint_result [OF ly] randint_result [OF pr] Cons.IH [OF rest] rows show ?case
    by (auto simp: generated_row_def wf_generated_def intro: wf_price_intro)
qed

lemma gen_models_never_raises: "gen_models b s ns ws \<noteq> Some (Inl e, ws')"
proof (induction ns arbitrary: ws)
  case (Cons i ns)
  then show ?case
    by (auto simp: rbind_eq_Some_Inl rbind_eq_Some_Inr rmap_eq_Some randint_no_error)
qed simp


lemma gen_series_result:
  "gen_series b ss ws = Some (Inr rows, ws') \<Longrightarrow>
   map row_model rows = concat (map (\<lambda>s. map (model_number s) [1..<21]) ss) \<and>
   (\<forall>r \<in> set rows. \<exists>s \<in> set ss. wf_generated b s r)"
proof (induction ss arbitrary: ws rows)
  case (Cons s ss)
  from Cons.prems obtain rows1 ws1 rest where
    m: "gen_models b s [1..<21] ws = Some (Inr rows1, ws1)" and r: "gen_series b ss ws1 = Some (Inr rest, ws')"
    and rows: "rows = rows1 @ rest"
    by (auto simp: rbind_eq_Some_Inr rmap_eq_Some)
  from gen_models_result [OF m] Cons.IH [OF r] rows show ?case by auto
qed simp

lemma gen_series_never_raises: "gen_series b ss ws \<noteq> Some (Inl e, ws')"
proof (induction ss arbitrary: ws)
  case (Cons s ss)
  then show ?case
    by (auto simp: rbind_eq_Some_Inl rbind_eq_Some_Inr rmap_eq_Some gen_models_never_raises)
qed simp

lemma gen_brands_result:
  "gen_brands bs ws = Some (Inr rows, ws') \<Longrightarrow>
   map row_model rows = concat (map (\<lambda>(b, ss). concat (map (\<lambda>s. map (model_number s) [1..<21]) ss)) bs) \<and>
   (\<forall>r \<in> set rows. \<exists>(b, ss) \<in> set bs. \<exists>s \<in> set ss. wf_generated b s r)"
proof (induction bs arbitrary: ws rows)
  case (Cons bss bs)
  obtain b ss where bss: "bss = (b, ss)" by fastforce
  from Cons.prems bss obtain rows1 ws1 rest where
    m: "gen_series b ss ws = Some (Inr rows1, ws1)" and r: "gen_brands bs ws1 = Some (Inr rest, ws')"
    and rows: "rows = rows1 @ rest"
    by (auto simp: rbind_eq_Some_Inr rmap_eq_Some)
  from gen_series_result [OF m] Cons.IH [OF r] rows bss show ?case by fastforce
qed simp

lemma gen_brands_never_raises: "gen_brands bs ws \<noteq> Some (Inl e, ws')"
proof (induction bs arbitrary: ws)
  case (Cons bss bs)
  then show ?case
    by (cases bss) (auto simp: rbind_eq_Some_Inl rbind_eq_Some_Inr rmap_eq_Some gen_series_never_raises)
qed simp

lemma generated_models:
  "generate_catalog ws = Some (Inr rows, ws') \<Longrightarrow>
   map row_model rows = map (\<lambda>(s, i). model_number s i) (List.product all_series [1..<21])"
proof -
  assume "generate_catalog ws = Some (Inr rows, ws')"
  then have "map row_model rows = concat (map (\<lambda>(b, ss). concat (map (\<lambda>s. map (model_number s) [1..<21]) ss)) brands_series)"
    unfolding generate_catalog_def by (blast dest: gen_brands_result)
  also have "\<dots> = map (\<lambda>(s, i). model_number s i) (List.product all_series [1..<21])"
    by (simp add: all_series_def brands_series_def product_def)
  finally show ?thesis .
qed

lemma space_split_inj:
  assumes "xs @ CHR '' '' # ds = ys @ CHR '' '' # es" and "CHR '' '' \<notin> set ds" and "CHR '' '' \<notin> set es"
  shows "xs = ys \<and> ds = es"
proof -
  from assms(1) have r: "rev ds @ CHR '' '' # rev xs = rev es @ CHR '' '' # rev ys" by (metis rev_append rev.simps(2) append_assoc append_Cons append_Nil)
  have "takeWhile (\<lambda>c. c \<noteq> CHR '' '') (rev ds @ CHR '' '' # rev xs) = rev ds"
    using assms(2) by (subst takeWhile_append2) auto
  moreover have "takeWhile (\<lambda>c. c \<noteq> CHR '' '') (rev es @ CHR '' '' # rev ys) = rev es"
    using assms(3) by (subst takeWhile_append2) auto
  ultimately have "rev ds = rev es" using r by simp
  with assms(1) show ?thesis by simp
qed

lemma py_str_int_inj: "py_str_int a = py_str_int b \<Longrightarrow> a = b"
  by (metis py_int_py_str_int sum.inject(2))

lemma space_not_digit: "is_digit c \<Longrightarrow> c \<noteq> CHR '' ''"
  by (auto simp: is_digit_def)

lemma lower_digits: "\<forall>c \<in> set ds. is_digit c \<Longrightarrow> py_lower ds = ds"
  by (induction ds) (auto simp: py_lower_def lower_char_def is_upper_def is_digit_def Let_def)

lemma lower_model_number: "py_lower (model_number s i) = py_lower s @ CHR '' '' # py_str_int (int i)"
proof -
  have "py_lower (py_str_int (int i)) = py_str_int (int i)"
    using py_str_int_digits [of "int i"] by (intro lower_digits) simp
  then show ?thesis by (simp add: model_number_def py_lower_def lower_char_def is_upper_def)
qed

lemma distinct_lower_series: "distinct (map py_lower all_series)"
  by (simp add: all_series_def brands_series_def py_eval)

lemma distinct_filter_single: "distinct (map f xs) \<Longrightarrow> x \<in> set xs \<Longrightarrow> filter (\<lambda>y. f y = f x) xs = [x]"
proof (induction xs)
  case (Cons a xs)
  show ?case
  proof (cases "x = a")
    case True
    from Cons.prems have "\<forall>y \<in> set xs. f y \<noteq> f a" by (auto simp: image_iff)
    with True show ?thesis by (simp add: filter_empty_conv)
  next
    case False
    with Cons.prems have "x \<in> set xs" "distinct (map f xs)" "f x \<noteq> f a" by (auto simp: image_iff)
    with Cons.IH show ?thesis by simp
  qed
qed simp

lemma generated_lower_models_distinct:
  assumes "generate_catalog ws = Some (Inr rows, ws')"
  shows "distinct (map (\<lambda>r. py_lower (row_model r)) rows)"
proof -
  let ?h = "\<lambda>(s, i). py_lower s @ CHR '' '' # py_str_int (int i)"
  have m: "map (\<lambda>r. py_lower (row_model r)) rows = map ?h (List.product all_series [1..<21])"
  proof -
    have "map (\<lambda>r. py_lower (row_model r)) rows = map py_lower (map row_model rows)" by simp
    also have "\<dots> = map ?h (List.product all_series [1..<21])"
      using generated_models [OF assms] by (simp add: comp_def case_prod_beta lower_model_number)
    finally show ?thesis .
  qed
  have inj_l: "inj_on py_lower (set all_series)" using distinct_lower_series by (simp add: distinct_map)
  have "inj_on ?h (set (List.product all_series [1..<21]))"
  proof (rule inj_onI)
    fix p q assume p: "p \<in> set (List.product all_series [1..<21])" and q: "q \<in> set (List.product all_series [1..<21])"
      and eq: "?h p = ?h q"
    obtain s i t j where pq: "p = (s, i)" "q = (t, j)" by fastforce
    have nd: "CHR '' '' \<notin> set (py_str_int (int n))" for n
      using py_str_int_digits [of "int n"] space_not_digit by auto
    from eq pq have e: "py_lower s @ CHR '' '' # py_str_int (int i) = py_lower t @ CHR '' '' # py_str_int (int j)"
      by simp
    have "py_lower s = py_lower t \<and> py_str_int (int i) = py_str_int (int j)"
      by (rule space_split_inj [OF e nd nd])
    then have "py_lower s = py_lower t" "i = j" by (auto dest: py_str_int_inj)
    with p q pq inj_l show "p = q" by (auto dest: inj_onD)
  qed
  moreover have "distinct (List.product all_series [1..<21])"
    using distinct_lower_series by (simp add: distinct_product distinct_map)
  ultimately show ?thesis by (simp add: m distinct_map)
qed


lemma rbounded_gen_models: "rbounded (2 * length ns) (gen_models b s ns)"
proof (induction ns)
  case Nil
  then show ?case by (simp add: rbounded_def)
next
  case (Cons i ns)
  have y: "rbounded 1 (randint 2018 2025)" by (rule rbounded_randint) simp
  have p: "rbounded 1 (randint 8000 100000)" by (rule rbounded_randint) simp
  have "rbounded (1 + (1 + 2 * length ns)) (gen_models b s (i # ns))"
    unfolding gen_models.simps by (rule rbounded_rbind [OF y] rbounded_rbind [OF p] rbounded_rmap [OF Cons.IH])+
  then show ?case by simp
qed

lemma rbounded_gen_series: "rbounded (40 * length ss) (gen_series b ss)"
proof (induction ss)
  case Nil
  then show ?case by (simp add: rbounded_def)
next
  case (Cons s ss)
  have m: "rbounded 40 (gen_models b s [1..<21])" using rbounded_gen_models [of "[1..<21]" b s] by simp
  have "rbounded (40 + 40 * length ss) (gen_series b (s # ss))"
    unfolding gen_series.simps by (rule rbounded_rbind [OF m] rbounded_rmap [OF Cons.IH])+
  then show ?case by simp
qed

lemma rbounded_gen_brands: "rbounded (40 * sum_list (map (length \<circ> snd) bs)) (gen_brands bs)"
proof (induction bs)
  case Nil
  then show ?case by (simp add: rbounded_def)
next
  case (Cons bss bs)
  obtain b ss where bss: "bss = (b, ss)" by fastforce
  have "rbounded (40 * length ss + 40 * sum_list (map (length \<circ> snd) bs)) (gen_brands ((b, ss) # bs))"
    unfolding gen_brands.simps by (rule rbounded_rbind [OF rbounded_gen_series] rbounded_rmap [OF Cons.IH])+
  with bss show ?case by (simp add: algebra_simps comp_def)
qed

lemma generate_catalog_runs:
  "\<exists>rows ws'. generate_catalog (replicate 480 0) = Some (Inr rows, ws')"
proof -
  have "rbounded 480 generate_catalog"
    using rbounded_gen_brands [of brands_series] by (simp add: generate_catalog_def brands_series_def)
  then obtain r j where run: "generate_catalog (replicate 480 0 @ []) = Some (r, replicate j 0 @ [])"
    by (rule rboundedE)
  moreover have "\<forall>e ws'. generate_catalog (replicate 480 0) \<noteq> Some (Inl e, ws')"
    by (simp add: generate_catalog_def gen_brands_never_raises)
  ultimately show ?thesis by (cases r) auto
qed

lemma generated_lookup_row:
  assumes gen: "generate_catalog ws = Some (Inr rows, ws')" and r: "r \<in> set rows"
    and q: "py_lower (py_strip q) = py_lower (row_model r)"
  shows "matching_rows rows (py_lower (py_strip q)) = [r]"
  using distinct_filter_single [OF generated_lower_models_distinct [OF gen] r] q
  by (simp add: matching_rows_def eq_commute [of "py_lower (row_model r)"])

lemma model_in_generated:
  assumes gen: "generate_catalog ws = Some (Inr rows, ws')"
  shows "model_number s i \<in> set (map row_model rows) \<longleftrightarrow> (s, i) \<in> set (List.product all_series [1..<21])"
proof -
  have inj: "model_number s i = model_number t j \<Longrightarrow> s = t \<and> i = j" for s t i j
  proof -
    assume e: "model_number s i = model_number t j"
    have nd: "CHR '' '' \<notin> set (py_str_int (int n))" for n
      using py_str_int_digits [of "int n"] space_not_digit by auto
    from e have "s @ CHR '' '' # py_str_int (int i) = t @ CHR '' '' # py_str_int (int j)" by (simp add: model_number_def)
    from space_split_inj [OF this nd nd] show "s = t \<and> i = j" by (auto dest: py_str_int_inj)
  qed
  show ?thesis using generated_models [OF gen] by (auto dest: inj)
qed

lemma generated_matching_iff:
  assumes gen: "generate_catalog ws = Some (Inr rows, ws')"
  shows "matching_rows rows q' \<noteq> [] \<longleftrightarrow>
         (\<exists>s \<in> set all_series. \<exists>i \<in> set [1..<21]. q' = py_lower (model_number s i))"
proof -
  have "matching_rows rows q' \<noteq> [] \<longleftrightarrow> (\<exists>m \<in> set (map row_model rows). py_lower m = q')"
    by (auto simp: matching_rows_def filter_empty_conv)
  also have "\<dots> \<longleftrightarrow> (\<exists>s \<in> set all_series. \<exists>i \<in> set [1..<21]. q' = py_lower (model_number s i))"
    by (auto simp: generated_models [OF gen] set_product)
  finally show ?thesis .
qed

lemma nonexistent_not_generated:
  "\<not> (\<exists>s \<in> set all_series. \<exists>i \<in> set [1..<21]. py_lower (py_strip ''Nonexistent Model 9999'') = py_lower (model_number s i))"
proof
  assume "\<exists>s \<in> set all_series. \<exists>i \<in> set [1..<21]. py_lower (py_strip ''Nonexistent Model 9999'') = py_lower (model_number s i)"
  then obtain s i where i: "i < 21" and e: "py_lower (py_strip ''Nonexistent Model 9999'') = py_lower (model_number s i)" by auto
  have q: "py_lower (py_strip ''Nonexistent Model 9999'') = ''nonexistent model'' @ CHR '' '' # py_str_int 9999"
    by (simp add: py_eval py_str_int_def)
  have nd: "CHR '' '' \<notin> set (py_str_int (int n))" for n
    using py_str_int_digits [of "int n"] space_not_digit by auto
  have nd9: "CHR '' '' \<notin> set (py_str_int 9999)"
    using py_str_int_digits [of 9999] space_not_digit by auto
  from e q have "''nonexistent model'' @ CHR '' '' # py_str_int 9999 = py_lower s @ CHR '' '' # py_str_int (int i)"
    by (simp add: lower_model_number)
  from space_split_inj [OF this nd9 nd] have "int i = 9999" by (auto dest: py_str_int_inj)
  with i show False by simp
qed

section \<open>Properties of the generated catalog\<close>

text \<open>Claim C16. The data file the generator writes has 240 rows, one per series of
  \<^verbatim>\<open>brands_series\<close> and model number 1 to 20, each with the brand of its series, a
  launch year in 2018..2025 and a price of the rupee sign and a number in 8000..100000.\<close>

theorem generated_catalog_rows:
  assumes "generate_catalog ws = Some (Inr rows, ws')"
  shows "length rows = 240 \<and> (\<forall>r \<in> set rows. \<exists>(b, ss) \<in> set brands_series. \<exists>s \<in> set ss. wf_generated b s r)"
proof
  have "length (map row_model rows) = length (List.product all_series [1..<21])"
    by (simp only: generated_models [OF assms] length_map)
  then show "length rows = 240" by (simp add: all_series_def brands_series_def length_product)
  show "\<forall>r \<in> set rows. \<exists>(b, ss) \<in> set brands_series. \<exists>s \<in> set ss. wf_generated b s r"
    using assms unfolding generate_catalog_def by (blast dest: gen_brands_result)
qed

theorem generated_catalog_rows_witness:
  "\<exists>rows ws'. generate_catalog (replicate 480 0) = Some (Inr rows, ws') \<and> length rows = 240 \<and>
     (\<forall>r \<in> set rows. \<exists>(b, ss) \<in> set brands_series. \<exists>s \<in> set ss. wf_generated b s r)"
proof -
  obtain rows ws' where run: "generate_catalog (replicate 480 0) = Some (Inr rows, ws')"
    using generate_catalog_runs by blast
  show ?thesis using generated_catalog_rows [OF run] run by blast
qed

text \<open>Claim C15. On the generated data every model is found by the catalog page's
  lookup, whatever its case and surrounding spaces, whichever index numpy draws: the
  lower-cased models are distinct, so the row is the only match and the record copies it.\<close>

theorem generated_model_found:
  assumes gen: "generate_catalog ws = Some (Inr rows, ws')" and r: "r \<in> set rows"
    and q: "py_lower (py_strip q) = py_lower (row_model r)"
    and run: "get_mobile_info_catalog rows k q ws1 = Some (Inr res, ws1')"
  shows "\<exists>d. res = Some d \<and> info_make d = row_brand r \<and> info_series d = row_series r \<and>
             info_model d = row_model r \<and> info_launch_year d = row_launch_year r \<and> info_price d = row_price r"
proof -
  have m: "matching_rows rows (py_lower (py_strip q)) = [r]" by (rule generated_lookup_row [OF gen r q])
  obtain d where d: "res = Some d"
    using run m get_mobile_info_catalog_None [of rows k q ws1 ws1'] by (cases res) auto
  from get_mobile_info_catalog_found [OF run [unfolded d]] m have
    "info_make d = row_brand r \<and> info_series d = row_series r \<and> info_model d = row_model r \<and>
     info_launch_year d = row_launch_year r \<and> info_price d = row_price r"
    by (simp add: sample_row_def Let_def)
  with d show ?thesis by blast
qed


theorem generated_model_found_witness:
  "\<exists>rows ws' r res. generate_catalog (replicate 480 0) = Some (Inr rows, ws') \<and> r \<in> set rows \<and>
     py_lower (py_strip ''IPHONE 15'') = py_lower (row_model r) \<and>
     get_mobile_info_catalog rows 0 ''IPHONE 15'' [0, 0, 0] = Some (Inr res, []) \<and>
     (\<exists>d. res = Some d \<and> info_make d = row_brand r \<and> info_series d = row_series r \<and>
             info_model d = row_model r \<and> info_launch_year d = row_launch_year r \<and> info_price d = row_price r)"
proof -
  obtain rows ws' where gen: "generate_catalog (replicate 480 0) = Some (Inr rows, ws')"
    using generate_catalog_runs by blast
  have "(''iPhone'', 15) \<in> set (List.product all_series [1..<21])"
    by (simp add: set_product all_series_def brands_series_def)
  then have "model_number ''iPhone'' 15 \<in> set (map row_model rows)"
    by (simp only: model_in_generated [OF gen])
  then obtain r where r: "r \<in> set rows" and rm: "row_model r = model_number ''iPhone'' 15" by auto
  have q: "py_lower (py_strip ''IPHONE 15'') = py_lower (row_model r)"
    by (simp add: rm model_number_def py_eval py_str_int_def)
  have m: "matching_rows rows (py_lower (py_strip ''IPHONE 15'')) = [r]" by (rule generated_lookup_row [OF gen r q])
  obtain res where run: "get_mobile_info_catalog rows 0 ''IPHONE 15'' [0, 0, 0] = Some (Inr res, [])"
    using m by (simp add: get_mobile_info_catalog_def sample_row_def randint_def randrange_def choice_def
        randbelow_one_word randbelow.simps [of 900000000000000] getrandbits_def accepts_def rmap_def Let_def
        conditions_def rbind_apply py_eval)
  show ?thesis using generated_model_found [OF gen r q run] gen r q run by blast
qed

text \<open>Claim C38. On the generated data the catalog recognises exactly the queries that
  are, up to case and surrounding spaces, a series of the table, a space and a number
  from 1 to 20.\<close>

theorem generated_catalog_recognises:
  assumes "generate_catalog ws = Some (Inr rows, ws')"
  shows "matching_rows rows (py_lower (py_strip q)) \<noteq> [] \<longleftrightarrow>
         (\<exists>s \<in> set all_series. \<exists>i \<in> set [1..<21]. py_lower (py_strip q) = py_lower (model_number s i))"
  by (rule generated_matching_iff [OF assms])

theorem generated_catalog_recognises_witness:
  "\<exists>rows ws'. generate_catalog (replicate 480 0) = Some (Inr rows, ws') \<and>
     \<not> (matching_rows rows (py_lower (py_strip ''Nonexistent Model 9999'')) \<noteq> [])"
proof -
  obtain rows ws' where gen: "generate_catalog (replicate 480 0) = Some (Inr rows, ws')"
    using generate_catalog_runs by blast
  show ?thesis using generated_catalog_recognises [OF gen, of "''Nonexistent Model 9999''"] nonexistent_not_generated gen
    by blast
qed

text \<open>Claim C36. Scenario 4 of the spec on the generated data: a press with the query
  \<open>Nonexistent Model 9999\<close> shows the not-found message and draws nothing.\<close>

theorem generated_page_not_found:
  assumes "generate_catalog ws = Some (Inr rows, ws')"
  shows "mobile_page rows pol k True ''Nonexistent Model 9999'' rv ws1 =
           Some (Inr (Not_found (cross_mark @ '' Sorry, no data found for this mobile.'')), ws1)"
proof -
  have "matching_rows rows (py_lower (py_strip ''Nonexistent Model 9999'')) = []"
    using generated_matching_iff [OF assms] nonexistent_not_generated by blast
  then show ?thesis
    by (simp add: mobile_page_def get_mobile_info_catalog_def Let_def py_eval)
qed

theorem generated_page_not_found_witness:
  "\<exists>rows ws'. generate_catalog (replicate 480 0) = Some (Inr rows, ws') \<and>
     mobile_page rows (\<lambda>_. 0) 0 True ''Nonexistent Model 9999'' [] [] =
       Some (Inr (Not_found (cross_mark @ '' Sorry, no data found for this mobile.'')), [])"
proof -
  obtain rows ws' where gen: "generate_catalog (replicate 480 0) = Some (Inr rows, ws')"
    using generate_catalog_runs by blast
  show ?thesis using generated_page_not_found [OF gen] gen by blast
qed

end
