(* ===== verification/Render.thy ===== *)
theory Render
  imports Chat Catalog
begin

text \<open>
  What the two Streamlit pages write, in order. A run of \<^verbatim>\<open>src/main1.py\<close> writes the
  page header (lines 85--87), replays the transcript from its second message on (lines
  105--109: user messages tagged \<open>You\<close>, every other message \<open>Mistral\<close>), shows the
  chat input (line 112) and, for a submitted input, the reply (line 185) and its
  sentiment caption (line 189); a run that raises shows the exception instead of what
  follows it. \<open>str()\<close> of a non-string content is CPython's and is a parameter
  (\<open>str_of\<close>). The spinner of line 168 is only shown while the request runs and is
  not part of the page after the run. \<^verbatim>\<open>src/mobile.py\<close> writes its header and inputs
  (lines 58--63) and then the elements of lines 65--84 for the page's outcome.
\<close>

section \<open>Page elements\<close>

datatype element =
    St_page_config pystr pystr
  | St_title pystr
  | St_write pystr
  | St_markdown pystr
  | St_caption pystr
  | St_chat_input pystr
  | St_text_input pystr
  | St_text_area pystr
  | St_button pystr
  | St_success pystr
  | St_info pystr
  | St_error pystr
  | St_warning pystr
  | St_exception pyexc

type_synonym str_fn = "json \<Rightarrow> pystr"

text \<open>The emoji of the chat page, as UTF-8: mobile phone, robot, technologist, bar chart; and the em dash.\<close>

definition phone_icon :: pystr where "phone_icon = [CHR 0xF0, CHR 0x9F, CHR 0x93, CHR 0xB1]"
definition robot :: pystr where "robot = [CHR 0xF0, CHR 0x9F, CHR 0xA4, CHR 0x96]"
definition technologist :: pystr where
  "technologist = [CHR 0xF0, CHR 0x9F, CHR 0xA7, CHR 0x91, CHR 0xE2, CHR 0x80, CHR 0x8D, CHR 0xF0, CHR 0x9F, CHR 0x92, CHR 0xBB]"
definition bar_chart :: pystr where "bar_chart = [CHR 0xF0, CHR 0x9F, CHR 0x93, CHR 0x8A]"
definition em_dash :: pystr where "em_dash = [CHR 0xE2, CHR 0x80, CHR 0x94]"

section \<open>The chat page\<close>

definition chat_header :: "element list" where
  "chat_header =
     [St_page_config (phone_icon @ '' Smart Mistral Mobile Chatbot'') robot,
      St_title (phone_icon @ '' Smart Mobile Chatbot '' @ em_dash @ '' Powered by Mistral '' @ robot),
      St_write (''Chat about mobile phones '' @ em_dash @ '' now with realistic follow-up questions!'')]"

definition you_label :: pystr where "you_label = technologist @ '' **You:** ''"
definition mistral_label :: pystr where "mistral_label = robot @ '' **Mistral:** ''"

text \<open>\<open>f"{v}"\<close>: a string as it is, any other value through \<open>str()\<close>.\<close>

definition content_str :: "str_fn \<Rightarrow> json \<Rightarrow> pystr" where
  "content_str str_of v = (case v of JStr t \<Rightarrow> t | _ \<Rightarrow> str_of v)"

definition display_message :: "str_fn \<Rightarrow> message \<Rightarrow> element" where
  "display_message str_of m =
     St_markdown ((if msg_role m = User then you_label else mistral_label) @ content_str str_of (msg_content m))"

text \<open>\<^verbatim>\<open>for msg in st.session_state.chat_history[1:]\<close>\<close>

definition display_history :: "str_fn \<Rightarrow> message list \<Rightarrow> element list" where
  "display_history str_of h = map (display_message str_of) (drop 1 h)"

definition chat_input_box :: element where
  "chat_input_box = St_chat_input ''Ask about a mobile phone...''"

text \<open>
  What a turn writes after the input box: the reply and its caption; for a run that
  raised, the reply if line 185 ran (the message appended after the user's one) and
  the exception.
\<close>

definition turn_elements :: "str_fn \<Rightarrow> session \<Rightarrow> turn_result \<Rightarrow> element list" where
  "turn_elements str_of s r =
     (case r of
        No_input \<Rightarrow> []
      | Replied s' t l \<Rightarrow> [St_markdown (mistral_label @ t), St_caption (bar_chart @ '' Sentiment of AI Response: '' @ l)]
      | Crashed s' e \<Rightarrow>
          map (\<lambda>m. St_markdown (mistral_label @ content_str str_of (msg_content m)))
              (drop (Suc (length (chat_history s))) (chat_history s')) @ [St_exception e])"

definition chat_page :: "gateway \<Rightarrow> scorer \<Rightarrow> str_fn \<Rightarrow> pystr \<Rightarrow> session \<Rightarrow> (element list \<times> turn_result) rand" where
  "chat_page gw pol str_of user_input s =
     rmap (\<lambda>r. (chat_header @ display_history str_of (chat_history s) @ [chat_input_box] @ turn_elements str_of s r, r))
          (chat_turn gw pol user_input s)"

section \<open>The catalog page\<close>

definition mobile_header :: "element list" where
  "mobile_header =
     [St_page_config '' Mobile Info Chatbot'' robot, St_title '' Mobile Info Chatbot'',
      St_write ''Type any mobile model to see full details:'',
      St_text_input ''Enter Mobile Model (e.g., iPhone 15)'',
      St_text_area ''Write your comment about the phone (optional)'', St_button ''Get Mobile Info'']"

definition page_elements :: "page_output \<Rightarrow> element list" where
  "page_elements out =
     (case out of
        Nothing_shown \<Rightarrow> []
      | Warning w \<Rightarrow> [St_warning w]
      | Not_found t \<Rightarrow> [St_error t]
      | Details lines sentiment \<Rightarrow>
          St_success ''Here are the details:'' # map St_write lines @
          (case sentiment of None \<Rightarrow> [] | Some l \<Rightarrow> [St_info (''**Sentiment Analysis of your comment:** '' @ l)]))"

definition mobile_page_render ::
  "csv_row list \<Rightarrow> scorer \<Rightarrow> nat \<Rightarrow> bool \<Rightarrow> pystr \<Rightarrow> pystr \<Rightarrow> element list rand" where
  "mobile_page_render df pol pick clicked user_input user_review =
     rmap (\<lambda>out. mobile_header @ page_elements out) (mobile_page df pol pick clicked user_input user_review)"

section \<open>Lemmas\<close>

lemma mistral_not_you [simp]: "mistral_label @ x \<noteq> you_label @ u" "you_label @ u \<noteq> mistral_label @ x"
  by (simp_all add: mistral_label_def you_label_def robot_def technologist_def)

lemma you_not_in_header [simp]: "St_markdown x \<notin> set chat_header"
  by (simp add: chat_header_def)

lemma you_not_in_turn: "St_markdown (you_label @ u) \<notin> set (turn_elements str_of s r)"
  by (auto simp: turn_elements_def split: turn_result.splits)

lemma chat_page_run:
  "chat_page gw pol str_of u s ws = Some (Inr (els, r), ws') \<longleftrightarrow>
   chat_turn gw pol u s ws = Some (Inr r, ws') \<and>
   els = chat_header @ display_history str_of (chat_history s) @ [chat_input_box] @ turn_elements str_of s r"
  by (auto simp: chat_page_def rmap_eq_Some)

lemma reachable_history_shape:
  assumes "reachable s"
  shows "\<exists>t. chat_history s = system_message # t \<and> (\<forall>m \<in> set t. msg_role m \<noteq> System)"
proof -
  from reachable_inv [OF assms] have "take 1 (chat_history s) = [system_message]"
    by (simp add: session_inv_def)
  then obtain t where h: "chat_history s = system_message # t"
    by (cases "chat_history s") auto
  with reachable_roles [OF assms] show ?thesis by auto
qed

lemma chat_turn_replied:
  assumes run: "chat_turn gw pol u s ws = Some (Inr (Replied s' t l), ws')"
  shows "l = analyze_sentiment pol t \<and> last (chat_history s') = assistant_message (JStr t)"
proof -
  let ?s1 = "s\<lparr>chat_history := chat_history s @ [user_message u]\<rparr>"
  have fin: "finish_turn pol s2 v = Replied s' t l \<Longrightarrow> ?thesis" for s2 v
    by (cases v) (auto simp: finish_turn_def Let_def)
  from chat_turn_cases [OF run] consider
      (answer) reply s2 where "Replied s' t l = finish_turn pol s2 (JStr reply)"
    | (phone) "new_phone_turn gw pol u ?s1 ws = Some (Inr (Replied s' t l), ws')"
    by auto
  then show ?thesis
  proof cases
    case answer
    then show ?thesis using fin by metis
  next
    case phone
    from new_phone_turn_cases [OF phone] obtain p a t' where
      r: "Replied s' t l = (case py_iadd_str (mistral_chat gw (chat_history ?s1 @ [user_message (ai_prompt u p)])) (nl @ nl @ t') of
            Inl e \<Rightarrow> Crashed (?s1\<lparr>current_phone := Some p\<rparr>) e
          | Inr reply \<Rightarrow> finish_turn pol (?s1\<lparr>current_phone := Some p, pending_action := Some a\<rparr>) reply)"
      by blast
    then show ?thesis using fin by (auto split: sum.splits)
  qed
qed

section \<open>Properties of the pages\<close>

text \<open>Claim C27. In a reachable session only the first message has role \<open>system\<close>, so the
  display loop, which skips index 0, shows exactly the user and assistant turns, in
  order, each tagged by its role; the system prompt is never shown.\<close>

theorem display_hides_only_system:
  assumes "reachable s"
  shows "display_history str_of (chat_history s) =
         map (display_message str_of) (filter (\<lambda>m. msg_role m \<noteq> System) (chat_history s))"
proof -
  obtain t where h: "chat_history s = system_message # t" and t: "\<forall>m \<in> set t. msg_role m \<noteq> System"
    using reachable_history_shape [OF assms] by blast
  from t have "filter (\<lambda>m. msg_role m \<noteq> System) t = t" by (simp add: filter_id_conv)
  with h show ?thesis by (simp add: display_history_def system_message_def)
qed

theorem display_hides_only_system_witness:
  "\<exists>s1. reachable s1 \<and> display_history (\<lambda>_. []) (chat_history s1) =
     map (display_message (\<lambda>_. [])) (filter (\<lambda>m. msg_role m \<noteq> System) (chat_history s1))"
proof -
  obtain s1 where re: "reachable s1"
    using first_turn_reachable by blast
  show ?thesis using display_hides_only_system [OF re] re by blast
qed

text \<open>Claim C31. The message the user just submitted is not shown in the run that
  answers it: the display loop runs before the input is appended, and everything the
  turn writes is tagged \<open>Mistral\<close> or is a caption or an exception. It can appear
  only as an earlier message of the transcript, and is shown from the next run on.\<close>

theorem current_input_not_echoed:
  assumes run: "chat_page gw pol str_of u s ws = Some (Inr (els, r), ws')"
    and shown: "St_markdown (you_label @ u) \<in> set els"
  shows "St_markdown (you_label @ u) \<in> set (display_history str_of (chat_history s))"
  using shown you_not_in_turn [of u str_of s r] run
  by (auto simp: chat_page_run chat_input_box_def)

theorem current_input_not_echoed_witness:
  "\<exists>els r. chat_page (\<lambda>_. Raised ''down'') (\<lambda>_. 0) (\<lambda>_. []) ''no''
      (init_session\<lparr>chat_history := [system_message, user_message ''no''], pending_action := Some Pros_cons\<rparr>) [] =
      Some (Inr (els, r), []) \<and>
    St_markdown (you_label @ ''no'') \<in> set els \<and>
    St_markdown (you_label @ ''no'') \<in> set (display_history (\<lambda>_. [])
      (chat_history (init_session\<lparr>chat_history := [system_message, user_message ''no''], pending_action := Some Pros_cons\<rparr>)))"
proof -
  let ?s = "init_session\<lparr>chat_history := [system_message, user_message ''no''], pending_action := Some Pros_cons\<rparr>"
  have na: "\<not> is_affirmative ''no''" by (simp add: is_affirmative_def affirm_words_def py_eval)
  obtain els r where run: "chat_page (\<lambda>_. Raised ''down'') (\<lambda>_. 0) (\<lambda>_. []) ''no'' ?s [] = Some (Inr (els, r), [])"
    using na by (simp add: chat_page_def chat_turn_def answer_pending_def rcatch_def rmap_def)
  have sh: "St_markdown (you_label @ ''no'') \<in> set els"
    using run by (auto simp: chat_page_run display_history_def display_message_def user_message_def content_str_def)
  show ?thesis using current_input_not_echoed [OF run sh] run sh by blast
qed

text \<open>Claim C32. A run without input writes the header, one tagged line per message after
  the first and the input box, and no sentiment caption at all: the caption of line 189
  is written only beside the reply of the run that produced it, never for the replies
  of the replayed transcript.\<close>

theorem rerender_without_sentiment:
  "chat_page gw pol str_of [] s ws =
     Some (Inr (chat_header @ display_history str_of (chat_history s) @ [chat_input_box], No_input), ws) \<and>
   (\<forall>c. St_caption c \<notin> set (chat_header @ display_history str_of (chat_history s) @ [chat_input_box]))"
  by (auto simp: chat_page_def chat_turn_def rmap_def turn_elements_def chat_header_def display_history_def
      display_message_def chat_input_box_def)

text \<open>Claim C33. A run that replies ends the page with the reply, tagged \<open>Mistral\<close>,
  and the caption of its sentiment: the caption is computed from the reply the run
  shows (lines 185 and 188--189), and that reply is the message the run appended last
  to the transcript (line 184).\<close>

theorem reply_caption_matches:
  assumes run: "chat_page gw pol str_of u s ws = Some (Inr (els, Replied s' t l), ws')"
  shows "\<exists>pre. els = pre @ [St_markdown (mistral_label @ t),
                            St_caption (bar_chart @ '' Sentiment of AI Response: '' @ analyze_sentiment pol t)] \<and>
               last (chat_history s') = assistant_message (JStr t)"
proof -
  from run have ct: "chat_turn gw pol u s ws = Some (Inr (Replied s' t l), ws')"
    and els: "els = chat_header @ display_history str_of (chat_history s) @ [chat_input_box] @
                    turn_elements str_of s (Replied s' t l)"
    by (simp_all add: chat_page_run)
  from chat_turn_replied [OF ct] els show ?thesis by (simp add: turn_elements_def)
qed

theorem reply_caption_matches_witness:
  "\<exists>els s' t l. chat_page (\<lambda>_. Raised ''down'') (\<lambda>_. 0) (\<lambda>_. []) ''iPhone 15'' init_session [0, 0, 0, 0, 0, 0, 0] =
      Some (Inr (els, Replied s' t l), []) \<and>
    (\<exists>pre. els = pre @ [St_markdown (mistral_label @ t),
                         St_caption (bar_chart @ '' Sentiment of AI Response: '' @ analyze_sentiment (\<lambda>_. 0) t)] \<and>
           last (chat_history s') = assistant_message (JStr t))"
proof -
  obtain s1 reply l where r: "chat_turn (\<lambda>_. Raised ''down'') (\<lambda>_. 0) ''iPhone 15'' init_session [0, 0, 0, 0, 0, 0, 0] =
      Some (Inr (Replied s1 reply l), [])" by (rule first_run_obtain)
  let ?els = "chat_header @ display_history (\<lambda>_. []) (chat_history init_session) @ [chat_input_box] @
              turn_elements (\<lambda>_. []) init_session (Replied s1 reply l)"
  have page: "chat_page (\<lambda>_. Raised ''down'') (\<lambda>_. 0) (\<lambda>_. []) ''iPhone 15'' init_session [0, 0, 0, 0, 0, 0, 0] =
      Some (Inr (?els, Replied s1 reply l), [])"
    using r by (simp add: chat_page_run)
  show ?thesis using reply_caption_matches [OF page] page by blast
qed

end
