(* ===== verification/Spec2Isabelle.thy ===== *)
theory Spec2Isabelle
  imports Chat CatalogData Render
begin

text \<open>
  \<^bold>\<open>A verification development of the mobile-info chatbot.\<close>

  \<^medskip>\<^bold>\<open>The program.\<close> \<^verbatim>\<open>src/main1.py\<close> is a Streamlit chat page. Streamlit
  reruns the script on every submitted input; \<^verbatim>\<open>st.session_state\<close> keeps the
  transcript \<^verbatim>\<open>chat_history\<close>, the \<^verbatim>\<open>pending_action\<close> and the
  \<^verbatim>\<open>current_phone\<close> between runs. One run on a non-empty input is a turn. It
  appends the user's message. If an action is pending, the turn answers it (lines 118--150):
  an affirmative answer shows the IMEI, names a comparable series, estimates a resale
  value or lists pros and cons, and anything else declines. Otherwise the turn resolves a
  new phone with the table-driven \<^verbatim>\<open>get_mobile_info\<close> (lines 40--67), asks the
  language model through \<^verbatim>\<open>mistral_chat\<close> (lines 9--21), appends one of four
  follow-up questions and sets the matching pending action (lines 152--181). The reply is
  appended to the transcript and scored by \<^verbatim>\<open>analyze_sentiment\<close> (lines 72--80,
  183--189). \<^verbatim>\<open>src/mobile.py\<close> is a second page. Its \<^verbatim>\<open>get_mobile_info\<close>
  (lines 18--40) looks the query up in rows loaded from a CSV file. When the button is
  pressed, the page shows the record or a not-found message, and the sentiment of an
  optional comment (lines 62--84).

  \<^medskip>\<^bold>\<open>Theories and what they model.\<close>
  \<^item> \<open>Prelude\<close>: Python's exceptions (\<open>pyexc\<close>) and the random source. The
    source is the list of 32-bit outputs of the Mersenne Twister (\<open>rng\<close>). A
    computation that draws is an \<open>'a rand\<close>: it takes the words and returns
    \<open>None\<close> when it needs more than are given, \<open>Inl e\<close> when it raises \<open>e\<close>,
    and \<open>Inr v\<close> otherwise, with the unread words. \<open>rbind\<close> is sequencing,
    \<open>rcatch\<close> is \<^verbatim>\<open>try\<close>/\<^verbatim>\<open>except\<close>. \<open>rstable\<close> states that more words
    change nothing but the leftover, and every operation of the development has it.
  \<^item> \<open>PyStr\<close>: the \<^verbatim>\<open>str\<close> methods the code calls, on UTF-8 byte strings:
    \<^verbatim>\<open>strip\<close>, \<^verbatim>\<open>lower\<close>, \<^verbatim>\<open>title\<close>, \<^verbatim>\<open>in\<close>, \<^verbatim>\<open>replace\<close>,
    \<^verbatim>\<open>str(int)\<close> and \<^verbatim>\<open>int(str)\<close>, with the round trip
    \<open>py_int (py_str_int n) = Inr n\<close>.
  \<^item> \<open>PyRandom\<close>: CPython 3.12's \<^verbatim>\<open>getrandbits\<close>,
    \<^verbatim>\<open>_randbelow_with_getrandbits\<close> (\<open>randbelow\<close>), \<^verbatim>\<open>randrange\<close>,
    \<^verbatim>\<open>randint\<close>, \<^verbatim>\<open>choice\<close>, \<^verbatim>\<open>random\<close> (53 bits from two words) and
    \<^verbatim>\<open>uniform\<close>, with their ranges and their errors.
  \<^item> \<open>Phone\<close>: \<^verbatim>\<open>series_to_brand\<close> and main1's \<^verbatim>\<open>get_mobile_info\<close>
    (\<open>get_mobile_info\<close>, \<open>find_series\<close>, \<open>model_name\<close>), and the record check
    \<open>wf_phone\<close>.
  \<^item> \<open>Gateway\<close>: \<^verbatim>\<open>mistral_chat\<close> after the HTTP call. Decoded JSON is a
    Python value (\<open>json\<close>). \<^verbatim>\<open>in\<close>, \<^verbatim>\<open>[]\<close> and \<^verbatim>\<open>+=\<close> on it raise
    the exceptions Python raises.
  \<^item> \<open>Sentiment\<close>: the thresholds of \<^verbatim>\<open>analyze_sentiment\<close>, compared with the
    exact value of the double \<^verbatim>\<open>0.1\<close> (\<open>float_tenth\<close>).
  \<^item> \<open>Chat\<close>: the session state (\<open>session\<close>, \<open>init_session\<close>), the
    pending-action branch (\<open>answer_pending\<close>), the new-phone branch
    (\<open>new_phone_turn\<close>), the end of the run (\<open>finish_turn\<close>) and the turn
    (\<open>chat_turn\<close>). A turn's outcome is \<open>No_input\<close>, \<open>Replied\<close> or
    \<open>Crashed\<close>. A crashed turn keeps every state write made before the exception,
    as Streamlit does. \<open>reachable\<close> is the inductive set of sessions reachable by
    turns. \<open>spec_step\<close> and \<open>abs_state\<close> are the abstract state machine of the
    spec (section 4.3).
  \<^item> \<open>Catalog\<close>: mobile.py's \<^verbatim>\<open>get_mobile_info\<close>
    (\<open>get_mobile_info_catalog\<close>) over a list of rows, and the page (\<open>mobile_page\<close>).
    \<^verbatim>\<open>sample(1)\<close> (\<open>df_sample\<close>) raises on an empty frame, as pandas does.
  \<^item> \<open>CatalogData\<close>: the generator of the catalog's rows, kept as comments at the end
    of mobile.py (lines 85--119): the brand and series table (\<open>brands_series\<close>), the
    three nested loops (\<open>gen_brands\<close>, \<open>gen_series\<close>, \<open>gen_models\<close>) that
    draw a launch year and a price per model, and \<open>generate_catalog\<close>.
  \<^item> \<open>Render\<close>: what a run of each page writes, in order, as a list of
    \<open>element\<close>s (one constructor per Streamlit call the pages make). For main1.py,
    \<open>chat_page\<close> is the header (lines 85--87), the replayed transcript
    (\<open>display_history\<close>, lines 105--109), the input box (line 112) and what the turn
    writes (\<open>turn_elements\<close>: the reply and its caption, lines 185 and 189, or the
    exception of a crashed run). For mobile.py, \<open>mobile_page_render\<close> is the header
    and widgets (lines 58--63) and the elements of the page's outcome (lines 65--84).
  \<^item> This theory: the properties that span the provider, the gateway and the
    conversation.

  \<^medskip>\<^bold>\<open>What is proved.\<close>
  \<^item> The conversation refines the spec's state machine (\<open>chat_turn_refines_spec\<close>),
    with one exception: an affirmed \<open>follow_up\<close> is never cleared
    (\<open>follow_up_never_cleared\<close>). The exception is reachable and breaks the spec
    (\<open>follow_up_violates_spec\<close>).
  \<^item> Every reachable session keeps its invariant (\<open>reachable_session_inv\<close>): the
    system message stays first, and a pending action comes with a well-formed stored
    phone.
  \<^item> A turn with a pending action never crashes (\<open>pending_turn_completes\<close>).
  \<^item> A new-phone turn crashes when the model's content is not a string
    (\<open>non_string_content_crashes\<close>), but still replies when the gateway fails
    (\<open>gateway_failure_still_awaits\<close>).
  \<^item> The functional behaviour of each branch: \<open>idle_turn_awaits\<close>,
    \<open>decline_resets\<close>, \<open>show_imei_reveals\<close>, \<open>ok_substring_affirms\<close>, and on
    reachable sessions \<open>resale_turn_bounds\<close>.
  \<^item> The transcript is append-only (\<open>chat_turn_transcript\<close>). Its contents are of
    Python type \<open>str\<close> or \<open>list\<close>, and a list content of the model is stored
    before the turn crashes (\<open>history_content_type\<close>).
  \<^item> On a reachable session, a turn returns a reply, never a crash, on a bounded supply
    of accepted generator words when the model's content is a string
    (\<open>chat_turn_returns\<close>, at most 8). The provider returns a well-formed record on
    at most 7 (\<open>get_mobile_info_terminates\<close>).
  \<^item> The table provider: its records are well formed (\<open>get_mobile_info_wf\<close>,
    IMEI 15 digits, years ordered), it never raises (\<open>get_mobile_info_no_error\<close>),
    its series is the spec's first match (\<open>find_series_first_match\<close>), and its
    matching quirks (\<open>get_mobile_info_iphone\<close>, \<open>v_series_captures\<close>).
  \<^item> The catalog provider and its page: \<open>catalog_record_from_row\<close>,
    \<open>catalog_not_found_iff\<close>,
    \<open>mobile_page_not_found\<close>, \<open>mobile_page_outcomes\<close>,
    \<open>mobile_page_never_raises\<close>.
  \<^item> The gateway's swallowed-error contract (\<open>mistral_reply_contract\<close>).
  \<^item> The price round trip between provider and resale branch
    (\<open>price_resale_roundtrip\<close>, below).
  \<^item> The turn's use of the gateway (below): a new-phone turn's one request carries the
    transcript and the synthesized prompt (\<open>new_phone_turn_single_request\<close>), and
    answering a pending action makes none (\<open>pending_turn_no_request\<close>).
  \<^item> An affirmed compare names a series of the table (\<open>compare_turn\<close>, below).
  \<^item> The generated catalog: 240 well-formed rows drawn from 480 accepted words
    (\<open>generated_catalog_rows\<close>); a query is found exactly when it names one of the
    generated models, case-insensitively, and then the row found is that model's
    (\<open>generated_catalog_recognises\<close>, \<open>generated_model_found\<close>,
    \<open>generated_page_not_found\<close>).
  \<^item> The pages: the replayed transcript is exactly the non-system messages, tagged by
    role (\<open>display_hides_only_system\<close>); the run answering an input does not show
    that input (\<open>current_input_not_echoed\<close>); a rerun shows no sentiment caption
    (\<open>rerender_without_sentiment\<close>); a reply run ends with the reply and the
    caption of its own sentiment (\<open>reply_caption_matches\<close>).

  \<^medskip>\<^bold>\<open>Loops, fuel and bounds.\<close> The only loop that may not end is the rejection
  loop of \<^verbatim>\<open>_randbelow\<close>. Each iteration consumes one word, so on a finite word
  list the loop terminates (a \<open>function\<close> with a measure on the length of the list).
  Running out of words is the value \<open>None\<close>, never a result. \<open>randbelow_None_iff\<close>
  shows that \<open>None\<close> happens exactly when no word of the list is accepted, and
  \<open>rstable\<close> shows that appending words never changes a result. No other fuel is
  used. \<open>rbounded k m\<close> (Prelude) states that \<open>m\<close> returns on \<open>k\<close> zero
  words followed by anything, leaving some of them unread. It composes through
  \<open>rbind\<close>, \<open>rcatch\<close> and \<open>rmap\<close>, so every loop of a turn ends when its
  words are accepted. The bounds 7 and 8 count the draws:
  \<^item> \<open>get_mobile_info\<close> reads one word for the series, one each for the two years,
    the condition and the price, and two for the IMEI;
  \<^item> a new-phone turn reads one more, for the next action;
  \<^item> a pending action reads at most two, for \<^verbatim>\<open>uniform\<close>.
  The generator reads one word for each row's launch year and one for its price (both
  ranges are below \<open>2\<^sup>32\<close>), hence 480 words for its 240 rows.
  The concrete runs use words equal to 0, which every draw accepts:
  \<^item> \<open>get_mobile_info\<close> reads 6 words (the IMEI draw needs 50 bits, so 2 words);
  \<^item> a new-phone turn reads 7;
  \<^item> \<^verbatim>\<open>uniform\<close> reads 2.
  Integers are Python's unbounded \<open>int\<close>; the generator words are \<open>32 word\<close>.

  \<^medskip>\<^bold>\<open>Not modelled.\<close>
  \<^item> Streamlit's own rendering of the elements, and the spinner of main1.py line 168,
    which is shown only while the request runs. \<^verbatim>\<open>str()\<close> of a non-string
    message content is a parameter (\<open>str_of\<close>).
  \<^item> External services, each a parameter of the model: the HTTP request (\<open>gateway\<close>),
    TextBlob's polarity (\<open>scorer\<close>), pandas' \<^verbatim>\<open>read_csv\<close> (the rows are a
    list of typed rows, so a malformed column is not modelled), and numpy's
    \<^verbatim>\<open>sample(1)\<close> (an index \<open>pick\<close>).
  \<^item> Floating point: \<^verbatim>\<open>random()\<close> and \<^verbatim>\<open>uniform\<close> are exact rationals, and
    the resale estimate multiplies exactly. The roundings of \<^verbatim>\<open>uniform\<close> and of
    \<^verbatim>\<open>price * uniform(...)\<close> are not modelled. For the reachable prices (8000 to
    100000 rupees, which \<open>resale_turn_bounds\<close> assumes) the price is exact as a double.
    For prices above \<open>2\<^sup>53\<close> Python's product differs, and from \<open>2\<^sup>1024\<close> on it
    raises \<open>OverflowError\<close>. The polarity of TextBlob is the exact value of its
    float, so the comparisons with \<^verbatim>\<open>0.1\<close> are exact.
  \<^item> Case mapping is ASCII-only.
  \<^item> Loading the CSV file (mobile.py lines 9--13: \<^verbatim>\<open>read_csv\<close> under
    \<^verbatim>\<open>st.cache_data\<close>) and the generator's \<^verbatim>\<open>to_csv\<close>: the rows are a list
    on both sides, and the text format of the file is not modelled.
\<close>

text \<open>Claim C18. The price \<^verbatim>\<open>get_mobile_info\<close> writes (main1.py line 55) is
  read back by the resale branch (line 137): removing the rupee sign and applying
  \<^verbatim>\<open>int\<close> gives the drawn number, between 8000 and 100000, so that branch never
  raises on a stored phone.\<close>

theorem price_resale_roundtrip:
  assumes "get_mobile_info q ws = Some (Inr p, ws')"
  shows "\<exists>n. 8000 \<le> n \<and> n \<le> 100000 \<and> price p = rupee @ py_str_int n \<and>
             py_int (py_replace rupee [] (price p)) = Inr n"
proof -
  have "wf_price (price p)" using get_mobile_info_result_wf [OF assms] by (simp add: wf_phone_def)
  then obtain n where n: "8000 \<le> n" "n \<le> 100000" "price p = rupee @ py_str_int n"
    using wf_price_parts by blast
  then have "py_int (py_replace rupee [] (price p)) = Inr n" by (simp add: strip_rupee)
  with n show ?thesis by blast
qed

theorem price_resale_roundtrip_witness:
  "\<exists>p ws'. get_mobile_info ''iPhone 15'' [0, 0, 0, 0, 0, 0, 0] = Some (Inr p, ws') \<and>
     (\<exists>n. 8000 \<le> n \<and> n \<le> 100000 \<and> price p = rupee @ py_str_int n \<and> py_int (py_replace rupee [] (price p)) = Inr n)"
proof -
  obtain p ws' where run: "get_mobile_info ''iPhone 15'' [0, 0, 0, 0, 0, 0, 0] = Some (Inr p, ws')"
    using get_mobile_info_iphone_runs by blast
  show ?thesis using price_resale_roundtrip [OF run] run by blast
qed

section \<open>The conversation and the gateway\<close>

lemma new_phone_turn_gateway:
  assumes gm: "get_mobile_info u ws = Some (Inr p, ws1)"
    and gw: "gw (mistral_payload (chat_history s @ [user_message (ai_prompt u p)])) =
             gw' (mistral_payload (chat_history s @ [user_message (ai_prompt u p)]))"
  shows "new_phone_turn gw pol u s ws = new_phone_turn gw' pol u s ws"
  using gm gw by (simp add: new_phone_turn_def Let_def rcatch_apply rbind_apply mistral_chat_def)

lemma choice_series_keys_0: "choice series_keys [0] = Some (Inr ''iPhone'', [])"
  by (simp add: choice_def randbelow_one_word accepts_def py_eval)

text \<open>Claim C23. A new-phone turn makes one request, and its payload is the model name
  and the whole transcript, the user's message included, followed by the synthesized
  prompt with the phone details (spec 4.3, From Idle): two gateways that agree on that
  payload give the same turn.\<close>

theorem new_phone_turn_single_request:
  assumes "pending_action s = None" and "u \<noteq> []" and "get_mobile_info u ws = Some (Inr p, ws1)"
    and "gw (mistral_payload (chat_history s @ [user_message u, user_message (ai_prompt u p)])) =
         gw' (mistral_payload (chat_history s @ [user_message u, user_message (ai_prompt u p)]))"
  shows "chat_turn gw pol u s ws = chat_turn gw' pol u s ws"
  using assms new_phone_turn_gateway [OF assms(3), of gw "s\<lparr>chat_history := chat_history s @ [user_message u]\<rparr>" gw']
  by (simp add: chat_turn_def Let_def)

theorem new_phone_turn_single_request_witness:
  "\<exists>p ws1. pending_action init_session = None \<and> ''iPhone 15'' \<noteq> [] \<and>
     get_mobile_info ''iPhone 15'' [0, 0, 0, 0, 0, 0, 0] = Some (Inr p, ws1) \<and>
     (\<lambda>_. Raised ''down'') (mistral_payload (chat_history init_session @ [user_message ''iPhone 15'', user_message (ai_prompt ''iPhone 15'' p)])) =
     (\<lambda>x. if x = mistral_payload (chat_history init_session @ [user_message ''iPhone 15'', user_message (ai_prompt ''iPhone 15'' p)])
           then Raised ''down'' else Decoded JNull)
       (mistral_payload (chat_history init_session @ [user_message ''iPhone 15'', user_message (ai_prompt ''iPhone 15'' p)])) \<and>
     chat_turn (\<lambda>_. Raised ''down'') (\<lambda>_. 0) ''iPhone 15'' init_session [0, 0, 0, 0, 0, 0, 0] =
     chat_turn (\<lambda>x. if x = mistral_payload (chat_history init_session @ [user_message ''iPhone 15'', user_message (ai_prompt ''iPhone 15'' p)])
                    then Raised ''down'' else Decoded JNull) (\<lambda>_. 0) ''iPhone 15'' init_session [0, 0, 0, 0, 0, 0, 0]"
proof -
  obtain p ws1 where gm: "get_mobile_info ''iPhone 15'' [0, 0, 0, 0, 0, 0, 0] = Some (Inr p, ws1)"
    using get_mobile_info_iphone_runs by blast
  let ?X = "mistral_payload (chat_history init_session @ [user_message ''iPhone 15'', user_message (ai_prompt ''iPhone 15'' p)])"
  have n: "pending_action init_session = None" by (simp add: init_session_def)
  have "chat_turn (\<lambda>_. Raised ''down'') (\<lambda>_. 0) ''iPhone 15'' init_session [0, 0, 0, 0, 0, 0, 0] =
        chat_turn (\<lambda>x. if x = ?X then Raised ''down'' else Decoded JNull) (\<lambda>_. 0) ''iPhone 15'' init_session [0, 0, 0, 0, 0, 0, 0]"
    by (rule new_phone_turn_single_request [OF n _ gm]) simp_all
  with n gm show ?thesis by auto
qed

text \<open>Claim C24. A turn that answers a pending action makes no request: its outcome does
  not depend on the gateway.\<close>

theorem pending_turn_no_request:
  "pending_action s \<noteq> None \<Longrightarrow> chat_turn gw pol u s ws = chat_turn gw' pol u s ws"
  by (auto simp: chat_turn_def Let_def split: option.splits)

theorem pending_turn_no_request_witness:
  "pending_action (init_session\<lparr>pending_action := Some Pros_cons\<rparr>) \<noteq> None \<and>
   chat_turn (\<lambda>_. Raised ''down'') (\<lambda>_. 0) ''yes'' (init_session\<lparr>pending_action := Some Pros_cons\<rparr>) [] =
   chat_turn (\<lambda>_. Decoded JNull) (\<lambda>_. 0) ''yes'' (init_session\<lparr>pending_action := Some Pros_cons\<rparr>) []"
  using pending_turn_no_request [of "init_session\<lparr>pending_action := Some Pros_cons\<rparr>" "\<lambda>_. Raised ''down''" "\<lambda>_. 0" "''yes''" "[]" "\<lambda>_. Decoded JNull"]
  by simp

text \<open>Claim C21. An affirmed \<^verbatim>\<open>compare\<close> names a series of the table as comparable,
  keeps the stored phone and returns to Idle.\<close>

theorem compare_turn:
  assumes "pending_action s = Some Compare" and "is_affirmative u"
    and run: "chat_turn gw pol u s ws = Some (Inr r, ws')"
  shows "\<exists>c s' l. c \<in> set series_keys \<and>
           r = Replied s' (''This model is comparable to the **'' @ c @ ''** series in performance and pricing.'') l \<and>
           pending_action s' = None \<and> current_phone s' = current_phone s"
proof -
  from assms(2) have u: "u \<noteq> []" by (auto simp: is_affirmative_def affirm_words_def py_lower_def)
  let ?s1 = "s\<lparr>chat_history := chat_history s @ [user_message u]\<rparr>"
  have nr: "answer_pending Compare u ?s1 ws \<noteq> Some (Inl e, ws')" for e
    using assms(2) by (auto simp: answer_pending_def rbind_eq_Some_Inl choice_no_error)
  from chat_turn_cases [OF run] assms(1) u nr obtain reply s2 where
    ap: "answer_pending Compare u ?s1 ws = Some (Inr (reply, s2), ws')" and r: "r = finish_turn pol s2 (JStr reply)"
    by auto
  from ap assms(2) obtain c where c: "choice series_keys ws = Some (Inr c, ws')"
    and reply: "reply = ''This model is comparable to the **'' @ c @ ''** series in performance and pricing.''"
    and s2: "s2 = ?s1\<lparr>pending_action := None\<rparr>"
    by (auto simp: answer_pending_def rbind_eq_Some_Inr)
  from choice_result [OF c] r reply s2 show ?thesis by (auto simp: finish_turn_JStr)
qed

theorem compare_turn_witness:
  "\<exists>r. pending_action (init_session\<lparr>pending_action := Some Compare\<rparr>) = Some Compare \<and> is_affirmative ''sure'' \<and>
     chat_turn (\<lambda>_. Raised ''down'') (\<lambda>_. 0) ''sure'' (init_session\<lparr>pending_action := Some Compare\<rparr>) [0] = Some (Inr r, []) \<and>
     (\<exists>c s' l. c \<in> set series_keys \<and>
           r = Replied s' (''This model is comparable to the **'' @ c @ ''** series in performance and pricing.'') l \<and>
           pending_action s' = None \<and> current_phone s' = current_phone (init_session\<lparr>pending_action := Some Compare\<rparr>))"
proof -
  have a: "is_affirmative ''sure''" by (simp add: is_affirmative_def affirm_words_def py_eval)
  have p: "pending_action (init_session\<lparr>pending_action := Some Compare\<rparr>) = Some Compare" by simp
  obtain r where run: "chat_turn (\<lambda>_. Raised ''down'') (\<lambda>_. 0) ''sure'' (init_session\<lparr>pending_action := Some Compare\<rparr>) [0] = Some (Inr r, [])"
    using a by (simp add: chat_turn_def answer_pending_def choice_series_keys_0 rcatch_def rmap_def rbind_apply)
  show ?thesis using compare_turn [OF p a run] p a run by blast
qed

end
